theory Spec2Isabelle
  imports Complex_Main
begin

section \<open>The bear configurator: scene objects, materials and the three scripts\<close>

text \<open>
  The repository holds three versions of the configurator script:
  \<^item> the first \<open>script.js\<close> (class based, placeholder cube, recolouring by mesh name);
    its functions carry the suffix \<open>_v1\<close> where they differ from the second version;
  \<^item> the second \<open>script.js\<close> (class based, three bear forms, recolouring by the material
    name \<open>EyeBlack\<close>, materials cloned before the first write); suffix \<open>_v2\<close>;
  \<^item> the module script with textures, hats and the loading fallback
    (\<open>updateBearSkin\<close>, \<open>updatePartColor\<close>, \<open>updateHat\<close>, \<open>toggleScarf\<close>, ...).

  JavaScript objects are shared by reference. Meshes and materials therefore live in an
  explicit store: a mesh is addressed by a node reference, a material by a material
  reference, and \<open>material.clone()\<close> allocates the next free material reference.
  Identifiers (form, colour, skin, accessory names) are strings. A table of the scripts is
  a map over the table's own keys, \<open>None\<close> standing for \<open>undefined\<close> and \<open>null\<close>. The
  tables are plain objects, so a lookup \<open>table[id]\<close> also finds the names inherited from
  \<open>Object.prototype\<close>; the module script's lookups \<open>textures[skinName]\<close> and
  \<open>accessories[name]\<close> are modelled with them (\<open>getProperty\<close>). In the class-based
  scripts a colour lookup only feeds \<open>new THREE.Color\<close>, for which an inherited function
  and \<open>undefined\<close> are the same; form and accessory names there are looked up among the
  own keys. A colour is the 24-bit number \<open>Color.setHex\<close> keeps; colour arguments are
  integers.
\<close>

subsection \<open>Strings\<close>

text \<open>\<open>s.includes(pat)\<close>: \<open>pat\<close> occurs in \<open>s\<close> as a contiguous substring.\<close>

fun str_includes :: "string \<Rightarrow> string \<Rightarrow> bool" where
  "str_includes [] pat = (pat = [])"
| "str_includes (c # cs) pat = (take (length pat) (c # cs) = pat \<or> str_includes cs pat)"

subsection \<open>Property lookup on plain objects\<close>

text \<open>The property names every plain object inherits from \<open>Object.prototype\<close>.\<close>

definition Object_prototype :: "string list" where
  "Object_prototype =
     [''constructor'', ''hasOwnProperty'', ''isPrototypeOf'', ''propertyIsEnumerable'',
      ''toLocaleString'', ''toString'', ''valueOf'', ''__proto__'', ''__defineGetter__'',
      ''__defineSetter__'', ''__lookupGetter__'', ''__lookupSetter__'']"

text \<open>
  The value of \<open>table[name]\<close>: an own value of the table, or the function (for
  \<open>__proto__\<close> the object) inherited under that name, or \<open>None\<close> for \<open>undefined\<close> and
  \<open>null\<close>. An own key hides an inherited one. Every value but \<open>None\<close> is truthy.
\<close>

datatype 'a property = Own 'a | Inherited string

definition getProperty :: "(string \<rightharpoonup> 'a) \<Rightarrow> string \<Rightarrow> 'a property option" where
  "getProperty table name =
     (case table name of
        Some v \<Rightarrow> Some (Own v)
      | None \<Rightarrow> if name \<in> set Object_prototype then Some (Inherited name) else None)"

subsection \<open>Uncaught errors\<close>

text \<open>
  A function of the scripts either returns or ends with an uncaught \<open>TypeError\<close>; in both
  cases the state it has reached stays. \<open>andThen\<close> runs the rest of a function body after
  a call that returned.
\<close>

datatype 'a outcome = Returns 'a | Throws 'a

primrec stateOf :: "'a outcome \<Rightarrow> 'a" where
  "stateOf (Returns s) = s"
| "stateOf (Throws s) = s"

definition andThen :: "'a outcome \<Rightarrow> ('a \<Rightarrow> 'a outcome) \<Rightarrow> 'a outcome" where
  "andThen r rest = (case r of Returns s \<Rightarrow> rest s | Throws s \<Rightarrow> Throws s)"

subsection \<open>Materials, nodes, objects\<close>

text \<open>
  \<open>Color.setHex(hex)\<close> reads the three colour bytes of \<open>hex\<close>; what it stores is the number
  made of the low 24 bits.
\<close>

definition setHex :: "int \<Rightarrow> int" where
  "setHex hex = hex mod 0x1000000"

text \<open>
  A material: its name, base colour, \<open>map\<close> (a value of the table \<open>textures\<close>, a texture
  being identified by the image path it was loaded from), the \<open>needsUpdate\<close> mark and the
  three \<open>userData\<close> flags the scripts use.
\<close>

record material =
  mname :: string
  color :: int
  tex_map :: "string property option"
  needsUpdate :: bool
  isCloned :: bool
  isEyeCloned :: bool
  isNoseCloned :: bool

text \<open>
  A node of a loaded scene: a mesh (\<open>child.isMesh\<close>) with its name and the reference of
  its material, or any other kind of object.
\<close>

datatype node = Mesh string nat | Object3D string

record store =
  nodeAt :: "nat \<Rightarrow> node"
  mats :: "nat \<Rightarrow> material"
  nextMat :: nat

text \<open>
  A scene object (a bear model or an accessory): its visibility flag, position, scale,
  rotation and the references of the nodes \<open>traverse\<close> visits (the object itself and its
  descendants, in that order). The numbers of position, scale and rotation are only
  stored, never computed with; they are kept as rationals, the rotation angles in degrees
  (the scripts store the degrees times \<open>\<pi>/180\<close>).
\<close>

record object3d =
  visible :: bool
  position :: "rat \<times> rat \<times> rat"
  scale :: "rat \<times> rat \<times> rat"
  rotation :: "rat \<times> rat \<times> rat"
  nodes :: "nat list"

text \<open>\<open>object.traverse(callback)\<close>, the callback acting on the store.\<close>

definition traverse :: "(nat \<Rightarrow> store \<Rightarrow> store) \<Rightarrow> object3d \<Rightarrow> store \<Rightarrow> store" where
  "traverse callback obj h = fold callback (nodes obj) h"

text \<open>
  The block
  \<^verbatim>\<open>if (!child.material.userData.F) {
      child.material = child.material.clone();
      child.material.userData.F = true; }\<close>
  for a flag \<open>F\<close>, given by its reader \<open>flag\<close> and its setter \<open>mark\<close>. The clone is a new
  material with the fields of the old one.
\<close>

definition ensureCloned ::
  "(material \<Rightarrow> bool) \<Rightarrow> (material \<Rightarrow> material) \<Rightarrow> nat \<Rightarrow> store \<Rightarrow> store" where
  "ensureCloned flag mark child h =
     (case nodeAt h child of
        Object3D _ \<Rightarrow> h
      | Mesh nm m \<Rightarrow>
          if \<not> flag (mats h m) then
            h\<lparr>nodeAt := (nodeAt h)(child := Mesh nm (nextMat h)),
              mats := (mats h)(nextMat h := mark (mats h m)),
              nextMat := Suc (nextMat h)\<rparr>
          else h)"

text \<open>A write to fields of \<open>child.material\<close>, in place.\<close>

definition withMaterial :: "nat \<Rightarrow> (material \<Rightarrow> material) \<Rightarrow> store \<Rightarrow> store" where
  "withMaterial child f h =
     (case nodeAt h child of
        Object3D _ \<Rightarrow> h
      | Mesh nm m \<Rightarrow> h\<lparr>mats := (mats h)(m := f (mats h m))\<rparr>)"

text \<open>The colour of a surface is the colour of the material it references.\<close>

definition surfaceMaterial :: "store \<Rightarrow> nat \<Rightarrow> material option" where
  "surfaceMaterial h child =
     (case nodeAt h child of Object3D _ \<Rightarrow> None | Mesh nm m \<Rightarrow> Some (mats h m))"

subsection \<open>The class-based scripts: configuration\<close>

definition CONFIG_colors_fur :: "string \<rightharpoonup> int" where
  "CONFIG_colors_fur =
     [''brown'' \<mapsto> 0x8B4513, ''beige'' \<mapsto> 0xD2B48C, ''white'' \<mapsto> 0xF5F5DC, ''pink'' \<mapsto> 0xFFB6C1]"

definition CONFIG_colors_eyes :: "string \<rightharpoonup> int" where
  "CONFIG_colors_eyes =
     [''black'' \<mapsto> 0x000000, ''blue'' \<mapsto> 0x4169E1, ''brown'' \<mapsto> 0x654321, ''green'' \<mapsto> 0x228B22]"

text \<open>
  \<open>new THREE.Color(x)\<close>: the library's constructor starts from white and, for a number
  \<open>x\<close>, calls \<open>setHex(x)\<close>; for \<open>undefined\<close> and for a function it leaves white. \<open>None\<close>
  is a lookup that found no own number.
\<close>

definition THREE_Color :: "int option \<Rightarrow> int" where
  "THREE_Color x = (case x of None \<Rightarrow> 0xFFFFFF | Some hex \<Rightarrow> setHex hex)"

text \<open>
  \<open>new THREE.MeshStandardMaterial({color: x, ...})\<close>: a material without name, texture
  and \<open>userData\<close>, of the given colour.
\<close>

definition MeshStandardMaterial :: "int option \<Rightarrow> material" where
  "MeshStandardMaterial x =
     \<lparr>mname = [], color = THREE_Color x, tex_map = None, needsUpdate = False,
      isCloned = False, isEyeCloned = False, isNoseCloned = False\<rparr>"

subsection \<open>Configuration State (class \<open>BearState\<close>)\<close>

record bear_state =
  currentForm :: string
  furColor :: string
  bs_eyeColor :: string
  bs_accessories :: "string \<rightharpoonup> bool"

definition CONFIG_defaultState :: bear_state where
  "CONFIG_defaultState =
     \<lparr>currentForm = ''sitting'', furColor = ''brown'', bs_eyeColor = ''black'',
      bs_accessories = [''hat'' \<mapsto> False, ''bow'' \<mapsto> False, ''scarf'' \<mapsto> False]\<rparr>"

definition reset :: "bear_state \<Rightarrow> bear_state" where
  "reset this =
     this\<lparr>currentForm := currentForm CONFIG_defaultState,
          furColor := furColor CONFIG_defaultState,
          bs_eyeColor := bs_eyeColor CONFIG_defaultState,
          bs_accessories := bs_accessories CONFIG_defaultState\<rparr>"

subsection \<open>Scene Manager (class \<open>SceneManager\<close>)\<close>

text \<open>
  The scene objects sit in an object store, because \<open>currentBear\<close> is a second reference
  to an object the registry \<open>bearModels\<close> may hold as well.
\<close>

record scene_manager =
  objs :: "nat \<Rightarrow> object3d"
  sm_store :: store
  bearModels :: "string \<rightharpoonup> nat"
  sm_accessories :: "string \<rightharpoonup> nat"
  currentBear :: "nat option"

text \<open>The assignment \<open>object.visible = v\<close> to the object with reference \<open>r\<close>.\<close>

definition setVisible :: "nat \<Rightarrow> bool \<Rightarrow> scene_manager \<Rightarrow> scene_manager" where
  "setVisible r v sm = sm\<lparr>objs := (objs sm)(r := (objs sm r)\<lparr>visible := v\<rparr>)\<rparr>"

text \<open>First version of \<open>switchBearForm\<close>.\<close>

definition switchBearForm_v1 :: "string \<Rightarrow> scene_manager \<Rightarrow> scene_manager" where
  "switchBearForm_v1 formName sm =
     (let sm1 = (case currentBear sm of None \<Rightarrow> sm | Some cur \<Rightarrow> setVisible cur False sm)
      in case bearModels sm1 formName of
           None \<Rightarrow> sm1
         | Some newBear \<Rightarrow> (setVisible newBear True sm1)\<lparr>currentBear := Some newBear\<rparr>)"

text \<open>
  The table of \<open>repositionAccessories\<close>: per form, hat \<open>(y, scale)\<close>, bow \<open>(x, y, scale)\<close>,
  scarf \<open>(y, scale)\<close>.
\<close>

definition positions ::
  "string \<rightharpoonup> ((rat \<times> rat) \<times> (rat \<times> rat \<times> rat) \<times> (rat \<times> rat))" where
  "positions =
     [''sitting'' \<mapsto> ((17/10, 1), (3/10, 16/10, 8/10), (1, 1)),
      ''standing'' \<mapsto> ((2, 1), (28/100, 19/10, 8/10), (15/10, 1)),
      ''compact'' \<mapsto> ((14/10, 9/10), (3/10, 13/10, 7/10), (8/10, 9/10))]"

text \<open>The assignment \<open>position.y = y\<close> and the vector of \<open>scale.setScalar(s)\<close>.\<close>

definition setY :: "rat \<Rightarrow> rat \<times> rat \<times> rat \<Rightarrow> rat \<times> rat \<times> rat" where
  "setY y p = (case p of (x, _, z) \<Rightarrow> (x, y, z))"

definition setScalar :: "rat \<Rightarrow> rat \<times> rat \<times> rat" where
  "setScalar s = (s, s, s)"

definition repositionAccessories :: "string \<Rightarrow> scene_manager \<Rightarrow> scene_manager" where
  "repositionAccessories formName sm =
     (case positions formName of
        None \<Rightarrow> sm
      | Some (hat, bow, scarf) \<Rightarrow>
          let sm1 = (case sm_accessories sm ''hat'' of
                       None \<Rightarrow> sm
                     | Some r \<Rightarrow> sm\<lparr>objs := (objs sm)(r := (objs sm r)
                         \<lparr>position := setY (fst hat) (position (objs sm r)),
                          scale := setScalar (snd hat)\<rparr>)\<rparr>);
              sm2 = (case sm_accessories sm1 ''bow'' of
                       None \<Rightarrow> sm1
                     | Some r \<Rightarrow> sm1\<lparr>objs := (objs sm1)(r := (objs sm1 r)
                         \<lparr>position := (fst bow, fst (snd bow), 0),
                          scale := setScalar (snd (snd bow))\<rparr>)\<rparr>)
          in (case sm_accessories sm2 ''scarf'' of
                None \<Rightarrow> sm2
              | Some r \<Rightarrow> sm2\<lparr>objs := (objs sm2)(r := (objs sm2 r)
                  \<lparr>position := setY (fst scarf) (position (objs sm2 r)),
                   scale := setScalar (snd scarf)\<rparr>)\<rparr>))"

text \<open>Second version of \<open>switchBearForm\<close>.\<close>

definition switchBearForm_v2 :: "string \<Rightarrow> scene_manager \<Rightarrow> scene_manager" where
  "switchBearForm_v2 formName sm =
     (let sm1 = (case currentBear sm of None \<Rightarrow> sm | Some cur \<Rightarrow> setVisible cur False sm)
      in case bearModels sm1 formName of
           None \<Rightarrow> sm1
         | Some newBear \<Rightarrow>
             repositionAccessories formName
               ((setVisible newBear True sm1)\<lparr>currentBear := Some newBear\<rparr>))"

text \<open>First version of the recolouring: by mesh name, written into the material in place.\<close>

definition furChild_v1 :: "int \<Rightarrow> nat \<Rightarrow> store \<Rightarrow> store" where
  "furChild_v1 c child h =
     (case nodeAt h child of
        Object3D _ \<Rightarrow> h
      | Mesh nm m \<Rightarrow>
          if str_includes nm ''Body'' then withMaterial child (color_update (\<lambda>_. c)) h else h)"

definition updateFurColor_v1 :: "string \<Rightarrow> scene_manager \<Rightarrow> scene_manager" where
  "updateFurColor_v1 colorName sm =
     (case currentBear sm of
        None \<Rightarrow> sm
      | Some b \<Rightarrow>
          let c = THREE_Color (CONFIG_colors_fur colorName)
          in sm\<lparr>sm_store := traverse (furChild_v1 c) (objs sm b) (sm_store sm)\<rparr>)"

definition eyeChild_v1 :: "int \<Rightarrow> nat \<Rightarrow> store \<Rightarrow> store" where
  "eyeChild_v1 c child h =
     (case nodeAt h child of
        Object3D _ \<Rightarrow> h
      | Mesh nm m \<Rightarrow>
          if str_includes nm ''Eye'' then withMaterial child (color_update (\<lambda>_. c)) h else h)"

definition updateEyeColor_v1 :: "string \<Rightarrow> scene_manager \<Rightarrow> scene_manager" where
  "updateEyeColor_v1 colorName sm =
     (case currentBear sm of
        None \<Rightarrow> sm
      | Some b \<Rightarrow>
          let c = THREE_Color (CONFIG_colors_eyes colorName)
          in sm\<lparr>sm_store := traverse (eyeChild_v1 c) (objs sm b) (sm_store sm)\<rparr>)"

text \<open>
  Second version: fur is every mesh whose material is not named \<open>EyeBlack\<close>, eyes are the
  meshes whose material is; the material is cloned before the first write.
\<close>

definition furChild_v2 :: "int \<Rightarrow> nat \<Rightarrow> store \<Rightarrow> store" where
  "furChild_v2 c child h =
     (case nodeAt h child of
        Object3D _ \<Rightarrow> h
      | Mesh nm m \<Rightarrow>
          if mname (mats h m) \<noteq> ''EyeBlack'' then
            withMaterial child (color_update (\<lambda>_. c))
              (ensureCloned isCloned (isCloned_update (\<lambda>_. True)) child h)
          else h)"

definition updateFurColor_v2 :: "string \<Rightarrow> scene_manager \<Rightarrow> scene_manager" where
  "updateFurColor_v2 colorName sm =
     (case currentBear sm of
        None \<Rightarrow> sm
      | Some b \<Rightarrow>
          let c = THREE_Color (CONFIG_colors_fur colorName)
          in sm\<lparr>sm_store := traverse (furChild_v2 c) (objs sm b) (sm_store sm)\<rparr>)"

definition eyeChild_v2 :: "int \<Rightarrow> nat \<Rightarrow> store \<Rightarrow> store" where
  "eyeChild_v2 c child h =
     (case nodeAt h child of
        Object3D _ \<Rightarrow> h
      | Mesh nm m \<Rightarrow>
          if mname (mats h m) = ''EyeBlack'' then
            withMaterial child (color_update (\<lambda>_. c))
              (ensureCloned isEyeCloned (isEyeCloned_update (\<lambda>_. True)) child h)
          else h)"

definition updateEyeColor_v2 :: "string \<Rightarrow> scene_manager \<Rightarrow> scene_manager" where
  "updateEyeColor_v2 colorName sm =
     (case currentBear sm of
        None \<Rightarrow> sm
      | Some b \<Rightarrow>
          let c = THREE_Color (CONFIG_colors_eyes colorName)
          in sm\<lparr>sm_store := traverse (eyeChild_v2 c) (objs sm b) (sm_store sm)\<rparr>)"

definition toggleAccessory :: "string \<Rightarrow> bool \<Rightarrow> scene_manager \<Rightarrow> scene_manager" where
  "toggleAccessory accessoryName v sm =
     (case sm_accessories sm accessoryName of
        None \<Rightarrow> sm
      | Some r \<Rightarrow> setVisible r v sm)"

text \<open>
  The start of the first \<open>script.js\<close>. The constructor of \<open>SceneManager\<close> leaves both
  registries empty and \<open>currentBear\<close> \<open>null\<close>; \<open>loadAssets\<close> loads no model and only calls
  \<open>addPlaceholder\<close>, which makes \<open>currentBear\<close> a new cube: one mesh without a name, with a
  new material. \<open>cube\<close> and \<open>k\<close> are the references the new object and its mesh get.
\<close>

definition SceneManager_new :: "(nat \<Rightarrow> object3d) \<Rightarrow> store \<Rightarrow> scene_manager" where
  "SceneManager_new os h =
     \<lparr>objs = os, sm_store = h, bearModels = Map.empty, sm_accessories = Map.empty,
      currentBear = None\<rparr>"

definition addPlaceholder :: "nat \<Rightarrow> nat \<Rightarrow> scene_manager \<Rightarrow> scene_manager" where
  "addPlaceholder cube k sm =
     (let h = sm_store sm;
          material = nextMat h
      in sm\<lparr>sm_store := h\<lparr>nodeAt := (nodeAt h)(k := Mesh [] material),
                            mats := (mats h)
                              (material := MeshStandardMaterial (CONFIG_colors_fur ''brown'')),
                            nextMat := Suc material\<rparr>,
            objs := (objs sm)
              (cube := \<lparr>visible = True, position = (0, 0, 0), scale = (1, 1, 1),
                        rotation = (0, 0, 0), nodes = [k]\<rparr>),
            currentBear := Some cube\<rparr>)"

text \<open>
  The configurator holds the Configuration State next to the Scene Manager;
  \<open>this.bearState.reset()\<close> is \<open>reset\<close> applied to the first.
\<close>

record configurator =
  bearState :: bear_state
  sceneManager :: scene_manager

definition bearState_reset :: "configurator \<Rightarrow> configurator" where
  "bearState_reset app = app\<lparr>bearState := reset (bearState app)\<rparr>"

subsection \<open>The module script: configuration and state\<close>

record config =
  skin :: string
  eyeColor :: int
  noseColor :: int
  currentHat :: string
  scarfVisible :: bool
  currentAccessoryColor :: int

text \<open>\<open>CONFIG.defaults\<close> with \<open>scarfVisible: false\<close>, as the initial value of \<open>state\<close>.\<close>

definition CONFIG_defaults :: config where
  "CONFIG_defaults =
     \<lparr>skin = ''brown'', eyeColor = 0x000000, noseColor = 0x000000, currentHat = ''none'',
      scarfVisible = False, currentAccessoryColor = 0xFFFFFF\<rparr>"

text \<open>
  The own keys of the table \<open>textures\<close>, filled from \<open>CONFIG.textures\<close> when the script
  starts, and the lookup \<open>textures[skinName]\<close> on that plain object.
\<close>

definition CONFIG_textures :: "string \<rightharpoonup> string" where
  "CONFIG_textures =
     [''brown'' \<mapsto> ''textures/bear_brown.png'', ''panda'' \<mapsto> ''textures/bear_panda.png'',
      ''pink'' \<mapsto> ''textures/bear_pink.png'', ''blue'' \<mapsto> ''textures/bear_blue.png'']"

definition textures :: "string \<Rightarrow> string property option" where
  "textures skinName = getProperty CONFIG_textures skinName"

text \<open>
  \<open>bearParts\<close> holds references to meshes of the bear: the body, the list of eye meshes
  (\<open>None\<close> for \<open>null\<close>) and the nose.
\<close>

record bear_parts =
  body :: "nat option"
  eyes :: "nat list option"
  nose :: "nat option"

text \<open>
  The part of the page the script touches: the \<open>disabled\<close> flag of every element matched
  by \<open>'button, input'\<close>, the loading indicator (\<open>None\<close> when the page has none, otherwise
  whether it carries the class \<open>hidden\<close>) and the \<open>display\<close> style of the accessory
  colour section, an element the script uses without a null check and the page is taken
  to have.
\<close>

record page =
  controls :: "bool list"
  loadingIndicator :: "bool option"
  accessoryColorSection :: string

text \<open>
  The module's variables. Each accessory slot and \<open>bear\<close> own the object the loader handed
  over, so they are held by value; their meshes and materials are in the store.
\<close>

record app =
  state :: config
  bear :: "object3d option"
  bearParts :: bear_parts
  accessories :: "string \<rightharpoonup> object3d"
  store :: store
  loadingStatus :: "(string \<times> bool) list"
  document :: page

definition enableControls :: "page \<Rightarrow> page" where
  "enableControls d = d\<lparr>controls := map (\<lambda>_. False) (controls d)\<rparr>"

definition disableControls :: "page \<Rightarrow> page" where
  "disableControls d = d\<lparr>controls := map (\<lambda>_. True) (controls d)\<rparr>"

definition hideLoadingIndicator :: "page \<Rightarrow> page" where
  "hideLoadingIndicator d =
     (case loadingIndicator d of
        None \<Rightarrow> d
      | Some _ \<Rightarrow> d\<lparr>loadingIndicator := Some True\<rparr>)"

definition checkAllLoaded :: "app \<Rightarrow> bool \<times> app" where
  "checkAllLoaded s =
     (let allLoaded = list_all (\<lambda>(name, status). status = True) (loadingStatus s)
      in if allLoaded
         then (allLoaded, s\<lparr>document := hideLoadingIndicator (enableControls (document s))\<rparr>)
         else (allLoaded, s))"

subsection \<open>The module script: loading an accessory\<close>

text \<open>
  The table \<open>positions\<close> of \<open>loadAccessory\<close>: per accessory its position, scale and
  rotation in degrees.
\<close>

definition accessoryPositions ::
  "string \<rightharpoonup> ((rat \<times> rat \<times> rat) \<times> rat \<times> (rat \<times> rat \<times> rat))" where
  "accessoryPositions =
     [''hat'' \<mapsto> ((0, 196/100, -1/10), 1, (0, 0, 0)),
      ''beanie'' \<mapsto> ((22/100, 175/100, -1/10), 1, (0, 0, 0)),
      ''scarf'' \<mapsto> ((0, 115/100, 125/1000), 85/100, (0, 180, 0))]"

text \<open>The assignment \<open>loadingStatus[name] = v\<close>.\<close>

fun setStatus :: "string \<Rightarrow> bool \<Rightarrow> (string \<times> bool) list \<Rightarrow> (string \<times> bool) list" where
  "setStatus name v [] = [(name, v)]"
| "setStatus name v ((k, x) # rest) =
     (if k = name then (k, v) # rest else (k, x) # setStatus name v rest)"

text \<open>The callback of the traversal in \<open>loadAccessory\<close>: every mesh gets a new material.\<close>

definition newMaterialChild :: "int \<Rightarrow> nat \<Rightarrow> store \<Rightarrow> store" where
  "newMaterialChild c child h =
     (case nodeAt h child of
        Object3D _ \<Rightarrow> h
      | Mesh nm m \<Rightarrow>
          h\<lparr>nodeAt := (nodeAt h)(child := Mesh nm (nextMat h)),
            mats := (mats h)(nextMat h := MeshStandardMaterial (Some c)),
            nextMat := Suc (nextMat h)\<rparr>)"

text \<open>
  The callback \<open>loadAccessory\<close> hands to the loader, run with the loaded scene
  \<open>gltf.scene\<close>, whose nodes are in the store. \<open>loadAccessories\<close> requests the three
  accessories \<open>hat\<close>, \<open>beanie\<close> and \<open>scarf\<close>, which are own keys of the tables the
  callback reads and writes.
\<close>

definition loadAccessory_onLoad :: "string \<Rightarrow> object3d \<Rightarrow> app \<Rightarrow> app" where
  "loadAccessory_onLoad name gltf_scene s =
     (let pos = (case accessoryPositions name of
                   None \<Rightarrow> ((0, 15/10, 0), 5/10, (0, 0, 0))
                 | Some p \<Rightarrow> p);
          accessory = gltf_scene\<lparr>position := fst pos, scale := setScalar (fst (snd pos)),
                                 rotation := snd (snd pos)\<rparr>;
          h = traverse (newMaterialChild (currentAccessoryColor CONFIG_defaults)) accessory
                (store s);
          s1 = s\<lparr>store := h,
                 accessories := (accessories s)(name \<mapsto> accessory\<lparr>visible := False\<rparr>),
                 loadingStatus := setStatus name True (loadingStatus s)\<rparr>
      in snd (checkAllLoaded s1))"

subsection \<open>The module script: update functions\<close>

definition isEye :: "bear_parts \<Rightarrow> nat \<Rightarrow> bool" where
  "isEye parts child = (case eyes parts of None \<Rightarrow> False | Some es \<Rightarrow> child \<in> set es)"

definition isNose :: "bear_parts \<Rightarrow> nat \<Rightarrow> bool" where
  "isNose parts child = (nose parts = Some child)"

definition skinChild :: "bear_parts \<Rightarrow> string property \<Rightarrow> nat \<Rightarrow> store \<Rightarrow> store" where
  "skinChild parts t child h =
     (case nodeAt h child of
        Object3D _ \<Rightarrow> h
      | Mesh nm m \<Rightarrow>
          if \<not> isEye parts child \<and> \<not> isNose parts child then
            withMaterial child (\<lambda>x. x\<lparr>tex_map := Some t, needsUpdate := True\<rparr>)
              (ensureCloned isCloned (isCloned_update (\<lambda>_. True)) child h)
          else h)"

definition updateBearSkin :: "string \<Rightarrow> app \<Rightarrow> app" where
  "updateBearSkin skinName s =
     (case textures skinName of
        None \<Rightarrow> s
      | Some t \<Rightarrow>
          (case bear s of
             None \<Rightarrow> s
           | Some b \<Rightarrow>
               s\<lparr>store := traverse (skinChild (bearParts s) t) b (store s),
                 state := (state s)\<lparr>skin := skinName\<rparr>\<rparr>))"

definition eyeMesh :: "int \<Rightarrow> nat \<Rightarrow> store \<Rightarrow> store" where
  "eyeMesh colorHex mesh h =
     withMaterial mesh (color_update (\<lambda>_. setHex colorHex))
       (ensureCloned isEyeCloned (isEyeCloned_update (\<lambda>_. True)) mesh h)"

definition noseMeshColor :: "int \<Rightarrow> nat \<Rightarrow> store \<Rightarrow> store" where
  "noseMeshColor colorHex noseMesh h =
     withMaterial noseMesh (color_update (\<lambda>_. setHex colorHex))
       (ensureCloned isNoseCloned (isNoseCloned_update (\<lambda>_. True)) noseMesh h)"

definition updatePartColor :: "string \<Rightarrow> int \<Rightarrow> app \<Rightarrow> app" where
  "updatePartColor part colorHex s =
     (if part = ''eyes'' then
        (case eyes (bearParts s) of
           None \<Rightarrow> s
         | Some eyeMeshes \<Rightarrow>
             if eyeMeshes = [] then s
             else s\<lparr>store := fold (eyeMesh colorHex) eyeMeshes (store s),
                    state := (state s)\<lparr>eyeColor := colorHex\<rparr>\<rparr>)
      else if part = ''nose'' then
        (case nose (bearParts s) of
           None \<Rightarrow> s
         | Some noseMesh \<Rightarrow>
             s\<lparr>store := noseMeshColor colorHex noseMesh (store s),
               state := (state s)\<lparr>noseColor := colorHex\<rparr>\<rparr>)
      else s)"

definition accessoryChild :: "int \<Rightarrow> nat \<Rightarrow> store \<Rightarrow> store" where
  "accessoryChild colorHex child h =
     withMaterial child (color_update (\<lambda>_. setHex colorHex)) h"

text \<open>
  \<open>updateAccessoryColor\<close> looks \<open>accessories[name]\<close> up. A value inherited from
  \<open>Object.prototype\<close> passes the test \<open>!accessory\<close> and has no method \<open>traverse\<close>: the call
  \<open>accessory.traverse(...)\<close> raises a \<open>TypeError\<close>.
\<close>

definition updateAccessoryColor :: "string \<Rightarrow> int \<Rightarrow> app \<Rightarrow> app outcome" where
  "updateAccessoryColor name colorHex s =
     (case getProperty (accessories s) name of
        None \<Rightarrow> Returns s
      | Some (Inherited _) \<Rightarrow> Throws s
      | Some (Own accessory) \<Rightarrow>
          Returns (s\<lparr>store := traverse (accessoryChild colorHex) accessory (store s)\<rparr>))"

definition updateAccessoryColorSection :: "app \<Rightarrow> app" where
  "updateAccessoryColorSection s =
     (let hasAccessory = (currentHat (state s) \<noteq> ''none'' \<or> scarfVisible (state s))
      in s\<lparr>document := (document s)
            \<lparr>accessoryColorSection := (if hasAccessory then ''block'' else ''none'')\<rparr>\<rparr>)"

text \<open>
  \<open>if (accessories.X) accessories.X.visible = v\<close> for an accessory object. (For a value
  inherited from \<open>Object.prototype\<close> the assignment sets a property of that function,
  which is no part of the state.)
\<close>

definition setAccessoryVisible :: "string \<Rightarrow> bool \<Rightarrow> app \<Rightarrow> app" where
  "setAccessoryVisible name v s =
     (case accessories s name of
        None \<Rightarrow> s
      | Some a \<Rightarrow> s\<lparr>accessories := (accessories s)(name \<mapsto> a\<lparr>visible := v\<rparr>)\<rparr>)"

text \<open>
  \<open>updateHat\<close>: the two hats are hidden; if \<open>hatType\<close> is not \<open>none\<close> and
  \<open>accessories[hatType]\<close> is truthy, that value is shown and recoloured; then
  \<open>state.currentHat\<close> is assigned and the colour section updated. When
  \<open>updateAccessoryColor\<close> raises, the last two statements are not reached.
\<close>

definition updateHat :: "string \<Rightarrow> app \<Rightarrow> app outcome" where
  "updateHat hatType s =
     (let s1 = setAccessoryVisible ''hat'' False s;
          s2 = setAccessoryVisible ''beanie'' False s1
      in andThen
           (if hatType \<noteq> ''none'' \<and> getProperty (accessories s2) hatType \<noteq> None
            then updateAccessoryColor hatType (currentAccessoryColor (state s2))
                   (setAccessoryVisible hatType True s2)
            else Returns s2)
           (\<lambda>s3. Returns (updateAccessoryColorSection
                    (s3\<lparr>state := (state s3)\<lparr>currentHat := hatType\<rparr>\<rparr>))))"

text \<open>\<open>toggleScarf\<close> reads \<open>accessories.scarf\<close>; \<open>scarf\<close> is not an inherited name.\<close>

definition toggleScarf :: "bool \<Rightarrow> app \<Rightarrow> app outcome" where
  "toggleScarf v s =
     andThen
       (case accessories s ''scarf'' of
          None \<Rightarrow> Returns s
        | Some _ \<Rightarrow>
            let s0 = setAccessoryVisible ''scarf'' v s
            in if v then updateAccessoryColor ''scarf'' (currentAccessoryColor (state s0)) s0
               else Returns s0)
       (\<lambda>s1. Returns (updateAccessoryColorSection
                (s1\<lparr>state := (state s1)\<lparr>scarfVisible := v\<rparr>\<rparr>)))"

definition updateCurrentAccessoryColor :: "int \<Rightarrow> app \<Rightarrow> app outcome" where
  "updateCurrentAccessoryColor colorHex s =
     (let s1 = s\<lparr>state := (state s)\<lparr>currentAccessoryColor := colorHex\<rparr>\<rparr>
      in andThen
           (if currentHat (state s1) \<noteq> ''none''
            then updateAccessoryColor (currentHat (state s1)) colorHex s1
            else Returns s1)
           (\<lambda>s2. if scarfVisible (state s2)
                 then updateAccessoryColor ''scarf'' colorHex s2
                 else Returns s2))"

text \<open>
  \<open>resetAll\<close>: the assignments to \<open>state\<close>, the six update calls and the final
  \<open>updateAccessoryColorSection\<close>. Its remaining statements only toggle the \<open>active\<close> class
  and the \<open>checked\<close> flag of controls, which the page record does not hold.
\<close>

definition resetAll :: "app \<Rightarrow> app outcome" where
  "resetAll s =
     (let s0 = s\<lparr>state := (state s)
                 \<lparr>skin := skin CONFIG_defaults,
                  eyeColor := eyeColor CONFIG_defaults,
                  noseColor := noseColor CONFIG_defaults,
                  currentHat := currentHat CONFIG_defaults,
                  scarfVisible := False,
                  currentAccessoryColor := currentAccessoryColor CONFIG_defaults\<rparr>\<rparr>;
          s1 = updateBearSkin (skin CONFIG_defaults) s0;
          s2 = updatePartColor ''eyes'' (eyeColor CONFIG_defaults) s1;
          s3 = updatePartColor ''nose'' (noseColor CONFIG_defaults) s2
      in andThen (updateHat ''none'' s3)
           (\<lambda>s4. andThen (toggleScarf False s4)
             (\<lambda>s5. andThen
                      (updateCurrentAccessoryColor (currentAccessoryColor CONFIG_defaults) s5)
               (\<lambda>s6. Returns (updateAccessoryColorSection s6)))))"

subsection \<open>The module script: start and the loading fallback\<close>

text \<open>The module's variables as the script initialises them, on a given page and store.\<close>

definition initialApp :: "page \<Rightarrow> store \<Rightarrow> app" where
  "initialApp d h =
     \<lparr>state = CONFIG_defaults,
      bear = None,
      bearParts = \<lparr>body = None, eyes = None, nose = None\<rparr>,
      accessories = Map.empty,
      store = h,
      loadingStatus = [(''bear'', False), (''hat'', False), (''beanie'', False), (''scarf'', False)],
      document = d\<rparr>"

text \<open>
  The \<open>INIT\<close> section: every control is disabled; the loads are only requested and the
  timer only armed, which changes none of the variables.
\<close>

definition init :: "app \<Rightarrow> app" where
  "init s = s\<lparr>document := disableControls (document s)\<rparr>"

text \<open>The callback handed to \<open>setTimeout\<close>, run when the delay has elapsed.\<close>

definition fallbackTimeout :: "app \<Rightarrow> app" where
  "fallbackTimeout s =
     (case checkAllLoaded s of
        (allLoaded, s1) \<Rightarrow>
          if \<not> allLoaded
          then s1\<lparr>document := hideLoadingIndicator (enableControls (document s1))\<rparr>
          else s1)"

subsection \<open>Reading the scene\<close>

text \<open>The registered model variants that are visible.\<close>

definition visibleVariants :: "scene_manager \<Rightarrow> nat set" where
  "visibleVariants sm = {r \<in> ran (bearModels sm). visible (objs sm r)}"

text \<open>A sequence of form switches.\<close>

definition switchAll_v1 :: "string list \<Rightarrow> scene_manager \<Rightarrow> scene_manager" where
  "switchAll_v1 forms sm = fold switchBearForm_v1 forms sm"

definition switchAll_v2 :: "string list \<Rightarrow> scene_manager \<Rightarrow> scene_manager" where
  "switchAll_v2 forms sm = fold switchBearForm_v2 forms sm"

text \<open>
  A surface is exempt from fur colouring, in the second class-based script, when its
  material is named \<open>EyeBlack\<close>; in the module script, when it is one of the eye meshes
  or the nose mesh of \<open>bearParts\<close>.
\<close>

definition exempt_v2 :: "store \<Rightarrow> nat \<Rightarrow> bool" where
  "exempt_v2 h child =
     (case nodeAt h child of Object3D _ \<Rightarrow> False | Mesh nm m \<Rightarrow> mname (mats h m) = ''EyeBlack'')"

definition exempt :: "bear_parts \<Rightarrow> nat \<Rightarrow> bool" where
  "exempt parts child = (isEye parts child \<or> isNose parts child)"

text \<open>The material reference of a mesh.\<close>

definition materialRef :: "store \<Rightarrow> nat \<Rightarrow> nat option" where
  "materialRef h child = (case nodeAt h child of Object3D _ \<Rightarrow> None | Mesh nm m \<Rightarrow> Some m)"

text \<open>
  Well-formed stores. Every material a listed mesh references has been allocated; and a
  material that carries a clone flag belongs to one mesh only: two different listed
  meshes share a material only while it carries no flag.
\<close>

definition unflagged :: "material \<Rightarrow> bool" where
  "unflagged x = (\<not> isCloned x \<and> \<not> isEyeCloned x \<and> \<not> isNoseCloned x)"

definition allocated :: "nat list \<Rightarrow> store \<Rightarrow> bool" where
  "allocated ks h =
     list_all (\<lambda>k. case materialRef h k of None \<Rightarrow> True | Some m \<Rightarrow> m < nextMat h) ks"

definition exclusive :: "nat list \<Rightarrow> store \<Rightarrow> bool" where
  "exclusive ks h =
     list_all (\<lambda>k. list_all (\<lambda>k'.
        k = k' \<or> materialRef h k = None \<or> materialRef h k \<noteq> materialRef h k'
        \<or> unflagged (mats h (the (materialRef h k)))) ks) ks"

text \<open>
  The meshes of an accessory share no material: every material a listed mesh references
  has been allocated, and two different listed meshes reference different materials.
\<close>

definition unshared :: "nat list \<Rightarrow> store \<Rightarrow> bool" where
  "unshared ks h =
     (allocated ks h
      \<and> list_all (\<lambda>k. list_all (\<lambda>k'.
           k = k' \<or> materialRef h k = None \<or> materialRef h k \<noteq> materialRef h k') ks) ks)"

text \<open>
  The first \<open>script.js\<close> shows its placeholder when no model is registered and every mesh
  of the current object has the empty name.
\<close>

definition placeholder :: "scene_manager \<Rightarrow> bool" where
  "placeholder sm =
     (bearModels sm = Map.empty
      \<and> (case currentBear sm of
            None \<Rightarrow> True
          | Some b \<Rightarrow>
              list_all (\<lambda>k. case nodeAt (sm_store sm) k of
                               Object3D _ \<Rightarrow> True
                             | Mesh nm m \<Rightarrow> nm = []) (nodes (objs sm b))))"

text \<open>
  All recolouring callbacks have one shape: a mesh the callback targets gets the clone
  block for some flag and then a write to its material. A callback that never clones is
  the instance whose flag reader is constantly true.
\<close>

definition recolorChild ::
  "(material \<Rightarrow> bool) \<Rightarrow> (material \<Rightarrow> material) \<Rightarrow> (material \<Rightarrow> material) \<Rightarrow>
   (nat \<Rightarrow> string \<Rightarrow> material \<Rightarrow> bool) \<Rightarrow> nat \<Rightarrow> store \<Rightarrow> store" where
  "recolorChild flag mark f targets child h =
     (case nodeAt h child of
        Object3D _ \<Rightarrow> h
      | Mesh nm m \<Rightarrow>
          if targets child nm (mats h m)
          then withMaterial child f (ensureCloned flag mark child h)
          else h)"

text \<open>
  The module script's state is well formed when, with no bear loaded, \<open>bearParts\<close> is
  still empty and, with a bear loaded, the store is well formed on the bear's nodes and
  the eye and nose meshes are nodes of the bear.
\<close>

definition wf_app :: "app \<Rightarrow> bool" where
  "wf_app s =
     (case bear s of
        None \<Rightarrow> eyes (bearParts s) = None \<and> nose (bearParts s) = None
      | Some b \<Rightarrow>
          allocated (nodes b) (store s) \<and> exclusive (nodes b) (store s)
          \<and> (case eyes (bearParts s) of
                None \<Rightarrow> True
              | Some es \<Rightarrow> list_all (\<lambda>k. k \<in> set (nodes b)) es)
          \<and> (case nose (bearParts s) of None \<Rightarrow> True | Some n \<Rightarrow> n \<in> set (nodes b)))"

text \<open>
  The Scene Manager tracks the visible bear when every registered variant that is visible
  is the one \<open>currentBear\<close> refers to.
\<close>

definition tracked :: "scene_manager \<Rightarrow> bool" where
  "tracked sm = (\<forall>r\<in>ran (bearModels sm). visible (objs sm r) \<longrightarrow> currentBear sm = Some r)"

subsection \<open>Example scenes\<close>

definition ex_material :: "string \<Rightarrow> int \<Rightarrow> material" where
  "ex_material nm c =
     \<lparr>mname = nm, color = c, tex_map = None, needsUpdate = False,
      isCloned = False, isEyeCloned = False, isNoseCloned = False\<rparr>"

text \<open>
  A bear of six nodes: body, head and nose share the material \<open>Fur\<close>, the two eyes share
  the material \<open>EyeBlack\<close>; and one mesh for each of top hat, beanie and scarf, each with
  a white material of its own.
\<close>

definition ex_store :: store where
  "ex_store =
     \<lparr>nodeAt = (\<lambda>_. Object3D [])
        (1 := Mesh ''Body'' 0, 2 := Mesh ''Head'' 0, 3 := Mesh ''EyeL'' 1, 4 := Mesh ''EyeR'' 1,
         5 := Mesh ''Nose'' 0, 10 := Mesh ''TopHat'' 2, 11 := Mesh ''Beanie'' 3,
         12 := Mesh ''Scarf'' 4),
      mats = (\<lambda>_. ex_material [] 0)
        (0 := ex_material ''Fur'' 0x8B4513, 1 := ex_material ''EyeBlack'' 0x000000,
         2 := ex_material [] 0xFFFFFF, 3 := ex_material [] 0xFFFFFF,
         4 := ex_material [] 0xFFFFFF),
      nextMat = 5\<rparr>"

definition ex_object :: "bool \<Rightarrow> nat list \<Rightarrow> object3d" where
  "ex_object v ks =
     \<lparr>visible = v, position = (0, 0, 0), scale = (1, 1, 1), rotation = (0, 0, 0), nodes = ks\<rparr>"

text \<open>
  The class-based scene after the sitting bear has loaded and before the other forms
  have: the sitting bear is registered, current and visible.
\<close>

definition ex_scene :: scene_manager where
  "ex_scene =
     \<lparr>objs = (\<lambda>_. ex_object False [])(0 := ex_object True [0, 1, 2, 3, 4, 5]),
      sm_store = ex_store,
      bearModels = [''sitting'' \<mapsto> 0],
      sm_accessories = Map.empty,
      currentBear = Some 0\<rparr>"

text \<open>
  The module script with everything loaded, the beanie and the scarf shown, and red
  chosen as accessory colour while the top hat is still white.
\<close>

definition ex_app :: app where
  "ex_app =
     \<lparr>state = CONFIG_defaults\<lparr>currentHat := ''beanie'', scarfVisible := True,
                               currentAccessoryColor := 0xFF0000\<rparr>,
      bear = Some (ex_object True [0, 1, 2, 3, 4, 5]),
      bearParts = \<lparr>body = Some 1, eyes = Some [3, 4], nose = Some 5\<rparr>,
      accessories = [''hat'' \<mapsto> ex_object False [10], ''beanie'' \<mapsto> ex_object True [11],
                     ''scarf'' \<mapsto> ex_object True [12]],
      store = ex_store,
      loadingStatus = [(''bear'', True), (''hat'', True), (''beanie'', True), (''scarf'', True)],
      document = \<lparr>controls = [False, False, False], loadingIndicator = Some True,
                  accessoryColorSection = ''block''\<rparr>\<rparr>"

text \<open>A page with three controls and a loading indicator, before the script has run.\<close>

definition ex_page :: page where
  "ex_page = \<lparr>controls = [False, False, False], loadingIndicator = Some False,
               accessoryColorSection = ''none''\<rparr>"

text \<open>
  A top hat as the loader delivers it, before anything else has loaded: a root object
  with two meshes, brim and crown, which share the one material of the asset.
\<close>

definition ex_hat_store :: store where
  "ex_hat_store =
     \<lparr>nodeAt = (\<lambda>_. Object3D [])(21 := Mesh ''Brim'' 0, 22 := Mesh ''Crown'' 0),
      mats = (\<lambda>_. ex_material [] 0)(0 := ex_material ''Felt'' 0x222222),
      nextMat = 1\<rparr>"

definition ex_hat_scene :: object3d where
  "ex_hat_scene = ex_object True [20, 21, 22]"

text \<open>The module script after this hat has loaded, as the first asset.\<close>

definition ex_hat_loaded :: app where
  "ex_hat_loaded = loadAccessory_onLoad ''hat'' ex_hat_scene (initialApp ex_page ex_hat_store)"

text \<open>
  The first \<open>script.js\<close> after its start: a new Scene Manager on an empty store, and the
  placeholder cube as object 0 with its mesh as node 1.
\<close>

definition ex_empty_store :: store where
  "ex_empty_store = \<lparr>nodeAt = (\<lambda>_. Object3D []), mats = (\<lambda>_. ex_material [] 0), nextMat = 0\<rparr>"

definition ex_placeholder :: scene_manager where
  "ex_placeholder = addPlaceholder 0 1 (SceneManager_new (\<lambda>_. ex_object False []) ex_empty_store)"

section \<open>Properties\<close>

subsection \<open>Configuration State\<close>

lemma reset_default: "reset b = CONFIG_defaultState"
  by (simp add: reset_def CONFIG_defaultState_def)

lemma getProperty_None_iff:
  "getProperty table name = None \<longleftrightarrow> table name = None \<and> name \<notin> set Object_prototype"
  by (simp add: getProperty_def split: option.splits)

lemma getProperty_Own [simp]: "table name = Some v \<Longrightarrow> getProperty table name = Some (Own v)"
  by (simp add: getProperty_def)

lemma getProperty_Inherited:
  "table name = None \<Longrightarrow> name \<in> set Object_prototype \<Longrightarrow>
   getProperty table name = Some (Inherited name)"
  by (simp add: getProperty_def)

lemma getProperty_miss:
  "table name = None \<Longrightarrow> name \<notin> set Object_prototype \<Longrightarrow> getProperty table name = None"
  by (simp add: getProperty_def)

lemma not_inherited [simp]:
  "''none'' \<notin> set Object_prototype" "''hat'' \<notin> set Object_prototype"
  "''beanie'' \<notin> set Object_prototype" "''scarf'' \<notin> set Object_prototype"
  by (simp_all add: Object_prototype_def)

lemma andThen_Returns [simp]: "andThen (Returns s) rest = rest s"
  by (simp add: andThen_def)

lemma andThen_Throws [simp]: "andThen (Throws s) rest = Throws s"
  by (simp add: andThen_def)

lemma updateAccessoryColor_own:
  "accessories s n = Some a \<Longrightarrow>
   updateAccessoryColor n c s = Returns (s\<lparr>store := traverse (accessoryChild c) a (store s)\<rparr>)"
  by (simp add: updateAccessoryColor_def)

lemma updateAccessoryColor_miss:
  "accessories s n = None \<Longrightarrow> n \<notin> set Object_prototype \<Longrightarrow>
   updateAccessoryColor n c s = Returns s"
  by (simp add: updateAccessoryColor_def getProperty_miss)

lemma updateAccessoryColor_inherited:
  "accessories s n = None \<Longrightarrow> n \<in> set Object_prototype \<Longrightarrow>
   updateAccessoryColor n c s = Throws s"
  by (simp add: updateAccessoryColor_def getProperty_Inherited)

lemma updateAccessoryColor_returns:
  "n \<notin> set Object_prototype \<Longrightarrow>
   \<exists>s'. updateAccessoryColor n c s = Returns s' \<and> state s' = state s"
  by (cases "accessories s n") (simp_all add: updateAccessoryColor_miss updateAccessoryColor_own)

lemma state_updateAccessoryColor [simp]:
  "state (stateOf (updateAccessoryColor n c s)) = state s"
  by (cases "accessories s n"; cases "n \<in> set Object_prototype")
     (simp_all add: updateAccessoryColor_miss updateAccessoryColor_own
        updateAccessoryColor_inherited)

lemma state_updateAccessoryColorSection [simp]:
  "state (updateAccessoryColorSection s) = state s"
  by (simp add: updateAccessoryColorSection_def)

lemma state_setAccessoryVisible [simp]: "state (setAccessoryVisible n v s) = state s"
  by (simp add: setAccessoryVisible_def split: option.splits)

lemma accessories_setAccessoryVisible_None:
  "accessories (setAccessoryVisible n v s) B = None \<longleftrightarrow> accessories s B = None"
  by (cases "accessories s n") (simp_all add: setAccessoryVisible_def)

lemma updateHat_returns:
  assumes "hatType \<notin> set Object_prototype"
  shows "\<exists>s'. updateHat hatType s = Returns s'
           \<and> state s' = (state s)\<lparr>currentHat := hatType\<rparr>"
proof -
  define s2 where "s2 = setAccessoryVisible ''beanie'' False (setAccessoryVisible ''hat'' False s)"
  define s2' where "s2' = setAccessoryVisible hatType True s2"
  define rest where "rest = (\<lambda>s3. Returns (updateAccessoryColorSection
                 (s3\<lparr>state := (state s3)\<lparr>currentHat := hatType\<rparr>\<rparr>)))"
  have st: "state s2 = state s" "state s2' = state s"
    by (simp_all add: s2_def s2'_def)
  from assms obtain s3 where
    r: "updateAccessoryColor hatType (currentAccessoryColor (state s2)) s2' = Returns s3"
    and st3: "state s3 = state s2'"
    using updateAccessoryColor_returns [of hatType "currentAccessoryColor (state s2)" s2']
    by blast
  have u: "updateHat hatType s =
      andThen
        (if hatType \<noteq> ''none'' \<and> getProperty (accessories s2) hatType \<noteq> None
         then updateAccessoryColor hatType (currentAccessoryColor (state s2)) s2'
         else Returns s2)
        rest"
    by (simp add: updateHat_def Let_def s2_def s2'_def rest_def)
  show ?thesis
  proof (cases "hatType \<noteq> ''none'' \<and> getProperty (accessories s2) hatType \<noteq> None")
    case True
    then have "updateHat hatType s = rest s3"
      unfolding u r by simp
    then show ?thesis using st st3 by (simp add: rest_def)
  next
    case False
    then have "updateHat hatType s = rest s2"
      unfolding u by (simp only: if_False andThen_Returns)
    then show ?thesis using st by (simp add: rest_def)
  qed
qed

lemma state_updateHat:
  "hatType \<notin> set Object_prototype \<Longrightarrow>
   state (stateOf (updateHat hatType s)) = (state s)\<lparr>currentHat := hatType\<rparr>"
  using updateHat_returns [of hatType s] by auto

lemma toggleScarf_returns:
  "\<exists>s'. toggleScarf v s = Returns s' \<and> state s' = (state s)\<lparr>scarfVisible := v\<rparr>"
proof (cases "accessories s ''scarf''")
  case None
  then show ?thesis by (simp add: toggleScarf_def)
next
  case (Some a)
  define s0 where "s0 = setAccessoryVisible ''scarf'' v s"
  define rest where "rest = (\<lambda>s1. Returns (updateAccessoryColorSection
                (s1\<lparr>state := (state s1)\<lparr>scarfVisible := v\<rparr>\<rparr>)))"
  have st: "state s0 = state s" by (simp add: s0_def)
  obtain s1 where
    r: "updateAccessoryColor ''scarf'' (currentAccessoryColor (state s0)) s0 = Returns s1"
    and st1: "state s1 = state s0"
    using updateAccessoryColor_returns [of "''scarf''" "currentAccessoryColor (state s0)" s0]
    by auto
  have u: "toggleScarf v s = andThen
        (if v then updateAccessoryColor ''scarf'' (currentAccessoryColor (state s0)) s0
         else Returns s0) rest"
    using Some by (simp add: toggleScarf_def Let_def s0_def rest_def)
  show ?thesis
  proof (cases v)
    case True
    then have "toggleScarf v s = rest s1" unfolding u r by simp
    then show ?thesis using st st1 by (simp add: rest_def)
  next
    case False
    then have "toggleScarf v s = rest s0" unfolding u by simp
    then show ?thesis using st by (simp add: rest_def)
  qed
qed

lemma state_toggleScarf:
  "state (stateOf (toggleScarf v s)) = (state s)\<lparr>scarfVisible := v\<rparr>"
  using toggleScarf_returns [of v s] by auto

lemma updateCurrentAccessoryColor_returns:
  assumes "currentHat (state s) \<notin> set Object_prototype"
  shows "\<exists>s'. updateCurrentAccessoryColor c s = Returns s'
           \<and> state s' = (state s)\<lparr>currentAccessoryColor := c\<rparr>"
proof -
  define s1 where "s1 = s\<lparr>state := (state s)\<lparr>currentAccessoryColor := c\<rparr>\<rparr>"
  define rest where "rest = (\<lambda>s2. if scarfVisible (state s2)
                 then updateAccessoryColor ''scarf'' c s2
                 else Returns s2)"
  have st1: "state s1 = (state s)\<lparr>currentAccessoryColor := c\<rparr>" by (simp add: s1_def)
  from assms have h: "currentHat (state s1) \<notin> set Object_prototype" by (simp add: s1_def)
  obtain s2 where r2: "(if currentHat (state s1) \<noteq> ''none''
            then updateAccessoryColor (currentHat (state s1)) c s1
            else Returns s1) = Returns s2" and st2: "state s2 = state s1"
    using updateAccessoryColor_returns [OF h, of c s1]
    by (cases "currentHat (state s1) \<noteq> ''none''") auto
  obtain s3 where r3: "rest s2 = Returns s3" and st3: "state s3 = state s2"
    using updateAccessoryColor_returns [of "''scarf''" c s2]
    by (cases "scarfVisible (state s2)") (auto simp: rest_def)
  have "updateCurrentAccessoryColor c s = andThen
      (if currentHat (state s1) \<noteq> ''none''
       then updateAccessoryColor (currentHat (state s1)) c s1
       else Returns s1) rest"
    by (simp add: updateCurrentAccessoryColor_def Let_def rest_def s1_def)
  then have "updateCurrentAccessoryColor c s = Returns s3"
    unfolding r2 using r3 by simp
  with st3 st2 st1 show ?thesis by simp
qed

lemma state_updateCurrentAccessoryColor:
  "currentHat (state s) \<notin> set Object_prototype \<Longrightarrow>
   state (stateOf (updateCurrentAccessoryColor c s)) = (state s)\<lparr>currentAccessoryColor := c\<rparr>"
  using updateCurrentAccessoryColor_returns [of s c] by auto

lemma state_updateBearSkin:
  "state (updateBearSkin n s) =
     (if textures n \<noteq> None \<and> bear s \<noteq> None then (state s)\<lparr>skin := n\<rparr> else state s)"
  by (simp add: updateBearSkin_def split: option.splits)

lemma state_updatePartColor_eyes:
  "state (updatePartColor ''eyes'' c s) = state s
   \<or> state (updatePartColor ''eyes'' c s) = (state s)\<lparr>eyeColor := c\<rparr>"
  by (simp add: updatePartColor_def split: option.splits)

lemma state_updatePartColor_nose:
  "state (updatePartColor ''nose'' c s) = state s
   \<or> state (updatePartColor ''nose'' c s) = (state s)\<lparr>noseColor := c\<rparr>"
  by (simp add: updatePartColor_def split: option.splits)

lemma resetAll_returns: "\<exists>s'. resetAll s = Returns s' \<and> state s' = CONFIG_defaults"
proof -
  define s0 where "s0 = s\<lparr>state := (state s)
                 \<lparr>skin := skin CONFIG_defaults,
                  eyeColor := eyeColor CONFIG_defaults,
                  noseColor := noseColor CONFIG_defaults,
                  currentHat := currentHat CONFIG_defaults,
                  scarfVisible := False,
                  currentAccessoryColor := currentAccessoryColor CONFIG_defaults\<rparr>\<rparr>"
  define s1 where "s1 = updateBearSkin (skin CONFIG_defaults) s0"
  define s2 where "s2 = updatePartColor ''eyes'' (eyeColor CONFIG_defaults) s1"
  define s3 where "s3 = updatePartColor ''nose'' (noseColor CONFIG_defaults) s2"
  have a0: "state s0 = CONFIG_defaults"
    by (simp add: s0_def CONFIG_defaults_def)
  have a1: "state s1 = CONFIG_defaults"
    using a0 by (simp add: s1_def state_updateBearSkin CONFIG_defaults_def)
  have a2: "state s2 = CONFIG_defaults"
    using a1 state_updatePartColor_eyes [of "eyeColor CONFIG_defaults" s1]
    by (auto simp: s2_def CONFIG_defaults_def)
  have a3: "state s3 = CONFIG_defaults"
    using a2 state_updatePartColor_nose [of "noseColor CONFIG_defaults" s2]
    by (auto simp: s3_def CONFIG_defaults_def)
  obtain s4 where r4: "updateHat ''none'' s3 = Returns s4"
    and a4: "state s4 = (state s3)\<lparr>currentHat := ''none''\<rparr>"
    using updateHat_returns [of "''none''" s3] by auto
  obtain s5 where r5: "toggleScarf False s4 = Returns s5"
    and a5: "state s5 = (state s4)\<lparr>scarfVisible := False\<rparr>"
    using toggleScarf_returns [of False s4] by auto
  have h5: "currentHat (state s5) \<notin> set Object_prototype"
    using a5 a4 by simp
  obtain s6 where
    r6: "updateCurrentAccessoryColor (currentAccessoryColor CONFIG_defaults) s5 = Returns s6"
    and a6: "state s6 = (state s5)\<lparr>currentAccessoryColor := currentAccessoryColor CONFIG_defaults\<rparr>"
    using updateCurrentAccessoryColor_returns [OF h5, of "currentAccessoryColor CONFIG_defaults"]
    by auto
  have "resetAll s = andThen (updateHat ''none'' s3)
           (\<lambda>s4. andThen (toggleScarf False s4)
             (\<lambda>s5. andThen
                      (updateCurrentAccessoryColor (currentAccessoryColor CONFIG_defaults) s5)
               (\<lambda>s6. Returns (updateAccessoryColorSection s6))))"
    by (simp add: resetAll_def Let_def s3_def s2_def s1_def s0_def)
  then have "resetAll s = Returns (updateAccessoryColorSection s6)"
    using r4 r5 r6 by simp
  moreover have "state (updateAccessoryColorSection s6) = CONFIG_defaults"
    using a6 a5 a4 a3 by (simp add: CONFIG_defaults_def)
  ultimately show ?thesis by simp
qed

lemma state_resetAll: "state (stateOf (resetAll s)) = CONFIG_defaults"
  using resetAll_returns [of s] by auto

text \<open>
  Claim C7. Whatever the Configuration State was, \<open>reset()\<close> leaves the record equal to
  the fixed default record, and the call changes nothing but that record: the Scene
  Manager held next to it is untouched. The module script has no \<open>reset()\<close>; its
  \<open>resetAll\<close> returns from every state, and the state record it leaves behind is equal to
  the defaults as well.
\<close>

theorem reset_restores_defaults:
  "reset b = CONFIG_defaultState
   \<and> bearState (bearState_reset c) = CONFIG_defaultState
   \<and> sceneManager (bearState_reset c) = sceneManager c
   \<and> state (stateOf (resetAll s)) = CONFIG_defaults
   \<and> (\<exists>s'. resetAll s = Returns s')"
  using resetAll_returns [of s]
  by (auto simp add: reset_default bearState_reset_def state_resetAll)

theorem reset_restores_defaults_witness:
  "reset \<lparr>currentForm = ''compact'', furColor = ''pink'', bs_eyeColor = ''green'',
          bs_accessories = [''hat'' \<mapsto> True, ''monocle'' \<mapsto> True]\<rparr> = CONFIG_defaultState
   \<and> state (stateOf (resetAll ex_app)) = CONFIG_defaults"
  using reset_restores_defaults [of
      "\<lparr>currentForm = ''compact'', furColor = ''pink'', bs_eyeColor = ''green'',
        bs_accessories = [''hat'' \<mapsto> True, ''monocle'' \<mapsto> True]\<rparr>"
      "\<lparr>bearState = CONFIG_defaultState, sceneManager = ex_scene\<rparr>" ex_app]
  by simp

text \<open>
  A hat name that the table \<open>accessories\<close> inherits from \<open>Object.prototype\<close> (and that no
  loaded accessory carries) passes the test of \<open>updateHat\<close>; the recolouring then raises
  a \<open>TypeError\<close>, and \<open>state.currentHat\<close> is left as it was.
\<close>

lemma updateHat_inherited_throws:
  assumes inh: "hatType \<in> set Object_prototype" and none: "accessories s hatType = None"
  shows "\<exists>s'. updateHat hatType s = Throws s' \<and> state s' = state s"
proof -
  define s2 where "s2 = setAccessoryVisible ''beanie'' False (setAccessoryVisible ''hat'' False s)"
  have n2: "accessories s2 hatType = None"
    using none by (simp add: s2_def accessories_setAccessoryVisible_None)
  then have same: "setAccessoryVisible hatType True s2 = s2"
    by (simp add: setAccessoryVisible_def)
  from inh have ne: "hatType \<noteq> ''none''" by (auto simp: Object_prototype_def)
  have g: "getProperty (accessories s2) hatType \<noteq> None"
    using inh by (simp add: getProperty_None_iff)
  have "updateHat hatType s = andThen
        (updateAccessoryColor hatType (currentAccessoryColor (state s2)) s2)
        (\<lambda>s3. Returns (updateAccessoryColorSection
                 (s3\<lparr>state := (state s3)\<lparr>currentHat := hatType\<rparr>\<rparr>)))"
    using ne g same by (simp add: updateHat_def Let_def s2_def)
  then have "updateHat hatType s = Throws s2"
    using updateAccessoryColor_inherited [OF n2 inh] by simp
  moreover have "state s2 = state s" by (simp add: s2_def)
  ultimately show ?thesis by simp
qed

text \<open>
  Claim C10. \<open>toggleScarf(v)\<close> stores \<open>v\<close> in \<open>state.scarfVisible\<close>, and \<open>updateHat(h)\<close>, for
  every name \<open>h\<close> that is not a property name inherited from \<open>Object.prototype\<close>, stores
  \<open>h\<close> in \<open>state.currentHat\<close>, in every state, loaded or not; both calls return. In the
  initial state, where no accessory has loaded, the state then records a hat (or the
  scarf) that the scene does not have.
\<close>

theorem selection_recorded_without_asset:
  "(hatType \<notin> set Object_prototype \<longrightarrow>
      (\<exists>s'. updateHat hatType s = Returns s' \<and> currentHat (state s') = hatType)
      \<and> (\<exists>s'. updateHat hatType (initialApp d h) = Returns s'
              \<and> currentHat (state s') = hatType \<and> accessories s' hatType = None))
   \<and> (\<exists>s'. toggleScarf v s = Returns s' \<and> scarfVisible (state s') = v)
   \<and> (\<exists>s'. toggleScarf True (initialApp d h) = Returns s'
           \<and> scarfVisible (state s') \<and> accessories s' ''scarf'' = None)"
proof -
  have hat: "\<exists>s'. updateHat hatType s = Returns s' \<and> currentHat (state s') = hatType"
    if "hatType \<notin> set Object_prototype" for s
    using updateHat_returns [OF that, of s] by auto
  have hat0: "\<exists>s'. updateHat hatType (initialApp d h) = Returns s'
              \<and> currentHat (state s') = hatType \<and> accessories s' hatType = None"
    if "hatType \<notin> set Object_prototype"
    using that
    by (simp add: updateHat_def initialApp_def setAccessoryVisible_def
        updateAccessoryColorSection_def getProperty_def Let_def)
  have scarf: "\<exists>s'. toggleScarf v s = Returns s' \<and> scarfVisible (state s') = v"
    using toggleScarf_returns [of v s] by auto
  have scarf0: "\<exists>s'. toggleScarf True (initialApp d h) = Returns s'
           \<and> scarfVisible (state s') \<and> accessories s' ''scarf'' = None"
    by (simp add: toggleScarf_def initialApp_def updateAccessoryColorSection_def)
  from hat hat0 scarf scarf0 show ?thesis by blast
qed

theorem selection_recorded_without_asset_witness:
  "''beanie'' \<notin> set Object_prototype
   \<and> (\<exists>s'. updateHat ''beanie'' (initialApp ex_page ex_store) = Returns s'
           \<and> currentHat (state s') = ''beanie'' \<and> accessories s' ''beanie'' = None)
   \<and> (\<exists>s'. toggleScarf True (initialApp ex_page ex_store) = Returns s'
           \<and> scarfVisible (state s') \<and> accessories s' ''scarf'' = None)"
  using selection_recorded_without_asset
    [of "''beanie''" "initialApp ex_page ex_store" ex_page ex_store True]
  by simp

subsection \<open>Hats\<close>

lemma accessories_updateAccessoryColor [simp]:
  "accessories (stateOf (updateAccessoryColor n c s)) = accessories s"
  by (cases "accessories s n"; cases "n \<in> set Object_prototype")
     (simp_all add: updateAccessoryColor_miss updateAccessoryColor_own
        updateAccessoryColor_inherited)

lemma accessories_updateAccessoryColorSection [simp]:
  "accessories (updateAccessoryColorSection s) = accessories s"
  by (simp add: updateAccessoryColorSection_def)

lemma accessories_setAccessoryVisible:
  "accessories (setAccessoryVisible n v s) B =
     map_option (\<lambda>a. if B = n then a\<lparr>visible := v\<rparr> else a) (accessories s B)"
  by (cases "accessories s n"; cases "accessories s B") (auto simp: setAccessoryVisible_def)

lemma accessories_andThen_section:
  "accessories (stateOf (andThen r
      (\<lambda>s3. Returns (updateAccessoryColorSection (s3\<lparr>state := g s3\<rparr>)))))
   = accessories (stateOf r)"
  by (cases r) simp_all

lemma accessories_updateHat_shown:
  "accessories (stateOf (updateHat hatType s)) =
     accessories
       (if hatType \<noteq> ''none''
        then setAccessoryVisible hatType True
               (setAccessoryVisible ''beanie'' False (setAccessoryVisible ''hat'' False s))
        else setAccessoryVisible ''beanie'' False (setAccessoryVisible ''hat'' False s))"
proof -
  define s2 where "s2 = setAccessoryVisible ''beanie'' False (setAccessoryVisible ''hat'' False s)"
  have u: "accessories (stateOf (updateHat hatType s)) =
      accessories (stateOf
        (if hatType \<noteq> ''none'' \<and> getProperty (accessories s2) hatType \<noteq> None
         then updateAccessoryColor hatType (currentAccessoryColor (state s2))
                (setAccessoryVisible hatType True s2)
         else Returns s2))"
    unfolding updateHat_def Let_def s2_def by (rule accessories_andThen_section)
  show ?thesis
  proof (cases "hatType \<noteq> ''none'' \<and> getProperty (accessories s2) hatType \<noteq> None")
    case True
    with u show ?thesis by (simp add: s2_def)
  next
    case False
    show ?thesis
    proof (cases "hatType = ''none''")
      case True
      with u show ?thesis by (simp add: s2_def)
    next
      case ne: False
      with False have "getProperty (accessories s2) hatType = None" by simp
      then have "accessories s2 hatType = None" by (simp add: getProperty_None_iff)
      then have "setAccessoryVisible hatType True s2 = s2"
        by (simp add: setAccessoryVisible_def)
      with u False ne show ?thesis by (simp add: s2_def)
    qed
  qed
qed

lemma accessories_updateHat:
  "accessories (stateOf (updateHat hatType s)) B =
     map_option (\<lambda>a. a\<lparr>visible :=
            (if B = hatType \<and> hatType \<noteq> ''none'' then True
             else if B = ''hat'' \<or> B = ''beanie'' then False else visible a)\<rparr>)
       (accessories s B)"
proof (cases "accessories s B")
  case None
  then show ?thesis
    by (simp add: accessories_updateHat_shown accessories_setAccessoryVisible)
next
  case (Some a)
  show ?thesis
  proof (cases "B = hatType")
    case True
    with Some show ?thesis
      by (cases "hatType = ''none''")
         (simp_all add: accessories_updateHat_shown accessories_setAccessoryVisible)
  next
    case False
    with Some show ?thesis
      by (simp add: accessories_updateHat_shown accessories_setAccessoryVisible)
  qed
qed

text \<open>
  Claim C6. The hat group is the top hat and the beanie. After \<open>updateHat(A)\<close> for a
  member \<open>A\<close>, from any state, the call has returned and every other member of the group
  that has loaded is invisible.
\<close>

theorem updateHat_hides_other_hats: "A \<in> {''hat'', ''beanie''} \<Longrightarrow> B \<in> {''hat'', ''beanie''} \<Longrightarrow> B \<noteq> A \<Longrightarrow>
   accessories (stateOf (updateHat A s)) B = Some acc \<Longrightarrow>
   \<not> visible acc \<and> (\<exists>s'. updateHat A s = Returns s')"
proof -
  assume a: "A \<in> {''hat'', ''beanie''}" and b: "B \<in> {''hat'', ''beanie''}" and ne: "B \<noteq> A"
    and acc: "accessories (stateOf (updateHat A s)) B = Some acc"
  from acc obtain a0 where "accessories s B = Some a0"
    and "acc = a0\<lparr>visible := (if B = A \<and> A \<noteq> ''none'' then True
             else if B = ''hat'' \<or> B = ''beanie'' then False else visible a0)\<rparr>"
    by (cases "accessories s B") (simp_all add: accessories_updateHat)
  with b ne have "\<not> visible acc" by simp
  moreover from a have "A \<notin> set Object_prototype" by auto
  then have "\<exists>s'. updateHat A s = Returns s'"
    using updateHat_returns [of A s] by auto
  ultimately show ?thesis by simp
qed

theorem updateHat_hides_other_hats_witness:
  "accessories (stateOf (updateHat ''hat'' ex_app)) ''beanie'' = Some (ex_object False [11])
   \<and> visible (the (accessories ex_app ''beanie''))
   \<and> \<not> visible (ex_object False [11])"
proof -
  have a: "accessories (stateOf (updateHat ''hat'' ex_app)) ''beanie'' = Some (ex_object False [11])"
    by (simp add: accessories_updateHat ex_app_def ex_object_def)
  have "\<not> visible (ex_object False [11])"
    using updateHat_hides_other_hats [of "''hat''" "''beanie''" ex_app "ex_object False [11]"] a by simp
  moreover have "visible (the (accessories ex_app ''beanie''))"
    by (simp add: ex_app_def ex_object_def)
  ultimately show ?thesis using a by simp
qed

subsection \<open>The loading fallback\<close>

lemma controls_enable [simp]:
  "controls (hideLoadingIndicator (enableControls d)) = map (\<lambda>_. False) (controls d)"
  by (simp add: hideLoadingIndicator_def enableControls_def split: option.splits)

lemma controls_fallbackTimeout:
  "controls (document (fallbackTimeout s)) = map (\<lambda>_. False) (controls (document s))"
  by (simp add: fallbackTimeout_def checkAllLoaded_def Let_def)

text \<open>
  Claim C8. In the module script every control of the page is disabled once the script
  has started, and at that point not all assets are loaded (none is). When the timer
  callback runs in a state where not all assets are loaded, every control is enabled
  afterwards.
\<close>

theorem controls_disabled_then_force_enabled:
  "controls (document (init (initialApp d h))) = map (\<lambda>_. True) (controls d)
   \<and> \<not> fst (checkAllLoaded (init (initialApp d h)))
   \<and> (\<not> fst (checkAllLoaded s) \<longrightarrow>
        controls (document (fallbackTimeout s)) = map (\<lambda>_. False) (controls (document s)))"
  by (simp add: controls_fallbackTimeout)
     (simp add: init_def initialApp_def disableControls_def checkAllLoaded_def)

theorem controls_disabled_then_force_enabled_witness:
  "\<not> fst (checkAllLoaded (init (initialApp ex_page ex_store)))
   \<and> controls (document (init (initialApp ex_page ex_store))) = [True, True, True]
   \<and> controls (document (fallbackTimeout (init (initialApp ex_page ex_store))))
       = [False, False, False]"
proof -
  have a: "\<not> fst (checkAllLoaded (init (initialApp ex_page ex_store)))"
    by (simp add: init_def initialApp_def checkAllLoaded_def)
  have b: "controls (document (init (initialApp ex_page ex_store))) = [True, True, True]"
    by (simp add: init_def initialApp_def disableControls_def ex_page_def)
  from controls_disabled_then_force_enabled
         [of ex_page ex_store "init (initialApp ex_page ex_store)"] a b
  show ?thesis by simp
qed

subsection \<open>The store under recolouring\<close>

lemma recolorChild_cases:
  "recolorChild flag mark f targets k h =
    (case nodeAt h k of
       Object3D _ \<Rightarrow> h
     | Mesh nm m \<Rightarrow>
         if \<not> targets k nm (mats h m) then h
         else if flag (mats h m) then h\<lparr>mats := (mats h)(m := f (mats h m))\<rparr>
         else h\<lparr>nodeAt := (nodeAt h)(k := Mesh nm (nextMat h)),
                mats := (mats h)(nextMat h := f (mark (mats h m))),
                nextMat := Suc (nextMat h)\<rparr>)"
  by (simp add: recolorChild_def withMaterial_def ensureCloned_def split: node.splits)

lemma nextMat_recolorChild: "nextMat h \<le> nextMat (recolorChild flag mark f targets k h)"
  by (simp add: recolorChild_cases split: node.splits)

lemma mats_recolorChild:
  assumes "m < nextMat h"
    and "\<And>nm. nodeAt h k = Mesh nm m \<Longrightarrow> targets k nm (mats h m) \<Longrightarrow> \<not> flag (mats h m)"
  shows "mats (recolorChild flag mark f targets k h) m = mats h m"
  using assms by (auto simp: recolorChild_cases split: node.splits)

lemma nodeAt_recolorChild_other:
  "j \<noteq> k \<Longrightarrow> nodeAt (recolorChild flag mark f targets k h) j = nodeAt h j"
  by (simp add: recolorChild_cases split: node.splits)

lemma nodeAt_recolorChild_old:
  "m < nextMat h \<Longrightarrow> nodeAt (recolorChild flag mark f targets k h) j = Mesh nm m \<Longrightarrow>
   nodeAt h j = Mesh nm m"
  by (auto simp: recolorChild_cases split: node.splits if_splits)

lemma recolorChild_untargeted:
  "nodeAt h k = Mesh nm m \<Longrightarrow> \<not> targets k nm (mats h m) \<Longrightarrow>
   recolorChild flag mark f targets k h = h"
  by (simp add: recolorChild_cases)

lemma mats_fold_recolorChild:
  "m < nextMat h \<Longrightarrow>
   (\<forall>k\<in>set ks. \<forall>nm. nodeAt h k = Mesh nm m \<longrightarrow> targets k nm (mats h m) \<longrightarrow> \<not> flag (mats h m)) \<Longrightarrow>
   mats (fold (recolorChild flag mark f targets) ks h) m = mats h m"
proof (induction ks arbitrary: h)
  case Nil
  then show ?case by simp
next
  case (Cons k ks)
  let ?h = "recolorChild flag mark f targets k h"
  have eq: "mats ?h m = mats h m"
    using Cons.prems by (intro mats_recolorChild) auto
  have lt: "m < nextMat ?h"
    using Cons.prems(1) nextMat_recolorChild [of h flag mark f targets k] by simp
  have "\<forall>k'\<in>set ks. \<forall>nm. nodeAt ?h k' = Mesh nm m \<longrightarrow> targets k' nm (mats ?h m) \<longrightarrow> \<not> flag (mats ?h m)"
  proof (intro ballI allI impI)
    fix k' nm
    assume k': "k' \<in> set ks" and n: "nodeAt ?h k' = Mesh nm m" and t: "targets k' nm (mats ?h m)"
    from n Cons.prems(1) have "nodeAt h k' = Mesh nm m"
      by (rule nodeAt_recolorChild_old [rotated])
    with Cons.prems(2) k' t eq show "\<not> flag (mats ?h m)" by simp
  qed
  with Cons.IH [OF lt] have "mats (fold (recolorChild flag mark f targets) ks ?h) m = mats ?h m" .
  with eq show ?case by simp
qed

lemma nodeAt_fold_recolorChild_unlisted:
  "j \<notin> set ks \<Longrightarrow> nodeAt (fold (recolorChild flag mark f targets) ks h) j = nodeAt h j"
  by (induction ks arbitrary: h) (simp_all add: nodeAt_recolorChild_other)

lemma nodeAt_fold_recolorChild_untargeted:
  "nodeAt h j = Mesh nm m \<Longrightarrow> \<not> targets j nm (mats h m) \<Longrightarrow> m < nextMat h \<Longrightarrow>
   (\<forall>k\<in>set ks. \<forall>nm. nodeAt h k = Mesh nm m \<longrightarrow> targets k nm (mats h m) \<longrightarrow> \<not> flag (mats h m)) \<Longrightarrow>
   nodeAt (fold (recolorChild flag mark f targets) ks h) j = Mesh nm m"
proof (induction ks arbitrary: h)
  case Nil
  then show ?case by simp
next
  case (Cons k ks)
  let ?h = "recolorChild flag mark f targets k h"
  have eq: "mats ?h m = mats h m"
    using Cons.prems by (intro mats_recolorChild) auto
  have lt: "m < nextMat ?h"
    using Cons.prems(3) nextMat_recolorChild [of h flag mark f targets k] by simp
  have nd: "nodeAt ?h j = Mesh nm m"
  proof (cases "j = k")
    case True
    with Cons.prems(1,2) show ?thesis by (simp add: recolorChild_untargeted)
  next
    case False
    with Cons.prems(1) show ?thesis by (simp add: nodeAt_recolorChild_other)
  qed
  have "\<forall>k'\<in>set ks. \<forall>nm. nodeAt ?h k' = Mesh nm m \<longrightarrow> targets k' nm (mats ?h m) \<longrightarrow> \<not> flag (mats ?h m)"
  proof (intro ballI allI impI)
    fix k' nm
    assume k': "k' \<in> set ks" and n: "nodeAt ?h k' = Mesh nm m" and t: "targets k' nm (mats ?h m)"
    from n Cons.prems(3) have "nodeAt h k' = Mesh nm m"
      by (rule nodeAt_recolorChild_old [rotated])
    with Cons.prems(4) k' t eq show "\<not> flag (mats ?h m)" by simp
  qed
  with Cons.IH [OF nd _ lt] Cons.prems(2) eq show ?case by simp
qed

lemma furChild_v1_recolorChild:
  "furChild_v1 c = recolorChild (\<lambda>_. True) id (color_update (\<lambda>_. c)) (\<lambda>_ nm _. str_includes nm ''Body'')"
  by (intro ext) (simp add: furChild_v1_def recolorChild_def ensureCloned_def split: node.splits)

lemma eyeChild_v1_recolorChild:
  "eyeChild_v1 c = recolorChild (\<lambda>_. True) id (color_update (\<lambda>_. c)) (\<lambda>_ nm _. str_includes nm ''Eye'')"
  by (intro ext) (simp add: eyeChild_v1_def recolorChild_def ensureCloned_def split: node.splits)

lemma furChild_v2_recolorChild:
  "furChild_v2 c = recolorChild isCloned (isCloned_update (\<lambda>_. True)) (color_update (\<lambda>_. c))
      (\<lambda>_ _ x. mname x \<noteq> ''EyeBlack'')"
  by (intro ext) (simp add: furChild_v2_def recolorChild_def split: node.splits)

lemma eyeChild_v2_recolorChild:
  "eyeChild_v2 c = recolorChild isEyeCloned (isEyeCloned_update (\<lambda>_. True)) (color_update (\<lambda>_. c))
      (\<lambda>_ _ x. mname x = ''EyeBlack'')"
  by (intro ext) (simp add: eyeChild_v2_def recolorChild_def split: node.splits)

lemma skinChild_recolorChild:
  "skinChild parts t = recolorChild isCloned (isCloned_update (\<lambda>_. True))
      (\<lambda>x. x\<lparr>tex_map := Some t, needsUpdate := True\<rparr>)
      (\<lambda>child _ _. \<not> isEye parts child \<and> \<not> isNose parts child)"
  by (intro ext) (simp add: skinChild_def recolorChild_def split: node.splits)

lemma eyeMesh_recolorChild:
  "eyeMesh c = recolorChild isEyeCloned (isEyeCloned_update (\<lambda>_. True))
      (color_update (\<lambda>_. setHex c)) (\<lambda>_ _ _. True)"
  by (intro ext)
     (simp add: eyeMesh_def recolorChild_def withMaterial_def ensureCloned_def split: node.splits)

lemma noseMeshColor_recolorChild:
  "noseMeshColor c = recolorChild isNoseCloned (isNoseCloned_update (\<lambda>_. True))
      (color_update (\<lambda>_. setHex c)) (\<lambda>_ _ _. True)"
  by (intro ext)
     (simp add: noseMeshColor_def recolorChild_def withMaterial_def ensureCloned_def split: node.splits)

lemma accessoryChild_recolorChild:
  "accessoryChild c =
     recolorChild (\<lambda>_. True) id (color_update (\<lambda>_. setHex c)) (\<lambda>_ _ _. True)"
  by (intro ext)
     (simp add: accessoryChild_def recolorChild_def withMaterial_def ensureCloned_def split: node.splits)

lemma materialRef_Some: "materialRef h k = Some m \<longleftrightarrow> (\<exists>nm. nodeAt h k = Mesh nm m)"
  by (simp add: materialRef_def split: node.splits)

lemma surfaceMaterial_eq:
  "surfaceMaterial h k = map_option (mats h) (materialRef h k)"
  by (simp add: surfaceMaterial_def materialRef_def split: node.splits)

lemma allocated_iff:
  "allocated ks h \<longleftrightarrow> (\<forall>k\<in>set ks. \<forall>m. materialRef h k = Some m \<longrightarrow> m < nextMat h)"
  by (auto simp: allocated_def list_all_iff split: option.splits)

lemma exclusive_iff:
  "exclusive ks h \<longleftrightarrow>
     (\<forall>k\<in>set ks. \<forall>k'\<in>set ks. \<forall>m. k \<noteq> k' \<longrightarrow> materialRef h k = Some m \<longrightarrow>
        materialRef h k' = Some m \<longrightarrow> unflagged (mats h m))"
proof
  assume l: "exclusive ks h"
  show "\<forall>k\<in>set ks. \<forall>k'\<in>set ks. \<forall>m. k \<noteq> k' \<longrightarrow> materialRef h k = Some m \<longrightarrow>
        materialRef h k' = Some m \<longrightarrow> unflagged (mats h m)"
  proof (intro ballI allI impI)
    fix k k' m
    assume kk: "k \<in> set ks" "k' \<in> set ks" and ne: "k \<noteq> k'"
      and m: "materialRef h k = Some m" "materialRef h k' = Some m"
    from l have "\<forall>k\<in>set ks. \<forall>k'\<in>set ks.
        k = k' \<or> materialRef h k = None \<or> materialRef h k \<noteq> materialRef h k'
        \<or> unflagged (mats h (the (materialRef h k)))"
      unfolding exclusive_def list_all_iff .
    with kk have "k = k' \<or> materialRef h k = None \<or> materialRef h k \<noteq> materialRef h k'
        \<or> unflagged (mats h (the (materialRef h k)))"
      by blast
    with ne m show "unflagged (mats h m)" by simp
  qed
next
  assume r: "\<forall>k\<in>set ks. \<forall>k'\<in>set ks. \<forall>m. k \<noteq> k' \<longrightarrow> materialRef h k = Some m \<longrightarrow>
        materialRef h k' = Some m \<longrightarrow> unflagged (mats h m)"
  have "k = k' \<or> materialRef h k = None \<or> materialRef h k \<noteq> materialRef h k'
        \<or> unflagged (mats h (the (materialRef h k)))"
    if "k \<in> set ks" "k' \<in> set ks" for k k'
  proof (cases "materialRef h k")
    case None
    then show ?thesis by simp
  next
    case (Some m)
    with r that show ?thesis by (cases "k = k'") auto
  qed
  then have "\<forall>k\<in>set ks. \<forall>k'\<in>set ks.
        k = k' \<or> materialRef h k = None \<or> materialRef h k \<noteq> materialRef h k'
        \<or> unflagged (mats h (the (materialRef h k)))"
    by blast
  then show "exclusive ks h"
    unfolding exclusive_def list_all_iff .
qed

lemma recolorChild_elim:
  obtains (same) "recolorChild flag mark f targets k h = h"
  | (inplace) nm m where "nodeAt h k = Mesh nm m" "flag (mats h m)"
      "recolorChild flag mark f targets k h = h\<lparr>mats := (mats h)(m := f (mats h m))\<rparr>"
  | (clone) nm m where "nodeAt h k = Mesh nm m" "\<not> flag (mats h m)"
      "recolorChild flag mark f targets k h =
         h\<lparr>nodeAt := (nodeAt h)(k := Mesh nm (nextMat h)),
           mats := (mats h)(nextMat h := f (mark (mats h m))),
           nextMat := Suc (nextMat h)\<rparr>"
proof (cases "nodeAt h k")
  case (Mesh nm m)
  show thesis
  proof (cases "targets k nm (mats h m)")
    case False
    with Mesh same show ?thesis by (simp add: recolorChild_cases)
  next
    case True
    show ?thesis
    proof (cases "flag (mats h m)")
      case True
      with \<open>targets k nm (mats h m)\<close> Mesh inplace show ?thesis
        by (simp add: recolorChild_cases)
    next
      case False
      with \<open>targets k nm (mats h m)\<close> Mesh clone show ?thesis
        by (simp add: recolorChild_cases)
    qed
  qed
next
  case (Object3D nm)
  with same show thesis by (simp add: recolorChild_cases)
qed

lemma inv_recolorChild:
  assumes al: "allocated ks h" and ex: "exclusive ks h"
    and pf: "\<And>x. unflagged (f x) = unflagged x"
  shows "allocated ks (recolorChild flag mark f targets k h)
       \<and> exclusive ks (recolorChild flag mark f targets k h)"
proof (cases rule: recolorChild_elim [of flag mark f targets k h])
  case same
  with al ex show ?thesis by simp
next
  case (inplace nm m)
  have mr: "materialRef (h\<lparr>mats := (mats h)(m := f (mats h m))\<rparr>) = materialRef h"
    by (rule ext) (simp add: materialRef_def)
  show ?thesis
    unfolding inplace(3) using al ex pf
    by (simp add: allocated_iff exclusive_iff mr)
next
  case (clone nm m)
  let ?h = "h\<lparr>nodeAt := (nodeAt h)(k := Mesh nm (nextMat h)),
           mats := (mats h)(nextMat h := f (mark (mats h m))),
           nextMat := Suc (nextMat h)\<rparr>"
  have mr: "\<And>j. materialRef ?h j = (if j = k then Some (nextMat h) else materialRef h j)"
    by (simp add: materialRef_def)
  have a: "allocated ks ?h"
    using al by (auto simp: allocated_iff mr less_Suc_eq)
  have "\<And>j m'. j \<in> set ks \<Longrightarrow> materialRef h j = Some m' \<Longrightarrow> m' \<noteq> nextMat h"
    using al by (auto simp: allocated_iff)
  then have b: "exclusive ks ?h"
    using ex unfolding exclusive_iff mr
    by (auto split: if_splits)
  from a b show ?thesis unfolding clone(3) by simp
qed

lemma inv_fold_recolorChild:
  assumes pf: "\<And>x. unflagged (f x) = unflagged x"
  shows "allocated ks h \<Longrightarrow> exclusive ks h \<Longrightarrow>
     allocated ks (fold (recolorChild flag mark f targets) ks0 h)
   \<and> exclusive ks (fold (recolorChild flag mark f targets) ks0 h)"
proof (induction ks0 arbitrary: h)
  case Nil
  then show ?case by simp
next
  case (Cons k ks0)
  from inv_recolorChild [OF Cons.prems pf, of flag mark targets k]
  show ?case using Cons.IH by simp
qed

lemma unflagged_color_update [simp]: "unflagged (color_update g x) = unflagged x"
  by (simp add: unflagged_def)

lemma unflagged_tex_update [simp]:
  "unflagged (x\<lparr>tex_map := t, needsUpdate := u\<rparr>) = unflagged x"
  by (simp add: unflagged_def)

lemma surface_fold_recolorChild:
  assumes j: "materialRef h j = Some m" and lt: "m < nextMat h"
    and un: "j \<notin> set ks \<or> (\<forall>nm. nodeAt h j = Mesh nm m \<longrightarrow> \<not> targets j nm (mats h m))"
    and safe: "\<forall>k\<in>set ks. \<forall>nm. nodeAt h k = Mesh nm m \<longrightarrow> targets k nm (mats h m)
                 \<longrightarrow> \<not> flag (mats h m)"
  shows "materialRef (fold (recolorChild flag mark f targets) ks h) j = Some m
       \<and> mats (fold (recolorChild flag mark f targets) ks h) m = mats h m"
proof -
  from j obtain nm where nd: "nodeAt h j = Mesh nm m"
    by (auto simp: materialRef_Some)
  have "nodeAt (fold (recolorChild flag mark f targets) ks h) j = Mesh nm m"
  proof (cases "j \<in> set ks")
    case False
    with nd show ?thesis by (simp add: nodeAt_fold_recolorChild_unlisted)
  next
    case True
    with un nd have nt: "\<not> targets j nm (mats h m)" by simp
    from nd nt lt safe show ?thesis by (rule nodeAt_fold_recolorChild_untargeted)
  qed
  moreover have "mats (fold (recolorChild flag mark f targets) ks h) m = mats h m"
    using lt safe by (rule mats_fold_recolorChild)
  ultimately show ?thesis by (simp add: materialRef_def)
qed

lemma surfaceMaterial_cong:
  "materialRef h' j = materialRef h j \<Longrightarrow>
   (\<And>m. materialRef h j = Some m \<Longrightarrow> mats h' m = mats h m) \<Longrightarrow>
   surfaceMaterial h' j = surfaceMaterial h j"
  by (cases "materialRef h j") (simp_all add: surfaceMaterial_eq)

text \<open>Second class-based script.\<close>

lemma sm_store_updateFurColor_v2:
  "sm_store (updateFurColor_v2 colorName sm) =
     (case currentBear sm of
        None \<Rightarrow> sm_store sm
      | Some b \<Rightarrow> fold (furChild_v2 (THREE_Color (CONFIG_colors_fur colorName)))
                    (nodes (objs sm b)) (sm_store sm))"
  by (simp add: updateFurColor_v2_def traverse_def Let_def split: option.splits)

lemma sm_store_updateEyeColor_v2:
  "sm_store (updateEyeColor_v2 colorName sm) =
     (case currentBear sm of
        None \<Rightarrow> sm_store sm
      | Some b \<Rightarrow> fold (eyeChild_v2 (THREE_Color (CONFIG_colors_eyes colorName)))
                    (nodes (objs sm b)) (sm_store sm))"
  by (simp add: updateEyeColor_v2_def traverse_def Let_def split: option.splits)

lemma updateFurColor_v2_frame:
  assumes "materialRef (sm_store sm) child = Some m" and "m < nextMat (sm_store sm)"
    and "mname (mats (sm_store sm) m) = ''EyeBlack''"
  shows "materialRef (sm_store (updateFurColor_v2 colorName sm)) child = Some m
       \<and> mats (sm_store (updateFurColor_v2 colorName sm)) m = mats (sm_store sm) m"
proof (cases "currentBear sm")
  case None
  with assms show ?thesis by (simp add: sm_store_updateFurColor_v2)
next
  case (Some b)
  show ?thesis
    unfolding sm_store_updateFurColor_v2 Some option.case furChild_v2_recolorChild
    using assms by (intro surface_fold_recolorChild) simp_all
qed

lemma updateEyeColor_v2_frame:
  assumes "materialRef (sm_store sm) child = Some m" and "m < nextMat (sm_store sm)"
    and "mname (mats (sm_store sm) m) \<noteq> ''EyeBlack''"
  shows "materialRef (sm_store (updateEyeColor_v2 colorName sm)) child = Some m
       \<and> mats (sm_store (updateEyeColor_v2 colorName sm)) m = mats (sm_store sm) m"
proof (cases "currentBear sm")
  case None
  with assms show ?thesis by (simp add: sm_store_updateEyeColor_v2)
next
  case (Some b)
  show ?thesis
    unfolding sm_store_updateEyeColor_v2 Some option.case eyeChild_v2_recolorChild
    using assms by (intro surface_fold_recolorChild) simp_all
qed

lemma updateFurColor_v2_template:
  assumes "m < nextMat (sm_store sm)" and "\<not> isCloned (mats (sm_store sm) m)"
  shows "mats (sm_store (updateFurColor_v2 colorName sm)) m = mats (sm_store sm) m"
proof (cases "currentBear sm")
  case None
  then show ?thesis by (simp add: sm_store_updateFurColor_v2)
next
  case (Some b)
  show ?thesis
    unfolding sm_store_updateFurColor_v2 Some option.case furChild_v2_recolorChild
    using assms by (intro mats_fold_recolorChild) simp_all
qed

lemma updateEyeColor_v2_template:
  assumes "m < nextMat (sm_store sm)" and "\<not> isEyeCloned (mats (sm_store sm) m)"
  shows "mats (sm_store (updateEyeColor_v2 colorName sm)) m = mats (sm_store sm) m"
proof (cases "currentBear sm")
  case None
  then show ?thesis by (simp add: sm_store_updateEyeColor_v2)
next
  case (Some b)
  show ?thesis
    unfolding sm_store_updateEyeColor_v2 Some option.case eyeChild_v2_recolorChild
    using assms by (intro mats_fold_recolorChild) simp_all
qed

text \<open>Module script.\<close>

lemma store_updateBearSkin:
  "store (updateBearSkin skinName s) =
     (case textures skinName of
        None \<Rightarrow> store s
      | Some t \<Rightarrow>
          (case bear s of
             None \<Rightarrow> store s
           | Some b \<Rightarrow> fold (skinChild (bearParts s) t) (nodes b) (store s)))"
  by (simp add: updateBearSkin_def traverse_def split: option.splits)

lemma store_updatePartColor_eyes:
  "store (updatePartColor ''eyes'' c s) =
     (case eyes (bearParts s) of
        None \<Rightarrow> store s
      | Some es \<Rightarrow> fold (eyeMesh c) es (store s))"
  by (simp add: updatePartColor_def split: option.splits)

lemma store_updatePartColor_nose:
  "store (updatePartColor ''nose'' c s) =
     (case nose (bearParts s) of
        None \<Rightarrow> store s
      | Some n \<Rightarrow> fold (noseMeshColor c) [n] (store s))"
  by (simp add: updatePartColor_def split: option.splits)

lemma updateBearSkin_template:
  assumes "m < nextMat (store s)" and "\<not> isCloned (mats (store s) m)"
  shows "mats (store (updateBearSkin skinName s)) m = mats (store s) m"
proof (cases "textures skinName")
  case None
  then show ?thesis by (simp add: store_updateBearSkin)
next
  case (Some t)
  show ?thesis
  proof (cases "bear s")
    case None
    with Some show ?thesis by (simp add: store_updateBearSkin)
  next
    case b: (Some b)
    show ?thesis
      unfolding store_updateBearSkin Some b option.case skinChild_recolorChild
      using assms by (intro mats_fold_recolorChild) simp_all
  qed
qed

lemma updatePartColor_eyes_template:
  assumes "m < nextMat (store s)" and "\<not> isEyeCloned (mats (store s) m)"
  shows "mats (store (updatePartColor ''eyes'' c s)) m = mats (store s) m"
proof (cases "eyes (bearParts s)")
  case None
  then show ?thesis by (simp add: store_updatePartColor_eyes)
next
  case (Some es)
  show ?thesis
    unfolding store_updatePartColor_eyes Some option.case eyeMesh_recolorChild
    using assms by (intro mats_fold_recolorChild) simp_all
qed

lemma updatePartColor_nose_template:
  assumes "m < nextMat (store s)" and "\<not> isNoseCloned (mats (store s) m)"
  shows "mats (store (updatePartColor ''nose'' c s)) m = mats (store s) m"
proof (cases "nose (bearParts s)")
  case None
  then show ?thesis by (simp add: store_updatePartColor_nose)
next
  case (Some n)
  show ?thesis
    unfolding store_updatePartColor_nose Some option.case noseMeshColor_recolorChild
    using assms by (intro mats_fold_recolorChild) simp_all
qed

lemma nodeAt_fold_recolorChild_Object3D:
  "nodeAt h j = Object3D nm \<Longrightarrow>
   nodeAt (fold (recolorChild flag mark f targets) ks h) j = Object3D nm"
proof (induction ks arbitrary: h)
  case Nil
  then show ?case by simp
next
  case (Cons k ks)
  have "nodeAt (recolorChild flag mark f targets k h) j = Object3D nm"
    using Cons.prems by (cases "j = k") (simp_all add: recolorChild_cases split: node.splits)
  then show ?case using Cons.IH by simp
qed

lemma surfaceMaterial_Object3D:
  "nodeAt h j = Object3D nm \<Longrightarrow> surfaceMaterial h j = None"
  by (simp add: surfaceMaterial_def)

lemma surface_fold_recolorChild_all:
  assumes al: "\<And>m. materialRef h j = Some m \<Longrightarrow> m < nextMat h"
    and un: "j \<notin> set ks \<or> (\<forall>nm m. \<not> targets j nm m)"
    and safe: "\<And>m k nm. materialRef h j = Some m \<Longrightarrow> k \<in> set ks \<Longrightarrow> nodeAt h k = Mesh nm m \<Longrightarrow>
                 targets k nm (mats h m) \<Longrightarrow> \<not> flag (mats h m)"
  shows "surfaceMaterial (fold (recolorChild flag mark f targets) ks h) j = surfaceMaterial h j"
proof (cases "nodeAt h j")
  case (Object3D nm)
  then show ?thesis
    by (simp add: surfaceMaterial_Object3D nodeAt_fold_recolorChild_Object3D)
next
  case (Mesh nm m)
  then have mr: "materialRef h j = Some m" by (simp add: materialRef_def)
  have "materialRef (fold (recolorChild flag mark f targets) ks h) j = Some m
       \<and> mats (fold (recolorChild flag mark f targets) ks h) m = mats h m"
    using mr al [OF mr] un safe [OF mr] by (intro surface_fold_recolorChild) auto
  with mr show ?thesis by (simp add: surfaceMaterial_eq)
qed

lemma wf_app_Some:
  "bear s = Some b \<Longrightarrow>
   wf_app s \<longleftrightarrow>
     allocated (nodes b) (store s) \<and> exclusive (nodes b) (store s)
     \<and> (\<forall>es. eyes (bearParts s) = Some es \<longrightarrow> set es \<subseteq> set (nodes b))
     \<and> (\<forall>n. nose (bearParts s) = Some n \<longrightarrow> n \<in> set (nodes b))"
  by (auto simp: wf_app_def list_all_iff split: option.splits)

lemma updateBearSkin_frame:
  assumes wf: "wf_app s" and b: "bear s = Some b" and c: "child \<in> set (nodes b)"
    and ex: "exempt (bearParts s) child"
  shows "surfaceMaterial (store (updateBearSkin skinName s)) child
           = surfaceMaterial (store s) child"
proof (cases "textures skinName")
  case None
  then show ?thesis by (simp add: store_updateBearSkin)
next
  case (Some t)
  from wf b have al: "allocated (nodes b) (store s)" and xs: "exclusive (nodes b) (store s)"
    by (simp_all add: wf_app_Some)
  show ?thesis
    unfolding store_updateBearSkin Some b option.case skinChild_recolorChild
  proof (rule surface_fold_recolorChild_all)
    fix m assume "materialRef (store s) child = Some m"
    with al c show "m < nextMat (store s)" by (auto simp: allocated_iff)
  next
    from ex show "child \<notin> set (nodes b)
        \<or> (\<forall>nm m. \<not> (\<not> isEye (bearParts s) child \<and> \<not> isNose (bearParts s) child))"
      by (simp add: exempt_def)
  next
    fix m k nm
    assume m: "materialRef (store s) child = Some m" and k: "k \<in> set (nodes b)"
      and n: "nodeAt (store s) k = Mesh nm m"
      and t: "\<not> isEye (bearParts s) k \<and> \<not> isNose (bearParts s) k"
    from t ex have "k \<noteq> child" by (auto simp: exempt_def)
    moreover from n have "materialRef (store s) k = Some m" by (simp add: materialRef_def)
    ultimately have "unflagged (mats (store s) m)"
      using xs k c m unfolding exclusive_iff by blast
    then show "\<not> isCloned (mats (store s) m)" by (simp add: unflagged_def)
  qed
qed

lemma updatePartColor_eyes_frame:
  assumes wf: "wf_app s" and b: "bear s = Some b" and c: "child \<in> set (nodes b)"
    and ne: "\<not> isEye (bearParts s) child"
  shows "surfaceMaterial (store (updatePartColor ''eyes'' col s)) child
           = surfaceMaterial (store s) child"
proof (cases "eyes (bearParts s)")
  case None
  then show ?thesis by (simp add: store_updatePartColor_eyes)
next
  case (Some es)
  from wf b have al: "allocated (nodes b) (store s)" and xs: "exclusive (nodes b) (store s)"
    by (simp_all add: wf_app_Some)
  from wf b Some have sub: "set es \<subseteq> set (nodes b)" by (simp add: wf_app_Some)
  from ne Some have notin: "child \<notin> set es" by (simp add: isEye_def)
  show ?thesis
    unfolding store_updatePartColor_eyes Some option.case eyeMesh_recolorChild
  proof (rule surface_fold_recolorChild_all)
    fix m assume "materialRef (store s) child = Some m"
    with al c show "m < nextMat (store s)" by (auto simp: allocated_iff)
  next
    from notin show "child \<notin> set es \<or> (\<forall>nm m. \<not> True)" by simp
  next
    fix m k nm
    assume m: "materialRef (store s) child = Some m" and k: "k \<in> set es"
      and n: "nodeAt (store s) k = Mesh nm m"
    from k notin have "k \<noteq> child" by auto
    moreover from n have "materialRef (store s) k = Some m" by (simp add: materialRef_def)
    moreover from k sub have "k \<in> set (nodes b)" by auto
    ultimately have "unflagged (mats (store s) m)"
      using xs c m unfolding exclusive_iff by blast
    then show "\<not> isEyeCloned (mats (store s) m)" by (simp add: unflagged_def)
  qed
qed

lemma updatePartColor_nose_frame:
  assumes wf: "wf_app s" and b: "bear s = Some b" and c: "child \<in> set (nodes b)"
    and ne: "\<not> isNose (bearParts s) child"
  shows "surfaceMaterial (store (updatePartColor ''nose'' col s)) child
           = surfaceMaterial (store s) child"
proof (cases "nose (bearParts s)")
  case None
  then show ?thesis by (simp add: store_updatePartColor_nose)
next
  case (Some n0)
  from wf b have al: "allocated (nodes b) (store s)" and xs: "exclusive (nodes b) (store s)"
    by (simp_all add: wf_app_Some)
  from wf b Some have sub: "n0 \<in> set (nodes b)" by (simp add: wf_app_Some)
  from ne Some have notin: "child \<noteq> n0" by (auto simp: isNose_def)
  show ?thesis
    unfolding store_updatePartColor_nose Some option.case noseMeshColor_recolorChild
  proof (rule surface_fold_recolorChild_all)
    fix m assume "materialRef (store s) child = Some m"
    with al c show "m < nextMat (store s)" by (auto simp: allocated_iff)
  next
    from notin show "child \<notin> set [n0] \<or> (\<forall>nm m. \<not> True)" by simp
  next
    fix m k nm
    assume m: "materialRef (store s) child = Some m" and k: "k \<in> set [n0]"
      and n: "nodeAt (store s) k = Mesh nm m"
    from k notin have "k \<noteq> child" by auto
    moreover from n have "materialRef (store s) k = Some m" by (simp add: materialRef_def)
    moreover from k sub have "k \<in> set (nodes b)" by auto
    ultimately have "unflagged (mats (store s) m)"
      using xs c m unfolding exclusive_iff by blast
    then show "\<not> isNoseCloned (mats (store s) m)" by (simp add: unflagged_def)
  qed
qed

lemma updatePartColor_other: "part \<noteq> ''eyes'' \<Longrightarrow> part \<noteq> ''nose'' \<Longrightarrow> updatePartColor part c s = s"
  by (simp add: updatePartColor_def)

lemma updatePartColor_frame:
  assumes wf: "wf_app s" and b: "bear s = Some b" and c: "child \<in> set (nodes b)"
    and ne: "\<not> exempt (bearParts s) child"
  shows "surfaceMaterial (store (updatePartColor part col s)) child
           = surfaceMaterial (store s) child"
proof (cases "part = ''eyes''")
  case True
  with assms show ?thesis by (simp add: updatePartColor_eyes_frame exempt_def)
next
  case False
  show ?thesis
  proof (cases "part = ''nose''")
    case True
    with assms show ?thesis by (simp add: updatePartColor_nose_frame exempt_def)
  next
    case False
    with \<open>part \<noteq> ''eyes''\<close> show ?thesis by (simp add: updatePartColor_other)
  qed
qed

subsection \<open>The example scenes\<close>

lemma ex_store_simps:
  "nodeAt ex_store 0 = Object3D []" "nodeAt ex_store (Suc 0) = Mesh ''Body'' 0"
  "nodeAt ex_store 2 = Mesh ''Head'' 0" "nodeAt ex_store 3 = Mesh ''EyeL'' (Suc 0)"
  "nodeAt ex_store 4 = Mesh ''EyeR'' (Suc 0)" "nodeAt ex_store 5 = Mesh ''Nose'' 0"
  "nodeAt ex_store 10 = Mesh ''TopHat'' 2" "nodeAt ex_store 11 = Mesh ''Beanie'' 3"
  "nodeAt ex_store 12 = Mesh ''Scarf'' 4"
  "mats ex_store 0 = ex_material ''Fur'' 0x8B4513"
  "mats ex_store (Suc 0) = ex_material ''EyeBlack'' 0"
  "mats ex_store 2 = ex_material [] 0xFFFFFF" "mats ex_store 3 = ex_material [] 0xFFFFFF"
  "mats ex_store 4 = ex_material [] 0xFFFFFF" "nextMat ex_store = 5"
  by (simp_all add: ex_store_def)

lemma ex_materialRef:
  "materialRef ex_store 0 = None" "materialRef ex_store (Suc 0) = Some 0"
  "materialRef ex_store 2 = Some 0" "materialRef ex_store 3 = Some (Suc 0)"
  "materialRef ex_store 4 = Some (Suc 0)" "materialRef ex_store 5 = Some 0"
  "materialRef ex_store 10 = Some 2" "materialRef ex_store 11 = Some 3"
  "materialRef ex_store 12 = Some 4"
  by (simp_all add: materialRef_def ex_store_simps)

lemma ex_scene_simps:
  "currentBear ex_scene = Some 0" "sm_store ex_scene = ex_store"
  "nodes (objs ex_scene 0) = [0, Suc 0, 2, 3, 4, 5]"
  by (simp_all add: ex_scene_def ex_object_def)

lemma ex_app_simps:
  "bear ex_app = Some (ex_object True [0, Suc 0, 2, 3, 4, 5])" "store ex_app = ex_store"
  "bearParts ex_app = \<lparr>body = Some (Suc 0), eyes = Some [3, 4], nose = Some 5\<rparr>"
  "accessories ex_app ''hat'' = Some (ex_object False [10])"
  "accessories ex_app ''beanie'' = Some (ex_object True [11])"
  "accessories ex_app ''scarf'' = Some (ex_object True [12])"
  "currentAccessoryColor (state ex_app) = 0xFF0000"
  by (simp_all add: ex_app_def)

lemma allocated_ex: "allocated [0, Suc 0, 2, 3, 4, 5] ex_store"
  by (simp add: allocated_def ex_materialRef ex_store_simps)

lemma exclusive_ex: "exclusive [0, Suc 0, 2, 3, 4, 5] ex_store"
  by (simp add: exclusive_def ex_materialRef ex_store_simps unflagged_def ex_material_def)

lemma wf_ex_app: "wf_app ex_app"
  by (simp add: wf_app_def ex_app_simps ex_object_def allocated_ex exclusive_ex)

text \<open>What a recolouring establishes on a targeted mesh.\<close>

lemma established_recolorChild_step:
  assumes P1: "\<And>x. P x \<Longrightarrow> P (f x)" and P2: "\<And>x. P (f (mark x))"
    and Q: "\<exists>nm m. nodeAt h j = Mesh nm m \<and> P (mats h m)"
  shows "\<exists>nm m. nodeAt (recolorChild flag mark f targets k h) j = Mesh nm m
          \<and> P (mats (recolorChild flag mark f targets k h) m)"
proof (cases rule: recolorChild_elim [of flag mark f targets k h])
  case same
  with Q show ?thesis by simp
next
  case (inplace nm m)
  from Q obtain nm' m' where "nodeAt h j = Mesh nm' m'" "P (mats h m')" by blast
  then show ?thesis unfolding inplace(3) using P1 by (cases "m' = m") auto
next
  case (clone nm m)
  from Q obtain nm' m' where "nodeAt h j = Mesh nm' m'" "P (mats h m')" by blast
  then show ?thesis unfolding clone(3) using P2
    by (cases "j = k"; cases "m' = nextMat h") auto
qed

lemma established_recolorChild_fold_stable:
  assumes P1: "\<And>x. P x \<Longrightarrow> P (f x)" and P2: "\<And>x. P (f (mark x))"
  shows "\<exists>nm m. nodeAt h j = Mesh nm m \<and> P (mats h m) \<Longrightarrow>
     \<exists>nm m. nodeAt (fold (recolorChild flag mark f targets) ks h) j = Mesh nm m
          \<and> P (mats (fold (recolorChild flag mark f targets) ks h) m)"
proof (induction ks arbitrary: h)
  case Nil
  then show ?case by simp
next
  case (Cons k ks)
  from established_recolorChild_step [of P f mark h j flag targets k, OF P1 P2 Cons.prems]
  show ?case using Cons.IH by simp
qed

lemma established_recolorChild_here:
  assumes P2: "\<And>x. P (f (mark x))" and P3: "\<And>x. flag x \<Longrightarrow> P (f x)"
    and n: "nodeAt h k = Mesh nm m" and t: "targets k nm (mats h m)"
  shows "\<exists>nm m. nodeAt (recolorChild flag mark f targets k h) k = Mesh nm m
          \<and> P (mats (recolorChild flag mark f targets k h) m)"
  using assms by (cases "flag (mats h m)") (simp_all add: recolorChild_cases)

lemma established_recolorChild_fold:
  assumes P1: "\<And>x. P x \<Longrightarrow> P (f x)" and P2: "\<And>x. P (f (mark x))"
    and P3: "\<And>x. flag x \<Longrightarrow> P (f x)"
    and t: "\<And>m. targets j nm m"
  shows "j \<in> set ks \<Longrightarrow> nodeAt h j = Mesh nm m0 \<Longrightarrow>
     \<exists>nm m. nodeAt (fold (recolorChild flag mark f targets) ks h) j = Mesh nm m
          \<and> P (mats (fold (recolorChild flag mark f targets) ks h) m)"
proof (induction ks arbitrary: h m0)
  case Nil
  then show ?case by simp
next
  case (Cons k ks)
  show ?case
  proof (cases "k = j")
    case True
    have "\<exists>nm m. nodeAt (recolorChild flag mark f targets k h) j = Mesh nm m
          \<and> P (mats (recolorChild flag mark f targets k h) m)"
      unfolding True using P2 P3 Cons.prems(2) t by (rule established_recolorChild_here)
    from established_recolorChild_fold_stable [of P f mark _ j flag targets ks, OF P1 P2 this]
    show ?thesis by simp
  next
    case False
    with Cons.prems have "j \<in> set ks" by simp
    moreover have "nodeAt (recolorChild flag mark f targets k h) j = Mesh nm m0"
      using False Cons.prems(2) by (simp add: nodeAt_recolorChild_other)
    ultimately show ?thesis using Cons.IH by simp
  qed
qed

text \<open>Callbacks that never clone leave the nodes and the allocation pointer alone.\<close>

lemma nodeAt_fold_noclone:
  "nodeAt (fold (recolorChild (\<lambda>_. True) mark f targets) ks h) = nodeAt h
   \<and> nextMat (fold (recolorChild (\<lambda>_. True) mark f targets) ks h) = nextMat h"
  by (induction ks arbitrary: h) (simp_all add: recolorChild_cases split: node.splits)

subsection \<open>Well-formedness is kept\<close>

lemma wf_app_cong:
  "bear s' = bear s \<Longrightarrow> bearParts s' = bearParts s \<Longrightarrow> store s' = store s \<Longrightarrow>
   wf_app s' = wf_app s"
  by (cases "bear s") (simp_all add: wf_app_def)

lemma wf_app_fold:
  assumes wf: "wf_app s" and pf: "\<And>x. unflagged (f x) = unflagged x"
    and b: "bear s' = bear s" and p: "bearParts s' = bearParts s"
    and st: "store s' = fold (recolorChild flag mark f targets) ks (store s)"
  shows "wf_app s'"
proof (cases "bear s")
  case None
  with wf b p show ?thesis by (simp add: wf_app_def)
next
  case (Some bb)
  with wf have "allocated (nodes bb) (store s)" "exclusive (nodes bb) (store s)"
    by (simp_all add: wf_app_Some)
  from inv_fold_recolorChild [OF pf this, of flag mark targets ks]
  have "allocated (nodes bb) (store s') \<and> exclusive (nodes bb) (store s')"
    by (simp add: st)
  moreover from b Some have "bear s' = Some bb" by simp
  ultimately show ?thesis
    using wf Some p by (simp add: wf_app_Some)
qed

lemma wf_app_setAccessoryVisible [simp]: "wf_app (setAccessoryVisible n v s) = wf_app s"
  by (rule wf_app_cong) (simp_all add: setAccessoryVisible_def split: option.splits)

lemma wf_app_updateAccessoryColorSection [simp]:
  "wf_app (updateAccessoryColorSection s) = wf_app s"
  by (rule wf_app_cong) (simp_all add: updateAccessoryColorSection_def)

lemma wf_app_state_update [simp]: "wf_app (s\<lparr>state := x\<rparr>) = wf_app s"
  by (rule wf_app_cong) simp_all

lemma wf_app_document_update [simp]: "wf_app (s\<lparr>document := x\<rparr>) = wf_app s"
  by (rule wf_app_cong) simp_all

lemma stateOf_andThen:
  "P (stateOf r) \<Longrightarrow> (\<And>s. P s \<Longrightarrow> P (stateOf (rest s))) \<Longrightarrow> P (stateOf (andThen r rest))"
  by (cases r) simp_all

lemma wf_app_updateAccessoryColor:
  "wf_app s \<Longrightarrow> wf_app (stateOf (updateAccessoryColor n c s))"
proof (cases "accessories s n")
  case None
  assume "wf_app s"
  with None show ?thesis
    by (cases "n \<in> set Object_prototype")
       (simp_all add: updateAccessoryColor_miss updateAccessoryColor_inherited)
next
  case (Some a)
  assume wf: "wf_app s"
  show ?thesis
    unfolding updateAccessoryColor_own [OF Some] stateOf.simps
    by (rule wf_app_fold [OF wf, of "color_update (\<lambda>_. setHex c)" _ "\<lambda>_. True" id
          "\<lambda>_ _ _. True" "nodes a"])
       (simp_all add: traverse_def accessoryChild_recolorChild)
qed

lemma wf_app_updateBearSkin: "wf_app s \<Longrightarrow> wf_app (updateBearSkin n s)"
proof -
  assume wf: "wf_app s"
  show ?thesis
  proof (cases "textures n")
    case None
    with wf show ?thesis by (simp add: updateBearSkin_def)
  next
    case (Some t)
    show ?thesis
    proof (cases "bear s")
      case None
      with wf Some show ?thesis by (simp add: updateBearSkin_def)
    next
      case b: (Some b)
      show ?thesis
        by (rule wf_app_fold [OF wf, of "\<lambda>x. x\<lparr>tex_map := Some t, needsUpdate := True\<rparr>" _
              isCloned "isCloned_update (\<lambda>_. True)"
              "\<lambda>child _ _. \<not> isEye (bearParts s) child \<and> \<not> isNose (bearParts s) child" "nodes b"])
           (simp_all add: updateBearSkin_def Some b traverse_def skinChild_recolorChild)
    qed
  qed
qed

lemma wf_app_updatePartColor: "wf_app s \<Longrightarrow> wf_app (updatePartColor part c s)"
proof -
  assume wf: "wf_app s"
  show ?thesis
  proof (cases "part = ''eyes''")
    case True
    show ?thesis
    proof (cases "eyes (bearParts s)")
      case None
      with wf True show ?thesis by (simp add: updatePartColor_def)
    next
      case (Some es)
      show ?thesis
        by (rule wf_app_fold [OF wf, of "color_update (\<lambda>_. setHex c)" _
              isEyeCloned "isEyeCloned_update (\<lambda>_. True)" "\<lambda>_ _ _. True" es])
           (simp_all add: updatePartColor_def True Some eyeMesh_recolorChild)
    qed
  next
    case False
    show ?thesis
    proof (cases "part = ''nose''")
      case nose: True
      show ?thesis
      proof (cases "nose (bearParts s)")
        case None
        with wf nose show ?thesis by (simp add: updatePartColor_def)
      next
        case (Some n0)
        show ?thesis
          by (rule wf_app_fold [OF wf, of "color_update (\<lambda>_. setHex c)" _
                isNoseCloned "isNoseCloned_update (\<lambda>_. True)" "\<lambda>_ _ _. True" "[n0]"])
             (simp_all add: updatePartColor_def nose Some noseMeshColor_recolorChild)
      qed
    next
      case other: False
      with False wf show ?thesis by (simp add: updatePartColor_other)
    qed
  qed
qed

lemma wf_app_updateHat: "wf_app s \<Longrightarrow> wf_app (stateOf (updateHat h s))"
  unfolding updateHat_def Let_def
  by (rule stateOf_andThen [where P = wf_app]) (simp_all add: wf_app_updateAccessoryColor)

lemma wf_app_toggleScarf: "wf_app s \<Longrightarrow> wf_app (stateOf (toggleScarf v s))"
  unfolding toggleScarf_def Let_def
  by (rule stateOf_andThen [where P = wf_app])
     (simp_all add: wf_app_updateAccessoryColor split: option.splits)

lemma wf_app_updateCurrentAccessoryColor:
  "wf_app s \<Longrightarrow> wf_app (stateOf (updateCurrentAccessoryColor c s))"
  unfolding updateCurrentAccessoryColor_def Let_def
  by (rule stateOf_andThen [where P = wf_app]) (simp_all add: wf_app_updateAccessoryColor)

lemma wf_app_resetAll:
  assumes "wf_app s"
  shows "wf_app (stateOf (resetAll s))"
proof -
  define s3 where "s3 = updatePartColor ''nose'' (noseColor CONFIG_defaults)
        (updatePartColor ''eyes'' (eyeColor CONFIG_defaults)
          (updateBearSkin (skin CONFIG_defaults)
            (s\<lparr>state := (state s)
                 \<lparr>skin := skin CONFIG_defaults,
                  eyeColor := eyeColor CONFIG_defaults,
                  noseColor := noseColor CONFIG_defaults,
                  currentHat := currentHat CONFIG_defaults,
                  scarfVisible := False,
                  currentAccessoryColor := currentAccessoryColor CONFIG_defaults\<rparr>\<rparr>)))"
  have w3: "wf_app s3"
    unfolding s3_def using assms
    by (intro wf_app_updatePartColor wf_app_updateBearSkin) simp
  have r: "resetAll s = andThen (updateHat ''none'' s3)
           (\<lambda>s4. andThen (toggleScarf False s4)
             (\<lambda>s5. andThen
                      (updateCurrentAccessoryColor (currentAccessoryColor CONFIG_defaults) s5)
               (\<lambda>s6. Returns (updateAccessoryColorSection s6))))"
    by (simp add: resetAll_def Let_def s3_def)
  show ?thesis
    unfolding r
  proof (rule stateOf_andThen [where P = wf_app])
    show "wf_app (stateOf (updateHat ''none'' s3))" using w3 by (rule wf_app_updateHat)
  next
    fix s4 assume w4: "wf_app s4"
    show "wf_app (stateOf (andThen (toggleScarf False s4)
             (\<lambda>s5. andThen
                      (updateCurrentAccessoryColor (currentAccessoryColor CONFIG_defaults) s5)
               (\<lambda>s6. Returns (updateAccessoryColorSection s6)))))"
    proof (rule stateOf_andThen [where P = wf_app])
      show "wf_app (stateOf (toggleScarf False s4))" using w4 by (rule wf_app_toggleScarf)
    next
      fix s5 assume w5: "wf_app s5"
      show "wf_app (stateOf (andThen
                      (updateCurrentAccessoryColor (currentAccessoryColor CONFIG_defaults) s5)
               (\<lambda>s6. Returns (updateAccessoryColorSection s6))))"
      proof (rule stateOf_andThen [where P = wf_app])
        show "wf_app (stateOf
            (updateCurrentAccessoryColor (currentAccessoryColor CONFIG_defaults) s5))"
          using w5 by (rule wf_app_updateCurrentAccessoryColor)
      qed simp
    qed
  qed
qed

lemma wf_app_initialApp: "wf_app (initialApp d h)"
  by (simp add: wf_app_def initialApp_def)

lemma wf_app_init: "wf_app s \<Longrightarrow> wf_app (init s)"
  by (simp add: init_def)

lemma wf_app_fallbackTimeout: "wf_app s \<Longrightarrow> wf_app (fallbackTimeout s)"
  by (simp add: fallbackTimeout_def checkAllLoaded_def Let_def)

lemma exclusive_fresh:
  assumes "\<And>k m. k \<in> set ks \<Longrightarrow> materialRef h k = Some m \<Longrightarrow> unflagged (mats h m)"
  shows "exclusive ks h"
  using assms unfolding exclusive_iff by blast

subsection \<open>Accessory colour\<close>

lemma nodeAt_withMaterial [simp]: "nodeAt (withMaterial k f h) = nodeAt h"
  by (simp add: withMaterial_def split: node.splits)

lemma nextMat_withMaterial [simp]: "nextMat (withMaterial k f h) = nextMat h"
  by (simp add: withMaterial_def split: node.splits)

lemma mats_withMaterial:
  "mats (withMaterial k f h) m =
     (if materialRef h k = Some m then f (mats h m) else mats h m)"
  by (simp add: withMaterial_def materialRef_def split: node.splits)

lemma materialRef_withMaterial [simp]: "materialRef (withMaterial k f h) = materialRef h"
  by (rule ext) (simp add: materialRef_def)

lemma nodeAt_fold_accessoryChild [simp]: "nodeAt (fold (accessoryChild c) ks h) = nodeAt h"
  by (induction ks arbitrary: h) (simp_all add: accessoryChild_def)

lemma color_accessoryChild_stable:
  "color (mats h m) = setHex c \<Longrightarrow> color (mats (accessoryChild c k h) m) = setHex c"
  by (simp add: accessoryChild_def mats_withMaterial)

lemma color_fold_accessoryChild_stable:
  "color (mats h m) = setHex c \<Longrightarrow> color (mats (fold (accessoryChild c) ks h) m) = setHex c"
  by (induction ks arbitrary: h) (simp_all add: color_accessoryChild_stable)

lemma color_fold_accessoryChild:
  "k \<in> set ks \<Longrightarrow> materialRef h k = Some m \<Longrightarrow>
   color (mats (fold (accessoryChild c) ks h) m) = setHex c"
proof (induction ks arbitrary: h)
  case Nil
  then show ?case by simp
next
  case (Cons a ks)
  show ?case
  proof (cases "a = k")
    case True
    with Cons.prems have "color (mats (accessoryChild c a h) m) = setHex c"
      by (simp add: accessoryChild_def mats_withMaterial)
    then show ?thesis by (simp add: color_fold_accessoryChild_stable)
  next
    case False
    with Cons.prems have "k \<in> set ks" by simp
    moreover have "materialRef (accessoryChild c a h) k = Some m"
      using Cons.prems by (simp add: accessoryChild_def)
    ultimately show ?thesis using Cons.IH by simp
  qed
qed

lemma store_setAccessoryVisible [simp]: "store (setAccessoryVisible n v s) = store s"
  by (simp add: setAccessoryVisible_def split: option.splits)

lemma store_updateAccessoryColorSection [simp]: "store (updateAccessoryColorSection s) = store s"
  by (simp add: updateAccessoryColorSection_def)

lemma store_updateAccessoryColor:
  "accessories s n = Some a \<Longrightarrow>
   store (stateOf (updateAccessoryColor n c s)) = fold (accessoryChild c) (nodes a) (store s)"
  by (simp add: updateAccessoryColor_own traverse_def)

lemma store_andThen_section:
  "store (stateOf (andThen r
      (\<lambda>s3. Returns (updateAccessoryColorSection (s3\<lparr>state := g s3\<rparr>)))))
   = store (stateOf r)"
  by (cases r) simp_all

lemma store_updateHat:
  assumes "hatType \<noteq> ''none''" and "accessories s hatType = Some a"
  shows "store (stateOf (updateHat hatType s))
           = fold (accessoryChild (currentAccessoryColor (state s))) (nodes a) (store s)"
proof -
  define s2 where "s2 = setAccessoryVisible ''beanie'' False (setAccessoryVisible ''hat'' False s)"
  define s3 where "s3 = setAccessoryVisible hatType True s2"
  obtain a2 where a2: "accessories s2 hatType = Some a2" and n2: "nodes a2 = nodes a"
    using assms(2) by (simp add: s2_def accessories_setAccessoryVisible)
  obtain a3 where a3: "accessories s3 hatType = Some a3" and n3: "nodes a3 = nodes a"
    using a2 n2 by (simp add: s3_def accessories_setAccessoryVisible)
  have st: "store s3 = store s" "state s2 = state s"
    by (simp_all add: s3_def s2_def)
  have "store (stateOf (updateHat hatType s))
      = store (stateOf (updateAccessoryColor hatType (currentAccessoryColor (state s2)) s3))"
    using assms(1) a2
    by (simp add: updateHat_def Let_def s2_def [symmetric] s3_def [symmetric]
        store_andThen_section)
  then show ?thesis
    using a3 n3 st by (simp add: store_updateAccessoryColor)
qed

lemma store_toggleScarf_True:
  assumes "accessories s ''scarf'' = Some a"
  shows "store (stateOf (toggleScarf True s))
           = fold (accessoryChild (currentAccessoryColor (state s))) (nodes a) (store s)"
proof -
  define s0 where "s0 = setAccessoryVisible ''scarf'' True s"
  obtain a0 where a0: "accessories s0 ''scarf'' = Some a0" and n0: "nodes a0 = nodes a"
    using assms by (simp add: s0_def accessories_setAccessoryVisible)
  have st: "store s0 = store s" "state s0 = state s"
    by (simp_all add: s0_def)
  have "store (stateOf (toggleScarf True s))
      = store (stateOf (updateAccessoryColor ''scarf'' (currentAccessoryColor (state s0)) s0))"
    using assms
    by (simp add: toggleScarf_def Let_def s0_def [symmetric] store_andThen_section)
  then show ?thesis
    using a0 n0 st by (simp add: store_updateAccessoryColor)
qed

subsection \<open>First script: recolouring in place; form switching\<close>

text \<open>First class-based script: recolouring in place.\<close>

lemma sm_store_updateFurColor_v1:
  "sm_store (updateFurColor_v1 colorName sm) =
     (case currentBear sm of
        None \<Rightarrow> sm_store sm
      | Some b \<Rightarrow> fold (furChild_v1 (THREE_Color (CONFIG_colors_fur colorName)))
                    (nodes (objs sm b)) (sm_store sm))"
  by (simp add: updateFurColor_v1_def traverse_def Let_def split: option.splits)

lemma sm_store_updateEyeColor_v1:
  "sm_store (updateEyeColor_v1 colorName sm) =
     (case currentBear sm of
        None \<Rightarrow> sm_store sm
      | Some b \<Rightarrow> fold (eyeChild_v1 (THREE_Color (CONFIG_colors_eyes colorName)))
                    (nodes (objs sm b)) (sm_store sm))"
  by (simp add: updateEyeColor_v1_def traverse_def Let_def split: option.splits)

lemma updateFurColor_v1_noclone:
  "nodeAt (sm_store (updateFurColor_v1 colorName sm)) = nodeAt (sm_store sm)
   \<and> nextMat (sm_store (updateFurColor_v1 colorName sm)) = nextMat (sm_store sm)"
  by (cases "currentBear sm")
     (simp_all add: sm_store_updateFurColor_v1 furChild_v1_recolorChild nodeAt_fold_noclone)

lemma updateEyeColor_v1_noclone:
  "nodeAt (sm_store (updateEyeColor_v1 colorName sm)) = nodeAt (sm_store sm)
   \<and> nextMat (sm_store (updateEyeColor_v1 colorName sm)) = nextMat (sm_store sm)"
  by (cases "currentBear sm")
     (simp_all add: sm_store_updateEyeColor_v1 eyeChild_v1_recolorChild nodeAt_fold_noclone)

lemma updateFurColor_v1_sets_color:
  assumes b: "currentBear sm = Some b" and c: "child \<in> set (nodes (objs sm b))"
    and n: "nodeAt (sm_store sm) child = Mesh nm m" and t: "str_includes nm ''Body''"
  shows "color (mats (sm_store (updateFurColor_v1 colorName sm)) m)
           = THREE_Color (CONFIG_colors_fur colorName)"
proof -
  let ?c = "THREE_Color (CONFIG_colors_fur colorName)"
  let ?h = "sm_store (updateFurColor_v1 colorName sm)"
  have "\<exists>nm' m'. nodeAt ?h child = Mesh nm' m' \<and> color (mats ?h m') = ?c"
    unfolding sm_store_updateFurColor_v1 b option.case furChild_v1_recolorChild
    using c n
    by (rule established_recolorChild_fold [where P = "\<lambda>x. color x = ?c", rotated 4])
       (simp_all add: t)
  moreover have "nodeAt ?h child = Mesh nm m"
    using n by (simp add: updateFurColor_v1_noclone)
  ultimately show ?thesis by simp
qed

text \<open>Form switching.\<close>

lemma reposition_fields [simp]:
  "bearModels (repositionAccessories f sm) = bearModels sm"
  "currentBear (repositionAccessories f sm) = currentBear sm"
  "visible (objs (repositionAccessories f sm) r) = visible (objs sm r)"
  by (simp_all add: repositionAccessories_def Let_def split: option.splits prod.splits)

lemma switchBearForm_v1_unregistered:
  "bearModels sm formName = None \<Longrightarrow>
   switchBearForm_v1 formName sm =
     (case currentBear sm of None \<Rightarrow> sm | Some cur \<Rightarrow> setVisible cur False sm)"
  by (simp add: switchBearForm_v1_def Let_def setVisible_def split: option.splits)

lemma switchBearForm_v2_unregistered:
  "bearModels sm formName = None \<Longrightarrow>
   switchBearForm_v2 formName sm =
     (case currentBear sm of None \<Rightarrow> sm | Some cur \<Rightarrow> setVisible cur False sm)"
  by (simp add: switchBearForm_v2_def Let_def setVisible_def split: option.splits)

lemma switch_v1_fields:
  "bearModels (switchBearForm_v1 f sm) = bearModels sm"
  "currentBear (switchBearForm_v1 f sm) =
     (case bearModels sm f of None \<Rightarrow> currentBear sm | Some r \<Rightarrow> Some r)"
  "visible (objs (switchBearForm_v1 f sm) x) =
     (case bearModels sm f of
        None \<Rightarrow> visible (objs sm x) \<and> currentBear sm \<noteq> Some x
      | Some r \<Rightarrow> x = r \<or> (visible (objs sm x) \<and> currentBear sm \<noteq> Some x))"
  by (auto simp: switchBearForm_v1_def Let_def setVisible_def split: option.splits)

lemma switch_v2_fields:
  "bearModels (switchBearForm_v2 f sm) = bearModels sm"
  "currentBear (switchBearForm_v2 f sm) =
     (case bearModels sm f of None \<Rightarrow> currentBear sm | Some r \<Rightarrow> Some r)"
  "visible (objs (switchBearForm_v2 f sm) x) =
     (case bearModels sm f of
        None \<Rightarrow> visible (objs sm x) \<and> currentBear sm \<noteq> Some x
      | Some r \<Rightarrow> x = r \<or> (visible (objs sm x) \<and> currentBear sm \<noteq> Some x))"
  by (auto simp: switchBearForm_v2_def Let_def setVisible_def split: option.splits)

lemma tracked_switch_v2: "tracked sm \<Longrightarrow> tracked (switchBearForm_v2 f sm)"
  unfolding tracked_def by (cases "bearModels sm f") (auto simp: switch_v2_fields)

lemma tracked_switch_v1: "tracked sm \<Longrightarrow> tracked (switchBearForm_v1 f sm)"
  unfolding tracked_def by (cases "bearModels sm f") (auto simp: switch_v1_fields)

lemma switch_v2_registered:
  "tracked sm \<Longrightarrow> bearModels sm f = Some r \<Longrightarrow>
   visibleVariants (switchBearForm_v2 f sm) = {r} \<and> currentBear (switchBearForm_v2 f sm) = Some r"
  unfolding tracked_def visibleVariants_def
  by (auto simp: switch_v2_fields ran_def)

lemma switch_v1_registered:
  "tracked sm \<Longrightarrow> bearModels sm f = Some r \<Longrightarrow>
   visibleVariants (switchBearForm_v1 f sm) = {r} \<and> currentBear (switchBearForm_v1 f sm) = Some r"
  unfolding tracked_def visibleVariants_def
  by (auto simp: switch_v1_fields ran_def)

lemma tracked_at_most_one:
  "tracked sm \<Longrightarrow> visibleVariants sm \<subseteq> set_option (currentBear sm)"
  unfolding tracked_def visibleVariants_def by auto

lemma tracked_switchAll_v2: "tracked sm \<Longrightarrow> tracked (switchAll_v2 fs sm)"
  unfolding switchAll_v2_def
  by (induction fs arbitrary: sm) (simp_all add: tracked_switch_v2)

lemma switchAll_v2_registered:
  "tracked sm \<Longrightarrow> fs \<noteq> [] \<Longrightarrow> \<forall>f\<in>set fs. bearModels sm f \<noteq> None \<Longrightarrow>
   \<exists>r. visibleVariants (switchAll_v2 fs sm) = {r}"
proof (induction fs arbitrary: sm rule: rev_induct)
  case Nil
  then show ?case by simp
next
  case (snoc f fs)
  from snoc.prems obtain r where r: "bearModels sm f = Some r" by auto
  have "bearModels (switchAll_v2 fs sm) = bearModels sm"
    unfolding switchAll_v2_def by (induction fs arbitrary: sm) (simp_all add: switch_v2_fields)
  with r have "bearModels (switchAll_v2 fs sm) f = Some r" by simp
  moreover have "tracked (switchAll_v2 fs sm)"
    using snoc.prems(1) by (rule tracked_switchAll_v2)
  ultimately have "visibleVariants (switchBearForm_v2 f (switchAll_v2 fs sm)) = {r}"
    using switch_v2_registered by blast
  then show ?case by (auto simp: switchAll_v2_def)
qed

subsection \<open>Further facts for the claims\<close>

lemma mats_recolorChild_old:
  "m < nextMat h \<Longrightarrow>
   mats (recolorChild flag mark f targets k h) m = mats h m
   \<or> mats (recolorChild flag mark f targets k h) m = f (mats h m)"
  by (cases rule: recolorChild_elim [of flag mark f targets k h]) auto

lemma established_recolorChild_fold_mat:
  assumes P1: "\<And>x. P x \<Longrightarrow> P (f x)" and P2: "\<And>x. P (f (mark x))"
    and P3: "\<And>x. flag x \<Longrightarrow> P (f x)"
    and T: "\<And>k nm x. targets k nm (f x) = targets k nm x"
  shows "j \<in> set ks \<Longrightarrow> nodeAt h j = Mesh nm m0 \<Longrightarrow> m0 < nextMat h \<Longrightarrow>
     targets j nm (mats h m0) \<Longrightarrow>
     \<exists>nm m. nodeAt (fold (recolorChild flag mark f targets) ks h) j = Mesh nm m
          \<and> P (mats (fold (recolorChild flag mark f targets) ks h) m)"
proof (induction ks arbitrary: h)
  case Nil
  then show ?case by simp
next
  case (Cons k ks)
  let ?h = "recolorChild flag mark f targets k h"
  show ?case
  proof (cases "k = j")
    case True
    have "\<exists>nm m. nodeAt ?h j = Mesh nm m \<and> P (mats ?h m)"
      unfolding True using P2 P3 Cons.prems(2,4) by (rule established_recolorChild_here)
    from established_recolorChild_fold_stable [of P f mark _ j flag targets ks, OF P1 P2 this]
    show ?thesis by simp
  next
    case False
    with Cons.prems have "j \<in> set ks" by simp
    moreover have "nodeAt ?h j = Mesh nm m0"
      using False Cons.prems(2) by (simp add: nodeAt_recolorChild_other)
    moreover have "m0 < nextMat ?h"
      using Cons.prems(3) nextMat_recolorChild [of h flag mark f targets k] by simp
    moreover have "targets j nm (mats ?h m0)"
      using mats_recolorChild_old [OF Cons.prems(3), of flag mark f targets k] Cons.prems(4) T
      by auto
    ultimately show ?thesis using Cons.IH by simp
  qed
qed

lemma updateFurColor_v2_recolors:
  assumes b: "currentBear sm = Some b" and c: "child \<in> set (nodes (objs sm b))"
    and n: "materialRef (sm_store sm) child = Some m" and lt: "m < nextMat (sm_store sm)"
    and t: "\<not> exempt_v2 (sm_store sm) child"
  shows "\<exists>x. surfaceMaterial (sm_store (updateFurColor_v2 colorName sm)) child = Some x
           \<and> isCloned x \<and> color x = THREE_Color (CONFIG_colors_fur colorName)"
proof -
  let ?c = "THREE_Color (CONFIG_colors_fur colorName)"
  let ?h = "sm_store (updateFurColor_v2 colorName sm)"
  from n obtain nm where nd: "nodeAt (sm_store sm) child = Mesh nm m"
    by (auto simp: materialRef_Some)
  with t have tg: "mname (mats (sm_store sm) m) \<noteq> ''EyeBlack''"
    by (simp add: exempt_v2_def)
  have "\<exists>nm' m'. nodeAt ?h child = Mesh nm' m' \<and> (isCloned (mats ?h m') \<and> color (mats ?h m') = ?c)"
    unfolding sm_store_updateFurColor_v2 b option.case furChild_v2_recolorChild
    using c nd lt tg
    by (rule established_recolorChild_fold_mat
          [where P = "\<lambda>x. isCloned x \<and> color x = ?c", rotated 4])
       simp_all
  then show ?thesis by (auto simp: surfaceMaterial_def)
qed

lemma updateEyeColor_v2_recolors:
  assumes b: "currentBear sm = Some b" and c: "child \<in> set (nodes (objs sm b))"
    and n: "materialRef (sm_store sm) child = Some m" and lt: "m < nextMat (sm_store sm)"
    and t: "exempt_v2 (sm_store sm) child"
  shows "\<exists>x. surfaceMaterial (sm_store (updateEyeColor_v2 colorName sm)) child = Some x
           \<and> isEyeCloned x \<and> color x = THREE_Color (CONFIG_colors_eyes colorName)"
proof -
  let ?c = "THREE_Color (CONFIG_colors_eyes colorName)"
  let ?h = "sm_store (updateEyeColor_v2 colorName sm)"
  from n obtain nm where nd: "nodeAt (sm_store sm) child = Mesh nm m"
    by (auto simp: materialRef_Some)
  with t have tg: "mname (mats (sm_store sm) m) = ''EyeBlack''"
    by (simp add: exempt_v2_def)
  have "\<exists>nm' m'. nodeAt ?h child = Mesh nm' m'
          \<and> (isEyeCloned (mats ?h m') \<and> color (mats ?h m') = ?c)"
    unfolding sm_store_updateEyeColor_v2 b option.case eyeChild_v2_recolorChild
    using c nd lt tg
    by (rule established_recolorChild_fold_mat
          [where P = "\<lambda>x. isEyeCloned x \<and> color x = ?c", rotated 4])
       simp_all
  then show ?thesis by (auto simp: surfaceMaterial_def)
qed

lemma updateBearSkin_retextures:
  assumes t: "textures skinName = Some t" and b: "bear s = Some b"
    and c: "child \<in> set (nodes b)" and n: "materialRef (store s) child = Some m"
    and x: "\<not> exempt (bearParts s) child"
  shows "\<exists>x. surfaceMaterial (store (updateBearSkin skinName s)) child = Some x
           \<and> isCloned x \<and> tex_map x = Some t"
proof -
  let ?h = "store (updateBearSkin skinName s)"
  from n obtain nm where nd: "nodeAt (store s) child = Mesh nm m"
    by (auto simp: materialRef_Some)
  have "\<exists>nm' m'. nodeAt ?h child = Mesh nm' m'
          \<and> (isCloned (mats ?h m') \<and> tex_map (mats ?h m') = Some t)"
    unfolding store_updateBearSkin t b option.case skinChild_recolorChild
    using c nd
    by (rule established_recolorChild_fold
          [where P = "\<lambda>x. isCloned x \<and> tex_map x = Some t", rotated 4])
       (use x in \<open>simp_all add: exempt_def\<close>)
  then show ?thesis by (auto simp: surfaceMaterial_def)
qed

lemma updatePartColor_eyes_recolors:
  assumes e: "eyes (bearParts s) = Some es" and c: "child \<in> set es"
    and n: "materialRef (store s) child = Some m"
  shows "\<exists>x. surfaceMaterial (store (updatePartColor ''eyes'' col s)) child = Some x
           \<and> isEyeCloned x \<and> color x = setHex col"
proof -
  let ?h = "store (updatePartColor ''eyes'' col s)"
  from n obtain nm where nd: "nodeAt (store s) child = Mesh nm m"
    by (auto simp: materialRef_Some)
  have "\<exists>nm' m'. nodeAt ?h child = Mesh nm' m'
          \<and> (isEyeCloned (mats ?h m') \<and> color (mats ?h m') = setHex col)"
    unfolding store_updatePartColor_eyes e option.case eyeMesh_recolorChild
    using c nd
    by (rule established_recolorChild_fold
          [where P = "\<lambda>x. isEyeCloned x \<and> color x = setHex col", rotated 4])
       simp_all
  then show ?thesis by (auto simp: surfaceMaterial_def)
qed

lemma updatePartColor_nose_recolors:
  assumes e: "nose (bearParts s) = Some child"
    and n: "materialRef (store s) child = Some m"
  shows "\<exists>x. surfaceMaterial (store (updatePartColor ''nose'' col s)) child = Some x
           \<and> isNoseCloned x \<and> color x = setHex col"
proof -
  let ?h = "store (updatePartColor ''nose'' col s)"
  from n obtain nm where nd: "nodeAt (store s) child = Mesh nm m"
    by (auto simp: materialRef_Some)
  have "child \<in> set [child]" by simp
  then have "\<exists>nm' m'. nodeAt ?h child = Mesh nm' m'
          \<and> (isNoseCloned (mats ?h m') \<and> color (mats ?h m') = setHex col)"
    unfolding store_updatePartColor_nose e option.case noseMeshColor_recolorChild
    using nd
    by (rule established_recolorChild_fold
          [where P = "\<lambda>x. isNoseCloned x \<and> color x = setHex col", rotated 4])
       simp_all
  then show ?thesis by (auto simp: surfaceMaterial_def)
qed

lemma updateBearSkin_unrecognized: "textures skinName = None \<Longrightarrow> updateBearSkin skinName s = s"
  by (simp add: updateBearSkin_def)

lemma purple_unknown: "CONFIG_colors_fur ''purple'' = None" "textures ''purple'' = None"
  by (simp_all add: CONFIG_colors_fur_def textures_def getProperty_def CONFIG_textures_def
      Object_prototype_def)

lemma body_includes: "str_includes ''Body'' ''Body''" "\<not> str_includes ''Nose'' ''Body''"
  by simp_all

lemma updateAccessoryColor_noclone:
  "nodeAt (store (stateOf (updateAccessoryColor n c s))) = nodeAt (store s)
   \<and> nextMat (store (stateOf (updateAccessoryColor n c s))) = nextMat (store s)"
  by (cases "accessories s n"; cases "n \<in> set Object_prototype")
     (simp_all add: updateAccessoryColor_miss updateAccessoryColor_inherited
        updateAccessoryColor_own traverse_def accessoryChild_recolorChild nodeAt_fold_noclone)

lemma ex_exempt:
  "exempt_v2 ex_store 3" "\<not> exempt_v2 ex_store (Suc 0)"
  "exempt (bearParts ex_app) 5" "\<not> exempt (bearParts ex_app) (Suc 0)"
  by (simp_all add: exempt_v2_def exempt_def isEye_def isNose_def ex_store_simps ex_app_simps
      ex_material_def)

lemma ex_switch_v1:
  "switchBearForm_v1 ''standing'' ex_scene
     = ex_scene\<lparr>objs := (objs ex_scene)(0 := ex_object False [0, 1, 2, 3, 4, 5])\<rparr>"
  by (simp add: ex_scene_def switchBearForm_v1_def setVisible_def ex_object_def Let_def)

lemma ex_switch_v2:
  "switchBearForm_v2 ''standing'' ex_scene
     = ex_scene\<lparr>objs := (objs ex_scene)(0 := ex_object False [0, 1, 2, 3, 4, 5])\<rparr>"
  by (simp add: ex_scene_def switchBearForm_v2_def setVisible_def ex_object_def Let_def)

lemma ex_ran: "ran (bearModels ex_scene) = {0}"
  by (simp add: ex_scene_def)

lemma ex_scene_tracked: "tracked ex_scene"
  by (simp add: tracked_def ex_ran) (simp add: ex_scene_def)

subsection \<open>Materials that are not shared\<close>

lemma exclusive_shared_unflagged:
  "exclusive ks h \<Longrightarrow> i \<in> set ks \<Longrightarrow> j \<in> set ks \<Longrightarrow> i \<noteq> j \<Longrightarrow>
   materialRef h i = Some m \<Longrightarrow> materialRef h j = Some m \<Longrightarrow> unflagged (mats h m)"
  unfolding exclusive_iff by blast

lemma exclusive_flagged_private:
  assumes ex: "exclusive ks h" and i: "i \<in> set ks" and j: "j \<in> set ks" and ne: "i \<noteq> j"
    and x: "surfaceMaterial h i = Some x" and fl: "\<not> unflagged x"
  shows "materialRef h i \<noteq> materialRef h j"
proof
  assume eq: "materialRef h i = materialRef h j"
  from x obtain m where m: "materialRef h i = Some m" and xm: "x = mats h m"
    by (auto simp: surfaceMaterial_eq)
  with eq have "materialRef h j = Some m" by simp
  with ex i j ne m have "unflagged (mats h m)" by (rule exclusive_shared_unflagged)
  with fl xm show False by simp
qed

lemma unshared_iff:
  "unshared ks h \<longleftrightarrow>
     allocated ks h
     \<and> (\<forall>k\<in>set ks. \<forall>k'\<in>set ks. \<forall>m. k \<noteq> k' \<longrightarrow> materialRef h k = Some m \<longrightarrow>
          materialRef h k' \<noteq> Some m)"
  unfolding unshared_def list_all_iff by (intro conj_cong refl ball_cong) auto

lemma unshared_cong:
  "nodeAt h' = nodeAt h \<Longrightarrow> nextMat h' = nextMat h \<Longrightarrow> unshared ks h' = unshared ks h"
  by (simp add: unshared_iff allocated_iff materialRef_def)

lemma materialRef_newMaterialChild:
  "materialRef (newMaterialChild c x h) k =
     (if k = x \<and> materialRef h x \<noteq> None then Some (nextMat h) else materialRef h k)"
  by (cases "nodeAt h x"; cases "nodeAt h k") (auto simp: newMaterialChild_def materialRef_def)

lemma nextMat_newMaterialChild:
  "nextMat (newMaterialChild c x h) =
     (if materialRef h x \<noteq> None then Suc (nextMat h) else nextMat h)"
  by (cases "nodeAt h x") (auto simp: newMaterialChild_def materialRef_def)

lemma unshared_snoc:
  assumes "unshared xs h"
  shows "unshared (xs @ [x]) (newMaterialChild c x h)"
proof (cases "materialRef h x")
  case None
  with assms show ?thesis
    by (auto simp: unshared_iff allocated_iff materialRef_newMaterialChild
        nextMat_newMaterialChild)
next
  case (Some m0)
  from assms have al: "\<And>k m. k \<in> set xs \<Longrightarrow> materialRef h k = Some m \<Longrightarrow> m < nextMat h"
    by (auto simp: unshared_iff allocated_iff)
  from assms have ds: "\<And>k k' m. k \<in> set xs \<Longrightarrow> k' \<in> set xs \<Longrightarrow> k \<noteq> k' \<Longrightarrow>
      materialRef h k = Some m \<Longrightarrow> materialRef h k' \<noteq> Some m"
    by (auto simp: unshared_iff)
  show ?thesis
    unfolding unshared_iff allocated_iff
    using Some al ds
    by (auto simp: materialRef_newMaterialChild nextMat_newMaterialChild less_Suc_eq
        split: if_splits)
qed

lemma unshared_fold_newMaterialChild: "unshared ks (fold (newMaterialChild c) ks h)"
proof (induction ks rule: rev_induct)
  case Nil
  show ?case by (simp add: unshared_def allocated_def)
next
  case (snoc x xs)
  then show ?case by (simp add: unshared_snoc)
qed

lemma store_checkAllLoaded [simp]: "store (snd (checkAllLoaded s)) = store s"
  by (simp add: checkAllLoaded_def Let_def)

lemma accessories_checkAllLoaded [simp]: "accessories (snd (checkAllLoaded s)) = accessories s"
  by (simp add: checkAllLoaded_def Let_def)

lemma store_loadAccessory_onLoad:
  "store (loadAccessory_onLoad name gltf_scene s)
     = fold (newMaterialChild (currentAccessoryColor CONFIG_defaults)) (nodes gltf_scene) (store s)"
  by (simp add: loadAccessory_onLoad_def Let_def traverse_def)

lemma accessories_loadAccessory_onLoad:
  "accessories (loadAccessory_onLoad name gltf_scene s) name
     = Some (gltf_scene\<lparr>position := fst (case accessoryPositions name of
                   None \<Rightarrow> ((0, 15/10, 0), 5/10, (0, 0, 0)) | Some p \<Rightarrow> p),
          scale := setScalar (fst (snd (case accessoryPositions name of
                   None \<Rightarrow> ((0, 15/10, 0), 5/10, (0, 0, 0)) | Some p \<Rightarrow> p))),
          rotation := snd (snd (case accessoryPositions name of
                   None \<Rightarrow> ((0, 15/10, 0), 5/10, (0, 0, 0)) | Some p \<Rightarrow> p)),
          visible := False\<rparr>)"
  by (simp add: loadAccessory_onLoad_def Let_def)

lemma nodes_loadAccessory_onLoad:
  "map_option nodes (accessories (loadAccessory_onLoad name gltf_scene s) name)
     = Some (nodes gltf_scene)"
  by (simp add: accessories_loadAccessory_onLoad)

lemma unshared_loadAccessory_onLoad:
  "unshared (nodes gltf_scene) (store (loadAccessory_onLoad name gltf_scene s))"
  by (simp add: store_loadAccessory_onLoad unshared_fold_newMaterialChild)

text \<open>The accessory handlers change no material reference and allocate nothing.\<close>

lemma updateHat_noclone:
  "nodeAt (store (stateOf (updateHat hatType s))) = nodeAt (store s)
   \<and> nextMat (store (stateOf (updateHat hatType s))) = nextMat (store s)"
  unfolding updateHat_def Let_def
  by (rule stateOf_andThen [where P = "\<lambda>s'. nodeAt (store s') = nodeAt (store s)
        \<and> nextMat (store s') = nextMat (store s)"])
     (simp_all add: updateAccessoryColor_noclone)

lemma toggleScarf_noclone:
  "nodeAt (store (stateOf (toggleScarf v s))) = nodeAt (store s)
   \<and> nextMat (store (stateOf (toggleScarf v s))) = nextMat (store s)"
  unfolding toggleScarf_def Let_def
  by (rule stateOf_andThen [where P = "\<lambda>s'. nodeAt (store s') = nodeAt (store s)
        \<and> nextMat (store s') = nextMat (store s)"])
     (simp_all add: updateAccessoryColor_noclone split: option.splits)

lemma updateCurrentAccessoryColor_noclone:
  "nodeAt (store (stateOf (updateCurrentAccessoryColor c s))) = nodeAt (store s)
   \<and> nextMat (store (stateOf (updateCurrentAccessoryColor c s))) = nextMat (store s)"
  unfolding updateCurrentAccessoryColor_def Let_def
  by (rule stateOf_andThen [where P = "\<lambda>s'. nodeAt (store s') = nodeAt (store s)
        \<and> nextMat (store s') = nextMat (store s)"])
     (simp_all add: updateAccessoryColor_noclone)

lemma unshared_updateAccessoryColor:
  "unshared ks (store (stateOf (updateAccessoryColor n c s))) = unshared ks (store s)"
  by (rule unshared_cong) (simp_all add: updateAccessoryColor_noclone)

lemma unshared_updateHat:
  "unshared ks (store (stateOf (updateHat hatType s))) = unshared ks (store s)"
  by (rule unshared_cong) (simp_all add: updateHat_noclone)

lemma unshared_toggleScarf:
  "unshared ks (store (stateOf (toggleScarf v s))) = unshared ks (store s)"
  by (rule unshared_cong) (simp_all add: toggleScarf_noclone)

lemma unshared_updateCurrentAccessoryColor:
  "unshared ks (store (stateOf (updateCurrentAccessoryColor c s))) = unshared ks (store s)"
  by (rule unshared_cong) (simp_all add: updateCurrentAccessoryColor_noclone)

text \<open>
  The bear's recolouring replaces references of the bear's meshes only; an accessory
  that has no node in common with the bear stays unshared.
\<close>

lemma nextMat_fold_recolorChild:
  "nextMat h \<le> nextMat (fold (recolorChild flag mark f targets) ks h)"
proof (induction ks arbitrary: h)
  case Nil
  show ?case by simp
next
  case (Cons k ks)
  have "nextMat h \<le> nextMat (recolorChild flag mark f targets k h)"
    by (rule nextMat_recolorChild)
  also have "\<dots> \<le> nextMat (fold (recolorChild flag mark f targets) ks
      (recolorChild flag mark f targets k h))"
    by (rule Cons.IH)
  finally show ?case by simp
qed

lemma unshared_fold_recolorChild_disjoint:
  assumes un: "unshared ks h" and dj: "set ks \<inter> set ks0 = {}"
  shows "unshared ks (fold (recolorChild flag mark f targets) ks0 h)"
proof -
  let ?h = "fold (recolorChild flag mark f targets) ks0 h"
  have same: "materialRef ?h k = materialRef h k" if "k \<in> set ks" for k
  proof -
    from that dj have "k \<notin> set ks0" by auto
    then have "nodeAt ?h k = nodeAt h k" by (rule nodeAt_fold_recolorChild_unlisted)
    then show ?thesis by (simp add: materialRef_def)
  qed
  have le: "nextMat h \<le> nextMat ?h" by (rule nextMat_fold_recolorChild)
  from un have al: "\<And>k m. k \<in> set ks \<Longrightarrow> materialRef h k = Some m \<Longrightarrow> m < nextMat h"
    and ds: "\<And>k k' m. k \<in> set ks \<Longrightarrow> k' \<in> set ks \<Longrightarrow> k \<noteq> k' \<Longrightarrow>
      materialRef h k = Some m \<Longrightarrow> materialRef h k' \<noteq> Some m"
    by (auto simp: unshared_iff allocated_iff)
  show ?thesis
    unfolding unshared_iff allocated_iff
  proof (intro conjI ballI allI impI)
    fix k m assume "k \<in> set ks" "materialRef ?h k = Some m"
    then have "m < nextMat h" using al same by simp
    with le show "m < nextMat ?h" by simp
  next
    fix k k' m assume "k \<in> set ks" "k' \<in> set ks" "k \<noteq> k'" "materialRef ?h k = Some m"
    then show "materialRef ?h k' \<noteq> Some m" using ds same by simp
  qed
qed

lemma unshared_updateBearSkin:
  assumes un: "unshared ks (store s)" and dj: "\<And>b. bear s = Some b \<Longrightarrow> set ks \<inter> set (nodes b) = {}"
  shows "unshared ks (store (updateBearSkin skinName s))"
proof (cases "textures skinName")
  case None
  with un show ?thesis by (simp add: store_updateBearSkin)
next
  case (Some t)
  show ?thesis
  proof (cases "bear s")
    case None
    with un Some show ?thesis by (simp add: store_updateBearSkin)
  next
    case b: (Some b)
    show ?thesis
      unfolding store_updateBearSkin Some b option.case skinChild_recolorChild
      using un dj [OF b] by (rule unshared_fold_recolorChild_disjoint)
  qed
qed

lemma unshared_updatePartColor:
  assumes un: "unshared ks (store s)"
    and dj: "\<And>es. eyes (bearParts s) = Some es \<Longrightarrow> set ks \<inter> set es = {}"
      "\<And>n. nose (bearParts s) = Some n \<Longrightarrow> n \<notin> set ks"
  shows "unshared ks (store (updatePartColor part c s))"
proof (cases "part = ''eyes''")
  case True
  show ?thesis
  proof (cases "eyes (bearParts s)")
    case None
    with un True show ?thesis by (simp add: store_updatePartColor_eyes)
  next
    case (Some es)
    show ?thesis
      unfolding True store_updatePartColor_eyes Some option.case eyeMesh_recolorChild
      using un dj(1) [OF Some] by (rule unshared_fold_recolorChild_disjoint)
  qed
next
  case False
  show ?thesis
  proof (cases "part = ''nose''")
    case nose: True
    show ?thesis
    proof (cases "nose (bearParts s)")
      case None
      with un nose show ?thesis by (simp add: store_updatePartColor_nose)
    next
      case (Some n)
      from dj(2) [OF Some] have "set ks \<inter> set [n] = {}" by simp
      with un show ?thesis
        unfolding nose store_updatePartColor_nose Some option.case noseMeshColor_recolorChild
        by (rule unshared_fold_recolorChild_disjoint)
    qed
  next
    case other: False
    with False un show ?thesis by (simp add: updatePartColor_other)
  qed
qed

subsection \<open>The placeholder of the first script\<close>

lemma placeholder_addPlaceholder: "placeholder (addPlaceholder cube k (SceneManager_new os h))"
  by (simp add: placeholder_def addPlaceholder_def SceneManager_new_def Let_def)

lemma fold_unnamed:
  assumes "pat \<noteq> []"
  shows "list_all (\<lambda>k. case nodeAt h k of Object3D _ \<Rightarrow> True | Mesh nm m \<Rightarrow> nm = []) ks \<Longrightarrow>
   fold (recolorChild flag mark f (\<lambda>_ nm _. str_includes nm pat)) ks h = h"
proof (induction ks)
  case Nil
  show ?case by simp
next
  case (Cons k ks)
  from Cons.prems assms
  have "recolorChild flag mark f (\<lambda>_ nm _. str_includes nm pat) k h = h"
    by (cases "nodeAt h k") (simp_all add: recolorChild_cases)
  with Cons show ?case by simp
qed

lemma placeholder_updateFurColor_v1: "placeholder sm \<Longrightarrow> updateFurColor_v1 colorName sm = sm"
proof (cases "currentBear sm")
  case None
  then show ?thesis by (simp add: updateFurColor_v1_def)
next
  case (Some b)
  assume "placeholder sm"
  with Some have "list_all (\<lambda>k. case nodeAt (sm_store sm) k of
      Object3D _ \<Rightarrow> True | Mesh nm m \<Rightarrow> nm = []) (nodes (objs sm b))"
    by (simp add: placeholder_def)
  from fold_unnamed [OF _ this, of "''Body''"]
  have "fold (furChild_v1 (THREE_Color (CONFIG_colors_fur colorName))) (nodes (objs sm b))
      (sm_store sm) = sm_store sm"
    by (simp add: furChild_v1_recolorChild)
  with Some show ?thesis by (simp add: updateFurColor_v1_def traverse_def Let_def)
qed

lemma placeholder_updateEyeColor_v1: "placeholder sm \<Longrightarrow> updateEyeColor_v1 colorName sm = sm"
proof (cases "currentBear sm")
  case None
  then show ?thesis by (simp add: updateEyeColor_v1_def)
next
  case (Some b)
  assume "placeholder sm"
  with Some have "list_all (\<lambda>k. case nodeAt (sm_store sm) k of
      Object3D _ \<Rightarrow> True | Mesh nm m \<Rightarrow> nm = []) (nodes (objs sm b))"
    by (simp add: placeholder_def)
  from fold_unnamed [OF _ this, of "''Eye''"]
  have "fold (eyeChild_v1 (THREE_Color (CONFIG_colors_eyes colorName))) (nodes (objs sm b))
      (sm_store sm) = sm_store sm"
    by (simp add: eyeChild_v1_recolorChild)
  with Some show ?thesis by (simp add: updateEyeColor_v1_def traverse_def Let_def)
qed

lemma placeholder_setVisible: "placeholder (setVisible r v sm) = placeholder sm"
  by (cases "currentBear sm") (simp_all add: placeholder_def setVisible_def)

lemma placeholder_switchBearForm_v1: "placeholder sm \<Longrightarrow> placeholder (switchBearForm_v1 f sm)"
proof -
  assume p: "placeholder sm"
  then have "bearModels sm f = None" by (simp add: placeholder_def)
  then have "switchBearForm_v1 f sm =
      (case currentBear sm of None \<Rightarrow> sm | Some cur \<Rightarrow> setVisible cur False sm)"
    by (rule switchBearForm_v1_unregistered)
  with p show ?thesis by (cases "currentBear sm") (simp_all add: placeholder_setVisible)
qed

lemma placeholder_toggleAccessory:
  "placeholder sm \<Longrightarrow> placeholder (toggleAccessory accessoryName v sm)"
  by (cases "sm_accessories sm accessoryName")
     (simp_all add: toggleAccessory_def placeholder_setVisible)

subsection \<open>Cloning before the first write\<close>

lemma flagged_not_unflagged:
  "isCloned x \<Longrightarrow> \<not> unflagged x" "isEyeCloned x \<Longrightarrow> \<not> unflagged x"
  "isNoseCloned x \<Longrightarrow> \<not> unflagged x"
  by (simp_all add: unflagged_def)

lemma updateFurColor_v2_inv:
  assumes "currentBear sm = Some b"
    and "allocated (nodes (objs sm b)) (sm_store sm)"
    and "exclusive (nodes (objs sm b)) (sm_store sm)"
  shows "allocated (nodes (objs sm b)) (sm_store (updateFurColor_v2 colorName sm))
       \<and> exclusive (nodes (objs sm b)) (sm_store (updateFurColor_v2 colorName sm))"
  unfolding sm_store_updateFurColor_v2 assms(1) option.case furChild_v2_recolorChild
  using assms(2,3) by (intro inv_fold_recolorChild) simp_all

lemma updateEyeColor_v2_inv:
  assumes "currentBear sm = Some b"
    and "allocated (nodes (objs sm b)) (sm_store sm)"
    and "exclusive (nodes (objs sm b)) (sm_store sm)"
  shows "allocated (nodes (objs sm b)) (sm_store (updateEyeColor_v2 colorName sm))
       \<and> exclusive (nodes (objs sm b)) (sm_store (updateEyeColor_v2 colorName sm))"
  unfolding sm_store_updateEyeColor_v2 assms(1) option.case eyeChild_v2_recolorChild
  using assms(2,3) by (intro inv_fold_recolorChild) simp_all

lemma updateFurColor_v2_clones:
  assumes b: "currentBear sm = Some b"
    and al: "allocated (nodes (objs sm b)) (sm_store sm)"
    and ex: "exclusive (nodes (objs sm b)) (sm_store sm)"
    and i: "i \<in> set (nodes (objs sm b))" and j: "j \<in> set (nodes (objs sm b))"
    and ne: "i \<noteq> j"
    and mi: "materialRef (sm_store sm) i = Some m" and mj: "materialRef (sm_store sm) j = Some m"
    and t: "\<not> exempt_v2 (sm_store sm) i"
  shows "mats (sm_store (updateFurColor_v2 colorName sm)) m = mats (sm_store sm) m
       \<and> (\<exists>x. surfaceMaterial (sm_store (updateFurColor_v2 colorName sm)) i = Some x
              \<and> isCloned x \<and> color x = THREE_Color (CONFIG_colors_fur colorName))
       \<and> materialRef (sm_store (updateFurColor_v2 colorName sm)) i
           \<noteq> materialRef (sm_store (updateFurColor_v2 colorName sm)) j
       \<and> allocated (nodes (objs sm b)) (sm_store (updateFurColor_v2 colorName sm))
       \<and> exclusive (nodes (objs sm b)) (sm_store (updateFurColor_v2 colorName sm))"
proof -
  let ?h = "sm_store (updateFurColor_v2 colorName sm)"
  from ex i j ne mi mj have un: "unflagged (mats (sm_store sm) m)"
    by (rule exclusive_shared_unflagged)
  from al i mi have lt: "m < nextMat (sm_store sm)" by (auto simp: allocated_iff)
  from un have "\<not> isCloned (mats (sm_store sm) m)" by (simp add: unflagged_def)
  with lt have 1: "mats ?h m = mats (sm_store sm) m" by (rule updateFurColor_v2_template)
  from b i mi lt t obtain x where x: "surfaceMaterial ?h i = Some x" "isCloned x"
      "color x = THREE_Color (CONFIG_colors_fur colorName)"
    using updateFurColor_v2_recolors [of sm b i m colorName] by blast
  from b al ex have inv: "allocated (nodes (objs sm b)) ?h \<and> exclusive (nodes (objs sm b)) ?h"
    by (rule updateFurColor_v2_inv)
  then have "exclusive (nodes (objs sm b)) ?h" ..
  from this i j ne x(1) flagged_not_unflagged(1) [OF x(2)]
  have 3: "materialRef ?h i \<noteq> materialRef ?h j" by (rule exclusive_flagged_private)
  from 1 x 3 inv show ?thesis by blast
qed

lemma updateEyeColor_v2_clones:
  assumes b: "currentBear sm = Some b"
    and al: "allocated (nodes (objs sm b)) (sm_store sm)"
    and ex: "exclusive (nodes (objs sm b)) (sm_store sm)"
    and i: "i \<in> set (nodes (objs sm b))" and j: "j \<in> set (nodes (objs sm b))"
    and ne: "i \<noteq> j"
    and mi: "materialRef (sm_store sm) i = Some m" and mj: "materialRef (sm_store sm) j = Some m"
    and t: "exempt_v2 (sm_store sm) i"
  shows "mats (sm_store (updateEyeColor_v2 colorName sm)) m = mats (sm_store sm) m
       \<and> (\<exists>x. surfaceMaterial (sm_store (updateEyeColor_v2 colorName sm)) i = Some x
              \<and> isEyeCloned x \<and> color x = THREE_Color (CONFIG_colors_eyes colorName))
       \<and> materialRef (sm_store (updateEyeColor_v2 colorName sm)) i
           \<noteq> materialRef (sm_store (updateEyeColor_v2 colorName sm)) j
       \<and> allocated (nodes (objs sm b)) (sm_store (updateEyeColor_v2 colorName sm))
       \<and> exclusive (nodes (objs sm b)) (sm_store (updateEyeColor_v2 colorName sm))"
proof -
  let ?h = "sm_store (updateEyeColor_v2 colorName sm)"
  from ex i j ne mi mj have un: "unflagged (mats (sm_store sm) m)"
    by (rule exclusive_shared_unflagged)
  from al i mi have lt: "m < nextMat (sm_store sm)" by (auto simp: allocated_iff)
  from un have "\<not> isEyeCloned (mats (sm_store sm) m)" by (simp add: unflagged_def)
  with lt have 1: "mats ?h m = mats (sm_store sm) m" by (rule updateEyeColor_v2_template)
  from b i mi lt t obtain x where x: "surfaceMaterial ?h i = Some x" "isEyeCloned x"
      "color x = THREE_Color (CONFIG_colors_eyes colorName)"
    using updateEyeColor_v2_recolors [of sm b i m colorName] by blast
  from b al ex have inv: "allocated (nodes (objs sm b)) ?h \<and> exclusive (nodes (objs sm b)) ?h"
    by (rule updateEyeColor_v2_inv)
  then have "exclusive (nodes (objs sm b)) ?h" ..
  from this i j ne x(1) flagged_not_unflagged(2) [OF x(2)]
  have 3: "materialRef ?h i \<noteq> materialRef ?h j" by (rule exclusive_flagged_private)
  from 1 x 3 inv show ?thesis by blast
qed

lemma bear_updateBearSkin [simp]: "bear (updateBearSkin n s) = bear s"
  by (simp add: updateBearSkin_def split: option.splits)

lemma bear_updatePartColor [simp]: "bear (updatePartColor part c s) = bear s"
  by (simp add: updatePartColor_def split: option.splits)

lemma updateBearSkin_clones:
  assumes wf: "wf_app s" and b: "bear s = Some b" and tx: "textures skinName = Some t"
    and i: "i \<in> set (nodes b)" and j: "j \<in> set (nodes b)" and ne: "i \<noteq> j"
    and mi: "materialRef (store s) i = Some m" and mj: "materialRef (store s) j = Some m"
    and t: "\<not> exempt (bearParts s) i"
  shows "mats (store (updateBearSkin skinName s)) m = mats (store s) m
       \<and> (\<exists>x. surfaceMaterial (store (updateBearSkin skinName s)) i = Some x
              \<and> isCloned x \<and> tex_map x = Some t)
       \<and> materialRef (store (updateBearSkin skinName s)) i
           \<noteq> materialRef (store (updateBearSkin skinName s)) j
       \<and> wf_app (updateBearSkin skinName s)"
proof -
  let ?s = "updateBearSkin skinName s"
  from wf b have al: "allocated (nodes b) (store s)" and ex: "exclusive (nodes b) (store s)"
    by (simp_all add: wf_app_Some)
  from ex i j ne mi mj have un: "unflagged (mats (store s) m)"
    by (rule exclusive_shared_unflagged)
  from al i mi have lt: "m < nextMat (store s)" by (auto simp: allocated_iff)
  from un have "\<not> isCloned (mats (store s) m)" by (simp add: unflagged_def)
  with lt have 1: "mats (store ?s) m = mats (store s) m" by (rule updateBearSkin_template)
  from tx b i mi t obtain x where x: "surfaceMaterial (store ?s) i = Some x" "isCloned x"
      "tex_map x = Some t"
    using updateBearSkin_retextures [of skinName t s b i m] by blast
  from wf have wf': "wf_app ?s" by (rule wf_app_updateBearSkin)
  moreover from b have "bear ?s = Some b" by simp
  ultimately have "exclusive (nodes b) (store ?s)" by (simp add: wf_app_Some)
  from this i j ne x(1) flagged_not_unflagged(1) [OF x(2)]
  have 3: "materialRef (store ?s) i \<noteq> materialRef (store ?s) j"
    by (rule exclusive_flagged_private)
  from 1 x 3 wf' show ?thesis by blast
qed

lemma updatePartColor_eyes_clones:
  assumes wf: "wf_app s" and b: "bear s = Some b" and e: "eyes (bearParts s) = Some es"
    and i: "i \<in> set es" and j: "j \<in> set (nodes b)" and ne: "i \<noteq> j"
    and mi: "materialRef (store s) i = Some m" and mj: "materialRef (store s) j = Some m"
  shows "mats (store (updatePartColor ''eyes'' c s)) m = mats (store s) m
       \<and> (\<exists>x. surfaceMaterial (store (updatePartColor ''eyes'' c s)) i = Some x
              \<and> isEyeCloned x \<and> color x = setHex c)
       \<and> materialRef (store (updatePartColor ''eyes'' c s)) i
           \<noteq> materialRef (store (updatePartColor ''eyes'' c s)) j
       \<and> wf_app (updatePartColor ''eyes'' c s)"
proof -
  let ?s = "updatePartColor ''eyes'' c s"
  from wf b have al: "allocated (nodes b) (store s)" and ex: "exclusive (nodes b) (store s)"
    by (simp_all add: wf_app_Some)
  from wf b e i have ib: "i \<in> set (nodes b)" by (auto simp: wf_app_Some)
  from ex ib j ne mi mj have un: "unflagged (mats (store s) m)"
    by (rule exclusive_shared_unflagged)
  from al ib mi have lt: "m < nextMat (store s)" by (auto simp: allocated_iff)
  from un have "\<not> isEyeCloned (mats (store s) m)" by (simp add: unflagged_def)
  with lt have 1: "mats (store ?s) m = mats (store s) m" by (rule updatePartColor_eyes_template)
  from e i mi obtain x where x: "surfaceMaterial (store ?s) i = Some x" "isEyeCloned x"
      "color x = setHex c"
    using updatePartColor_eyes_recolors [of s es i m c] by blast
  from wf have wf': "wf_app ?s" by (rule wf_app_updatePartColor)
  moreover from b have "bear ?s = Some b" by simp
  ultimately have "exclusive (nodes b) (store ?s)" by (simp add: wf_app_Some)
  from this ib j ne x(1) flagged_not_unflagged(2) [OF x(2)]
  have 3: "materialRef (store ?s) i \<noteq> materialRef (store ?s) j"
    by (rule exclusive_flagged_private)
  from 1 x 3 wf' show ?thesis by blast
qed

lemma updatePartColor_nose_clones:
  assumes wf: "wf_app s" and b: "bear s = Some b" and e: "nose (bearParts s) = Some i"
    and j: "j \<in> set (nodes b)" and ne: "i \<noteq> j"
    and mi: "materialRef (store s) i = Some m" and mj: "materialRef (store s) j = Some m"
  shows "mats (store (updatePartColor ''nose'' c s)) m = mats (store s) m
       \<and> (\<exists>x. surfaceMaterial (store (updatePartColor ''nose'' c s)) i = Some x
              \<and> isNoseCloned x \<and> color x = setHex c)
       \<and> materialRef (store (updatePartColor ''nose'' c s)) i
           \<noteq> materialRef (store (updatePartColor ''nose'' c s)) j
       \<and> wf_app (updatePartColor ''nose'' c s)"
proof -
  let ?s = "updatePartColor ''nose'' c s"
  from wf b have al: "allocated (nodes b) (store s)" and ex: "exclusive (nodes b) (store s)"
    by (simp_all add: wf_app_Some)
  from wf b e have ib: "i \<in> set (nodes b)" by (auto simp: wf_app_Some)
  from ex ib j ne mi mj have un: "unflagged (mats (store s) m)"
    by (rule exclusive_shared_unflagged)
  from al ib mi have lt: "m < nextMat (store s)" by (auto simp: allocated_iff)
  from un have "\<not> isNoseCloned (mats (store s) m)" by (simp add: unflagged_def)
  with lt have 1: "mats (store ?s) m = mats (store s) m" by (rule updatePartColor_nose_template)
  from e mi obtain x where x: "surfaceMaterial (store ?s) i = Some x" "isNoseCloned x"
      "color x = setHex c"
    using updatePartColor_nose_recolors [of s i m c] by blast
  from wf have wf': "wf_app ?s" by (rule wf_app_updatePartColor)
  moreover from b have "bear ?s = Some b" by simp
  ultimately have "exclusive (nodes b) (store ?s)" by (simp add: wf_app_Some)
  from this ib j ne x(1) flagged_not_unflagged(3) [OF x(2)]
  have 3: "materialRef (store ?s) i \<noteq> materialRef (store ?s) j"
    by (rule exclusive_flagged_private)
  from 1 x 3 wf' show ?thesis by blast
qed

lemma updateAccessoryColor_unshared:
  assumes a: "accessories s name = Some a" and un: "unshared (nodes a) (store s)"
    and i: "i \<in> set (nodes a)" and j: "j \<in> set (nodes a)" and ne: "i \<noteq> j"
    and mi: "materialRef (store s) i = Some m"
  shows "materialRef (store s) j \<noteq> Some m
       \<and> materialRef (store (stateOf (updateAccessoryColor name c s))) i = Some m
       \<and> color (mats (store (stateOf (updateAccessoryColor name c s))) m) = setHex c
       \<and> unshared (nodes a) (store (stateOf (updateAccessoryColor name c s)))"
proof -
  from un i j ne mi have 1: "materialRef (store s) j \<noteq> Some m"
    by (auto simp: unshared_iff)
  have 2: "materialRef (store (stateOf (updateAccessoryColor name c s))) i = Some m"
    using mi by (simp add: materialRef_def updateAccessoryColor_noclone)
  have 3: "color (mats (store (stateOf (updateAccessoryColor name c s))) m) = setHex c"
    unfolding store_updateAccessoryColor [OF a] using i mi by (rule color_fold_accessoryChild)
  from un have 4: "unshared (nodes a) (store (stateOf (updateAccessoryColor name c s)))"
    by (simp add: unshared_updateAccessoryColor)
  from 1 2 3 4 show ?thesis by simp
qed

subsection \<open>The example hat\<close>

lemma ex_hat_loaded:
  "nodeAt (store ex_hat_loaded) 21 = Mesh ''Brim'' (Suc 0)"
  "nodeAt (store ex_hat_loaded) 22 = Mesh ''Crown'' 2"
  "mats (store ex_hat_loaded) 0 = ex_material ''Felt'' 0x222222"
  "nextMat (store ex_hat_loaded) = 3"
  by (simp_all add: ex_hat_loaded_def store_loadAccessory_onLoad ex_hat_scene_def ex_object_def
      initialApp_def ex_hat_store_def newMaterialChild_def)

lemma ex_hat_accessory:
  "accessories ex_hat_loaded ''hat''
   = Some \<lparr>visible = False, position = (0, 196/100, -1/10), scale = (1, 1, 1),
           rotation = (0, 0, 0), nodes = [20, 21, 22]\<rparr>"
  by (simp add: ex_hat_loaded_def accessories_loadAccessory_onLoad ex_hat_scene_def
      ex_object_def accessoryPositions_def setScalar_def)

lemma ex_hat_shared: "materialRef ex_hat_store 21 = Some 0" "materialRef ex_hat_store 22 = Some 0"
  by (simp_all add: materialRef_def ex_hat_store_def)

subsection \<open>Further facts on hats and skins\<close>

lemma updateHat_own_returns:
  assumes own: "accessories s hatType = Some a"
  shows "\<exists>s'. updateHat hatType s = Returns s'"
proof -
  define s2 where "s2 = setAccessoryVisible ''beanie'' False (setAccessoryVisible ''hat'' False s)"
  define s2' where "s2' = setAccessoryVisible hatType True s2"
  define rest where "rest = (\<lambda>s3. Returns (updateAccessoryColorSection
                 (s3\<lparr>state := (state s3)\<lparr>currentHat := hatType\<rparr>\<rparr>)))"
  from own have "accessories s2' hatType \<noteq> None"
    by (simp add: s2'_def s2_def accessories_setAccessoryVisible_None)
  then obtain a' where "accessories s2' hatType = Some a'" by auto
  then obtain s3 where
    r: "updateAccessoryColor hatType (currentAccessoryColor (state s2)) s2' = Returns s3"
    by (simp add: updateAccessoryColor_own)
  have u: "updateHat hatType s =
      andThen
        (if hatType \<noteq> ''none'' \<and> getProperty (accessories s2) hatType \<noteq> None
         then updateAccessoryColor hatType (currentAccessoryColor (state s2)) s2'
         else Returns s2)
        rest"
    by (simp add: updateHat_def Let_def s2_def s2'_def rest_def)
  show ?thesis
    unfolding u r by (simp add: rest_def)
qed

lemma currentAccessoryColor_updateHat:
  "currentAccessoryColor (state (stateOf (updateHat hatType s)))
     = currentAccessoryColor (state s)"
  unfolding updateHat_def Let_def
  by (rule stateOf_andThen [where P = "\<lambda>s'. currentAccessoryColor (state s')
        = currentAccessoryColor (state s)"])
     simp_all

lemma setHex_in_range: "0 \<le> c \<Longrightarrow> c \<le> 0xFFFFFF \<Longrightarrow> setHex c = c"
  by (simp add: setHex_def)

lemma setHex_example: "setHex (- 256) = 0xFFFF00" "setHex 0xFF0000 = 0xFF0000"
  by (simp_all add: setHex_def)

text \<open>
  A skin name that the table \<open>textures\<close> inherits from \<open>Object.prototype\<close> passes the guard
  of \<open>updateBearSkin\<close>: with a bear loaded the name is recorded in \<open>state.skin\<close>, and every
  surface that is not exempt gets a clone whose \<open>map\<close> is the inherited value.
\<close>

lemma textures_inherited:
  "skinName \<in> set Object_prototype \<Longrightarrow> textures skinName = Some (Inherited skinName)"
  by (auto simp: textures_def getProperty_def CONFIG_textures_def Object_prototype_def)

lemma textures_None_iff:
  "textures skinName = None \<longleftrightarrow>
     CONFIG_textures skinName = None \<and> skinName \<notin> set Object_prototype"
  by (simp add: textures_def getProperty_None_iff)

lemma updateBearSkin_inherited:
  assumes inh: "skinName \<in> set Object_prototype" and b: "bear s = Some b"
    and c: "child \<in> set (nodes b)" and n: "materialRef (store s) child = Some m"
    and x: "\<not> exempt (bearParts s) child"
  shows "skin (state (updateBearSkin skinName s)) = skinName
       \<and> (\<exists>x. surfaceMaterial (store (updateBearSkin skinName s)) child = Some x
              \<and> isCloned x \<and> tex_map x = Some (Inherited skinName))"
proof -
  from inh have t: "textures skinName = Some (Inherited skinName)" by (rule textures_inherited)
  with b have "skin (state (updateBearSkin skinName s)) = skinName"
    by (simp add: updateBearSkin_def)
  with updateBearSkin_retextures [OF t b c n x] show ?thesis by simp
qed

lemma ex_placeholder_placeholder: "placeholder ex_placeholder"
  unfolding ex_placeholder_def by (rule placeholder_addPlaceholder)

section \<open>The claims on recolouring, accessories and form switching\<close>

text \<open>
  Claim C1, amended. \<open>updateBearSkin\<close> with a skin id for which \<open>textures[id]\<close> is
  \<open>undefined\<close>, that is an id which is neither a key of the texture table nor a property
  name the table inherits from \<open>Object.prototype\<close>, returns at its guard: the whole state
  is unchanged. \<open>updateFurColor\<close> of the second \<open>script.js\<close> has no such guard: with a
  colour id that is not a key of \<open>CONFIG.colors.fur\<close> it still runs over the current bear
  and gives every surface whose material is not named \<open>EyeBlack\<close> the colour that
  \<open>new THREE.Color(undefined)\<close> yields, white. The first \<open>script.js\<close> only ever shows its
  placeholder, on which \<open>updateFurColor\<close> changes nothing, whatever the id.
\<close>

theorem unrecognized_color_id:
  "(CONFIG_textures skinName = None \<and> skinName \<notin> set Object_prototype
      \<longrightarrow> updateBearSkin skinName s = s)
   \<and> (placeholder pm \<longrightarrow> updateFurColor_v1 colorName pm = pm)
   \<and> (CONFIG_colors_fur colorName = None \<and> currentBear sm = Some b
        \<and> child \<in> set (nodes (objs sm b)) \<and> materialRef (sm_store sm) child = Some m
        \<and> m < nextMat (sm_store sm) \<and> \<not> exempt_v2 (sm_store sm) child
      \<longrightarrow> map_option color
            (surfaceMaterial (sm_store (updateFurColor_v2 colorName sm)) child) = Some 0xFFFFFF)"
proof (intro conjI impI)
  assume "CONFIG_textures skinName = None \<and> skinName \<notin> set Object_prototype"
  then have "textures skinName = None" by (simp add: textures_None_iff)
  then show "updateBearSkin skinName s = s" by (rule updateBearSkin_unrecognized)
next
  assume "placeholder pm"
  then show "updateFurColor_v1 colorName pm = pm" by (rule placeholder_updateFurColor_v1)
next
  assume a: "CONFIG_colors_fur colorName = None \<and> currentBear sm = Some b
        \<and> child \<in> set (nodes (objs sm b)) \<and> materialRef (sm_store sm) child = Some m
        \<and> m < nextMat (sm_store sm) \<and> \<not> exempt_v2 (sm_store sm) child"
  then have "\<exists>x. surfaceMaterial (sm_store (updateFurColor_v2 colorName sm)) child = Some x
      \<and> isCloned x \<and> color x = THREE_Color (CONFIG_colors_fur colorName)"
    by (intro updateFurColor_v2_recolors [of sm b child m]) simp_all
  then have "map_option color (surfaceMaterial (sm_store (updateFurColor_v2 colorName sm)) child)
      = Some (THREE_Color (CONFIG_colors_fur colorName))"
    by auto
  with a show "map_option color
      (surfaceMaterial (sm_store (updateFurColor_v2 colorName sm)) child) = Some 0xFFFFFF"
    by (simp add: THREE_Color_def)
qed

theorem unrecognized_color_id_witness:
  "updateBearSkin ''purple'' ex_app = ex_app
   \<and> placeholder ex_placeholder
   \<and> updateFurColor_v1 ''purple'' ex_placeholder = ex_placeholder
   \<and> map_option color (surfaceMaterial (sm_store (updateFurColor_v2 ''purple'' ex_scene)) 1)
       = Some 0xFFFFFF"
proof -
  have "CONFIG_textures ''purple'' = None \<and> ''purple'' \<notin> set Object_prototype"
    by (simp add: CONFIG_textures_def Object_prototype_def)
  moreover have "CONFIG_colors_fur ''purple'' = None \<and> currentBear ex_scene = Some 0
        \<and> Suc 0 \<in> set (nodes (objs ex_scene 0))
        \<and> materialRef (sm_store ex_scene) (Suc 0) = Some 0
        \<and> 0 < nextMat (sm_store ex_scene) \<and> \<not> exempt_v2 (sm_store ex_scene) (Suc 0)"
    by (simp add: purple_unknown ex_scene_simps ex_store_simps ex_materialRef ex_exempt)
  ultimately show ?thesis
    using unrecognized_color_id
      [of "''purple''" ex_app ex_placeholder "''purple''" ex_scene 0 "Suc 0" 0]
      ex_placeholder_placeholder
    by simp
qed

text \<open>
  The claim as stated fails for \<open>updateFurColor\<close> of the second \<open>script.js\<close>: \<open>purple\<close> is
  not a fur colour, the sitting bear is current, and the call turns the brown body white.
  It fails for \<open>updateBearSkin\<close> as well: \<open>constructor\<close> is not a skin, yet the call records
  it in \<open>state.skin\<close> and replaces the body's material by a clone whose \<open>map\<close> is the
  function inherited under that name.
\<close>

theorem updateFurColor_unrecognized_recolors:
  "CONFIG_colors_fur ''purple'' = None
   \<and> currentBear ex_scene = Some 0
   \<and> surfaceMaterial (sm_store ex_scene) 1 = Some (ex_material ''Fur'' 0x8B4513)
   \<and> map_option color (surfaceMaterial (sm_store (updateFurColor_v2 ''purple'' ex_scene)) 1)
       = Some 0xFFFFFF
   \<and> updateFurColor_v2 ''purple'' ex_scene \<noteq> ex_scene
   \<and> CONFIG_textures ''constructor'' = None
   \<and> skin (state ex_app) = ''brown''
   \<and> surfaceMaterial (store ex_app) 1 = Some (ex_material ''Fur'' 0x8B4513)
   \<and> skin (state (updateBearSkin ''constructor'' ex_app)) = ''constructor''
   \<and> (\<exists>x. surfaceMaterial (store (updateBearSkin ''constructor'' ex_app)) 1 = Some x
          \<and> isCloned x \<and> tex_map x = Some (Inherited ''constructor''))"
proof -
  have before: "surfaceMaterial (sm_store ex_scene) 1 = Some (ex_material ''Fur'' 0x8B4513)"
    by (simp add: surfaceMaterial_def ex_scene_simps ex_store_simps)
  let ?sm2 = "updateFurColor_v2 ''purple'' ex_scene"
  have "\<exists>x. surfaceMaterial (sm_store ?sm2) (Suc 0) = Some x \<and> isCloned x
      \<and> color x = THREE_Color (CONFIG_colors_fur ''purple'')"
    by (rule updateFurColor_v2_recolors [of ex_scene 0 "Suc 0" 0])
       (simp_all add: ex_scene_simps ex_store_simps ex_materialRef ex_exempt)
  then have after2: "map_option color (surfaceMaterial (sm_store ?sm2) 1) = Some 0xFFFFFF"
    by (auto simp: purple_unknown THREE_Color_def)
  have ne2: "?sm2 \<noteq> ex_scene"
  proof
    assume "?sm2 = ex_scene"
    with after2 before show False by (simp add: ex_material_def)
  qed
  have inh: "''constructor'' \<in> set Object_prototype" by (simp add: Object_prototype_def)
  have skin: "skin (state (updateBearSkin ''constructor'' ex_app)) = ''constructor''
       \<and> (\<exists>x. surfaceMaterial (store (updateBearSkin ''constructor'' ex_app)) (Suc 0) = Some x
              \<and> isCloned x \<and> tex_map x = Some (Inherited ''constructor''))"
    using inh
    by (rule updateBearSkin_inherited [of _ ex_app "ex_object True [0, Suc 0, 2, 3, 4, 5]" _ 0])
       (use ex_exempt in \<open>simp_all add: ex_app_simps(1,2) ex_object_def ex_materialRef\<close>)
  have own: "CONFIG_textures ''constructor'' = None" "skin (state ex_app) = ''brown''"
    "surfaceMaterial (store ex_app) 1 = Some (ex_material ''Fur'' 0x8B4513)"
    by (simp_all add: CONFIG_textures_def ex_app_def CONFIG_defaults_def surfaceMaterial_def
        ex_store_simps)
  from before after2 ne2 skin own show ?thesis by (simp add: purple_unknown ex_scene_simps)
qed

text \<open>
  Claim C2. The claim says that \<open>switchBearForm(F)\<close> changes nothing when \<open>F\<close> has no
  registered variant. Both versions of the function hide \<open>currentBear\<close> before they look
  \<open>F\<close> up. In the scene where only the sitting bear has loaded (registered, current,
  visible), \<open>switchBearForm('standing')\<close> makes the sitting bear invisible; \<open>currentBear\<close>
  still refers to it.
\<close>

theorem switchBearForm_unregistered_hides_current:
  "bearModels ex_scene ''standing'' = None
   \<and> currentBear ex_scene = Some 0
   \<and> visible (objs ex_scene 0)
   \<and> \<not> visible (objs (switchBearForm_v1 ''standing'' ex_scene) 0)
   \<and> \<not> visible (objs (switchBearForm_v2 ''standing'' ex_scene) 0)
   \<and> currentBear (switchBearForm_v2 ''standing'' ex_scene) = Some 0"
  by (simp add: ex_switch_v1 ex_switch_v2 ex_object_def) (simp add: ex_scene_def ex_object_def)

text \<open>
  Claim C3. The claim says that exactly one registered variant is visible after any
  sequence of form switches. In the same scene exactly one registered variant is visible;
  after the one call \<open>switchBearForm('standing')\<close>, of either version, none is.
\<close>

theorem switch_to_unregistered_leaves_none_visible:
  "visibleVariants ex_scene = {0}
   \<and> bearModels ex_scene ''standing'' = None
   \<and> visibleVariants (switchAll_v1 [''standing''] ex_scene) = {}
   \<and> visibleVariants (switchAll_v2 [''standing''] ex_scene) = {}"
proof -
  have "visible (objs ex_scene 0)" "bearModels ex_scene ''standing'' = None"
    by (simp_all add: ex_scene_def ex_object_def)
  moreover from this have "visibleVariants ex_scene = {0}"
    by (auto simp: visibleVariants_def ex_ran)
  moreover have "visibleVariants (switchAll_v1 [''standing''] ex_scene) = {}"
    by (simp add: visibleVariants_def switchAll_v1_def ex_switch_v1 ex_ran ex_object_def)
  moreover have "visibleVariants (switchAll_v2 [''standing''] ex_scene) = {}"
    by (simp add: visibleVariants_def switchAll_v2_def ex_switch_v2 ex_ran ex_object_def)
  ultimately show ?thesis by simp
qed

text \<open>
  Claim C4. Where a recolouring writes to the material of a surface that shares it with
  another surface of the loaded bear, it writes to a clone: in the second \<open>script.js\<close>
  (\<open>updateFurColor\<close>, \<open>updateEyeColor\<close>) and in the module script (\<open>updateBearSkin\<close>,
  \<open>updatePartColor\<close>), on a well-formed store, the shared material itself is left as it
  was, the targeted surface gets a flagged clone that carries the new colour or texture,
  the two surfaces reference different materials afterwards, a sibling the operation
  does not target keeps its material, and the store stays well formed. Accessory
  surfaces never share a material: loading an accessory gives every mesh a material of
  its own, \<open>updateAccessoryColor\<close> keeps it that way and writes the colour into the
  material of each mesh. The first \<open>script.js\<close> only ever shows its placeholder, on which
  neither \<open>updateFurColor\<close> nor \<open>updateEyeColor\<close> writes anything.
\<close>

theorem clone_before_first_write:
  "(currentBear sm = Some b
      \<and> allocated (nodes (objs sm b)) (sm_store sm) \<and> exclusive (nodes (objs sm b)) (sm_store sm)
      \<and> i \<in> set (nodes (objs sm b)) \<and> j \<in> set (nodes (objs sm b)) \<and> i \<noteq> j
      \<and> materialRef (sm_store sm) i = Some m \<and> materialRef (sm_store sm) j = Some m
      \<and> \<not> exempt_v2 (sm_store sm) i
    \<longrightarrow> mats (sm_store (updateFurColor_v2 colorName sm)) m = mats (sm_store sm) m
        \<and> (\<exists>x. surfaceMaterial (sm_store (updateFurColor_v2 colorName sm)) i = Some x
               \<and> isCloned x \<and> color x = THREE_Color (CONFIG_colors_fur colorName))
        \<and> materialRef (sm_store (updateFurColor_v2 colorName sm)) i
            \<noteq> materialRef (sm_store (updateFurColor_v2 colorName sm)) j
        \<and> allocated (nodes (objs sm b)) (sm_store (updateFurColor_v2 colorName sm))
        \<and> exclusive (nodes (objs sm b)) (sm_store (updateFurColor_v2 colorName sm)))
   \<and> (currentBear sm = Some b
      \<and> allocated (nodes (objs sm b)) (sm_store sm) \<and> exclusive (nodes (objs sm b)) (sm_store sm)
      \<and> i \<in> set (nodes (objs sm b)) \<and> j \<in> set (nodes (objs sm b)) \<and> i \<noteq> j
      \<and> materialRef (sm_store sm) i = Some m \<and> materialRef (sm_store sm) j = Some m
      \<and> exempt_v2 (sm_store sm) i
    \<longrightarrow> mats (sm_store (updateEyeColor_v2 colorName sm)) m = mats (sm_store sm) m
        \<and> (\<exists>x. surfaceMaterial (sm_store (updateEyeColor_v2 colorName sm)) i = Some x
               \<and> isEyeCloned x \<and> color x = THREE_Color (CONFIG_colors_eyes colorName))
        \<and> materialRef (sm_store (updateEyeColor_v2 colorName sm)) i
            \<noteq> materialRef (sm_store (updateEyeColor_v2 colorName sm)) j
        \<and> allocated (nodes (objs sm b)) (sm_store (updateEyeColor_v2 colorName sm))
        \<and> exclusive (nodes (objs sm b)) (sm_store (updateEyeColor_v2 colorName sm)))
   \<and> (wf_app s \<and> bear s = Some b' \<and> textures skinName = Some t
      \<and> i \<in> set (nodes b') \<and> j \<in> set (nodes b') \<and> i \<noteq> j
      \<and> materialRef (store s) i = Some m \<and> materialRef (store s) j = Some m
      \<and> \<not> exempt (bearParts s) i
    \<longrightarrow> mats (store (updateBearSkin skinName s)) m = mats (store s) m
        \<and> (\<exists>x. surfaceMaterial (store (updateBearSkin skinName s)) i = Some x
               \<and> isCloned x \<and> tex_map x = Some t)
        \<and> materialRef (store (updateBearSkin skinName s)) i
            \<noteq> materialRef (store (updateBearSkin skinName s)) j
        \<and> (exempt (bearParts s) j
             \<longrightarrow> surfaceMaterial (store (updateBearSkin skinName s)) j
                  = surfaceMaterial (store s) j)
        \<and> wf_app (updateBearSkin skinName s))
   \<and> (wf_app s \<and> bear s = Some b' \<and> eyes (bearParts s) = Some es
      \<and> i \<in> set es \<and> j \<in> set (nodes b') \<and> i \<noteq> j
      \<and> materialRef (store s) i = Some m \<and> materialRef (store s) j = Some m
    \<longrightarrow> mats (store (updatePartColor ''eyes'' c s)) m = mats (store s) m
        \<and> (\<exists>x. surfaceMaterial (store (updatePartColor ''eyes'' c s)) i = Some x
               \<and> isEyeCloned x \<and> color x = setHex c)
        \<and> materialRef (store (updatePartColor ''eyes'' c s)) i
            \<noteq> materialRef (store (updatePartColor ''eyes'' c s)) j
        \<and> (j \<notin> set es
             \<longrightarrow> surfaceMaterial (store (updatePartColor ''eyes'' c s)) j
                  = surfaceMaterial (store s) j)
        \<and> wf_app (updatePartColor ''eyes'' c s))
   \<and> (wf_app s \<and> bear s = Some b' \<and> nose (bearParts s) = Some i
      \<and> j \<in> set (nodes b') \<and> i \<noteq> j
      \<and> materialRef (store s) i = Some m \<and> materialRef (store s) j = Some m
    \<longrightarrow> mats (store (updatePartColor ''nose'' c s)) m = mats (store s) m
        \<and> (\<exists>x. surfaceMaterial (store (updatePartColor ''nose'' c s)) i = Some x
               \<and> isNoseCloned x \<and> color x = setHex c)
        \<and> materialRef (store (updatePartColor ''nose'' c s)) i
            \<noteq> materialRef (store (updatePartColor ''nose'' c s)) j
        \<and> surfaceMaterial (store (updatePartColor ''nose'' c s)) j
            = surfaceMaterial (store s) j
        \<and> wf_app (updatePartColor ''nose'' c s))
   \<and> map_option nodes (accessories (loadAccessory_onLoad name gltf_scene s) name)
       = Some (nodes gltf_scene)
   \<and> unshared (nodes gltf_scene) (store (loadAccessory_onLoad name gltf_scene s))
   \<and> (accessories s name = Some a \<and> unshared (nodes a) (store s)
      \<and> i \<in> set (nodes a) \<and> j \<in> set (nodes a) \<and> i \<noteq> j
      \<and> materialRef (store s) i = Some m
    \<longrightarrow> materialRef (store s) j \<noteq> Some m
        \<and> materialRef (store (stateOf (updateAccessoryColor name c s))) i = Some m
        \<and> color (mats (store (stateOf (updateAccessoryColor name c s))) m) = setHex c
        \<and> unshared (nodes a) (store (stateOf (updateAccessoryColor name c s))))
   \<and> placeholder (addPlaceholder cube k (SceneManager_new os h))
   \<and> (placeholder pm
    \<longrightarrow> updateFurColor_v1 colorName pm = pm \<and> updateEyeColor_v1 colorName pm = pm
        \<and> placeholder (switchBearForm_v1 formName pm)
        \<and> placeholder (toggleAccessory accessoryName v pm))"
proof -
  have fur: "currentBear sm = Some b
      \<and> allocated (nodes (objs sm b)) (sm_store sm) \<and> exclusive (nodes (objs sm b)) (sm_store sm)
      \<and> i \<in> set (nodes (objs sm b)) \<and> j \<in> set (nodes (objs sm b)) \<and> i \<noteq> j
      \<and> materialRef (sm_store sm) i = Some m \<and> materialRef (sm_store sm) j = Some m
      \<and> \<not> exempt_v2 (sm_store sm) i
    \<longrightarrow> mats (sm_store (updateFurColor_v2 colorName sm)) m = mats (sm_store sm) m
        \<and> (\<exists>x. surfaceMaterial (sm_store (updateFurColor_v2 colorName sm)) i = Some x
               \<and> isCloned x \<and> color x = THREE_Color (CONFIG_colors_fur colorName))
        \<and> materialRef (sm_store (updateFurColor_v2 colorName sm)) i
            \<noteq> materialRef (sm_store (updateFurColor_v2 colorName sm)) j
        \<and> allocated (nodes (objs sm b)) (sm_store (updateFurColor_v2 colorName sm))
        \<and> exclusive (nodes (objs sm b)) (sm_store (updateFurColor_v2 colorName sm))"
    by (intro impI, elim conjE, rule updateFurColor_v2_clones)
  have eye: "currentBear sm = Some b
      \<and> allocated (nodes (objs sm b)) (sm_store sm) \<and> exclusive (nodes (objs sm b)) (sm_store sm)
      \<and> i \<in> set (nodes (objs sm b)) \<and> j \<in> set (nodes (objs sm b)) \<and> i \<noteq> j
      \<and> materialRef (sm_store sm) i = Some m \<and> materialRef (sm_store sm) j = Some m
      \<and> exempt_v2 (sm_store sm) i
    \<longrightarrow> mats (sm_store (updateEyeColor_v2 colorName sm)) m = mats (sm_store sm) m
        \<and> (\<exists>x. surfaceMaterial (sm_store (updateEyeColor_v2 colorName sm)) i = Some x
               \<and> isEyeCloned x \<and> color x = THREE_Color (CONFIG_colors_eyes colorName))
        \<and> materialRef (sm_store (updateEyeColor_v2 colorName sm)) i
            \<noteq> materialRef (sm_store (updateEyeColor_v2 colorName sm)) j
        \<and> allocated (nodes (objs sm b)) (sm_store (updateEyeColor_v2 colorName sm))
        \<and> exclusive (nodes (objs sm b)) (sm_store (updateEyeColor_v2 colorName sm))"
    by (intro impI, elim conjE, rule updateEyeColor_v2_clones)
  have skin: "wf_app s \<and> bear s = Some b' \<and> textures skinName = Some t
      \<and> i \<in> set (nodes b') \<and> j \<in> set (nodes b') \<and> i \<noteq> j
      \<and> materialRef (store s) i = Some m \<and> materialRef (store s) j = Some m
      \<and> \<not> exempt (bearParts s) i
    \<longrightarrow> mats (store (updateBearSkin skinName s)) m = mats (store s) m
        \<and> (\<exists>x. surfaceMaterial (store (updateBearSkin skinName s)) i = Some x
               \<and> isCloned x \<and> tex_map x = Some t)
        \<and> materialRef (store (updateBearSkin skinName s)) i
            \<noteq> materialRef (store (updateBearSkin skinName s)) j
        \<and> (exempt (bearParts s) j
             \<longrightarrow> surfaceMaterial (store (updateBearSkin skinName s)) j
                  = surfaceMaterial (store s) j)
        \<and> wf_app (updateBearSkin skinName s)"
  proof (intro impI, elim conjE)
    assume a: "wf_app s" "bear s = Some b'" "textures skinName = Some t"
      "i \<in> set (nodes b')" "j \<in> set (nodes b')" "i \<noteq> j"
      "materialRef (store s) i = Some m" "materialRef (store s) j = Some m"
      "\<not> exempt (bearParts s) i"
    from a have 1: "mats (store (updateBearSkin skinName s)) m = mats (store s) m
       \<and> (\<exists>x. surfaceMaterial (store (updateBearSkin skinName s)) i = Some x
              \<and> isCloned x \<and> tex_map x = Some t)
       \<and> materialRef (store (updateBearSkin skinName s)) i
           \<noteq> materialRef (store (updateBearSkin skinName s)) j
       \<and> wf_app (updateBearSkin skinName s)"
      by (rule updateBearSkin_clones)
    have 2: "exempt (bearParts s) j
             \<longrightarrow> surfaceMaterial (store (updateBearSkin skinName s)) j
                  = surfaceMaterial (store s) j"
      using a(1,2,5) by (intro impI updateBearSkin_frame)
    from 1 2 show "mats (store (updateBearSkin skinName s)) m = mats (store s) m
        \<and> (\<exists>x. surfaceMaterial (store (updateBearSkin skinName s)) i = Some x
               \<and> isCloned x \<and> tex_map x = Some t)
        \<and> materialRef (store (updateBearSkin skinName s)) i
            \<noteq> materialRef (store (updateBearSkin skinName s)) j
        \<and> (exempt (bearParts s) j
             \<longrightarrow> surfaceMaterial (store (updateBearSkin skinName s)) j
                  = surfaceMaterial (store s) j)
        \<and> wf_app (updateBearSkin skinName s)"
      by blast
  qed
  have eyes: "wf_app s \<and> bear s = Some b' \<and> eyes (bearParts s) = Some es
      \<and> i \<in> set es \<and> j \<in> set (nodes b') \<and> i \<noteq> j
      \<and> materialRef (store s) i = Some m \<and> materialRef (store s) j = Some m
    \<longrightarrow> mats (store (updatePartColor ''eyes'' c s)) m = mats (store s) m
        \<and> (\<exists>x. surfaceMaterial (store (updatePartColor ''eyes'' c s)) i = Some x
               \<and> isEyeCloned x \<and> color x = setHex c)
        \<and> materialRef (store (updatePartColor ''eyes'' c s)) i
            \<noteq> materialRef (store (updatePartColor ''eyes'' c s)) j
        \<and> (j \<notin> set es
             \<longrightarrow> surfaceMaterial (store (updatePartColor ''eyes'' c s)) j
                  = surfaceMaterial (store s) j)
        \<and> wf_app (updatePartColor ''eyes'' c s)"
  proof (intro impI, elim conjE)
    assume a: "wf_app s" "bear s = Some b'" "eyes (bearParts s) = Some es"
      "i \<in> set es" "j \<in> set (nodes b')" "i \<noteq> j"
      "materialRef (store s) i = Some m" "materialRef (store s) j = Some m"
    from a have 1: "mats (store (updatePartColor ''eyes'' c s)) m = mats (store s) m
       \<and> (\<exists>x. surfaceMaterial (store (updatePartColor ''eyes'' c s)) i = Some x
              \<and> isEyeCloned x \<and> color x = setHex c)
       \<and> materialRef (store (updatePartColor ''eyes'' c s)) i
           \<noteq> materialRef (store (updatePartColor ''eyes'' c s)) j
       \<and> wf_app (updatePartColor ''eyes'' c s)"
      by (rule updatePartColor_eyes_clones)
    have 2: "j \<notin> set es
             \<longrightarrow> surfaceMaterial (store (updatePartColor ''eyes'' c s)) j
                  = surfaceMaterial (store s) j"
    proof
      assume "j \<notin> set es"
      with a(3) have "\<not> isEye (bearParts s) j" by (simp add: isEye_def)
      with a(1,2,5) show "surfaceMaterial (store (updatePartColor ''eyes'' c s)) j
                  = surfaceMaterial (store s) j"
        by (rule updatePartColor_eyes_frame)
    qed
    from 1 2 show "mats (store (updatePartColor ''eyes'' c s)) m = mats (store s) m
        \<and> (\<exists>x. surfaceMaterial (store (updatePartColor ''eyes'' c s)) i = Some x
               \<and> isEyeCloned x \<and> color x = setHex c)
        \<and> materialRef (store (updatePartColor ''eyes'' c s)) i
            \<noteq> materialRef (store (updatePartColor ''eyes'' c s)) j
        \<and> (j \<notin> set es
             \<longrightarrow> surfaceMaterial (store (updatePartColor ''eyes'' c s)) j
                  = surfaceMaterial (store s) j)
        \<and> wf_app (updatePartColor ''eyes'' c s)"
      by blast
  qed
  have nose: "wf_app s \<and> bear s = Some b' \<and> nose (bearParts s) = Some i
      \<and> j \<in> set (nodes b') \<and> i \<noteq> j
      \<and> materialRef (store s) i = Some m \<and> materialRef (store s) j = Some m
    \<longrightarrow> mats (store (updatePartColor ''nose'' c s)) m = mats (store s) m
        \<and> (\<exists>x. surfaceMaterial (store (updatePartColor ''nose'' c s)) i = Some x
               \<and> isNoseCloned x \<and> color x = setHex c)
        \<and> materialRef (store (updatePartColor ''nose'' c s)) i
            \<noteq> materialRef (store (updatePartColor ''nose'' c s)) j
        \<and> surfaceMaterial (store (updatePartColor ''nose'' c s)) j
            = surfaceMaterial (store s) j
        \<and> wf_app (updatePartColor ''nose'' c s)"
  proof (intro impI, elim conjE)
    assume a: "wf_app s" "bear s = Some b'" "nose (bearParts s) = Some i"
      "j \<in> set (nodes b')" "i \<noteq> j"
      "materialRef (store s) i = Some m" "materialRef (store s) j = Some m"
    from a have 1: "mats (store (updatePartColor ''nose'' c s)) m = mats (store s) m
       \<and> (\<exists>x. surfaceMaterial (store (updatePartColor ''nose'' c s)) i = Some x
              \<and> isNoseCloned x \<and> color x = setHex c)
       \<and> materialRef (store (updatePartColor ''nose'' c s)) i
           \<noteq> materialRef (store (updatePartColor ''nose'' c s)) j
       \<and> wf_app (updatePartColor ''nose'' c s)"
      by (rule updatePartColor_nose_clones)
    from a(3,5) have "\<not> isNose (bearParts s) j" by (simp add: isNose_def)
    with a(1,2,4) have 2: "surfaceMaterial (store (updatePartColor ''nose'' c s)) j
                  = surfaceMaterial (store s) j"
      by (rule updatePartColor_nose_frame)
    from 1 2 show "mats (store (updatePartColor ''nose'' c s)) m = mats (store s) m
        \<and> (\<exists>x. surfaceMaterial (store (updatePartColor ''nose'' c s)) i = Some x
               \<and> isNoseCloned x \<and> color x = setHex c)
        \<and> materialRef (store (updatePartColor ''nose'' c s)) i
            \<noteq> materialRef (store (updatePartColor ''nose'' c s)) j
        \<and> surfaceMaterial (store (updatePartColor ''nose'' c s)) j
            = surfaceMaterial (store s) j
        \<and> wf_app (updatePartColor ''nose'' c s)"
      by blast
  qed
  have load: "map_option nodes (accessories (loadAccessory_onLoad name gltf_scene s) name)
       = Some (nodes gltf_scene)"
    "unshared (nodes gltf_scene) (store (loadAccessory_onLoad name gltf_scene s))"
    by (rule nodes_loadAccessory_onLoad, rule unshared_loadAccessory_onLoad)
  have acc: "accessories s name = Some a \<and> unshared (nodes a) (store s)
      \<and> i \<in> set (nodes a) \<and> j \<in> set (nodes a) \<and> i \<noteq> j
      \<and> materialRef (store s) i = Some m
    \<longrightarrow> materialRef (store s) j \<noteq> Some m
        \<and> materialRef (store (stateOf (updateAccessoryColor name c s))) i = Some m
        \<and> color (mats (store (stateOf (updateAccessoryColor name c s))) m) = setHex c
        \<and> unshared (nodes a) (store (stateOf (updateAccessoryColor name c s)))"
    by (intro impI, elim conjE, rule updateAccessoryColor_unshared)
  have first: "placeholder (addPlaceholder cube k (SceneManager_new os h))"
    "placeholder pm
    \<longrightarrow> updateFurColor_v1 colorName pm = pm \<and> updateEyeColor_v1 colorName pm = pm
        \<and> placeholder (switchBearForm_v1 formName pm)
        \<and> placeholder (toggleAccessory accessoryName v pm)"
    by (simp_all add: placeholder_addPlaceholder placeholder_updateFurColor_v1
        placeholder_updateEyeColor_v1 placeholder_switchBearForm_v1
        placeholder_toggleAccessory)
  from fur eye skin eyes nose load acc first show ?thesis
    by (intro conjI)
qed

theorem clone_before_first_write_witness:
  "mats (sm_store (updateFurColor_v2 ''white'' ex_scene)) 0 = ex_material ''Fur'' 0x8B4513
   \<and> (\<exists>x. surfaceMaterial (sm_store (updateFurColor_v2 ''white'' ex_scene)) 1 = Some x
          \<and> isCloned x \<and> color x = 0xF5F5DC)
   \<and> materialRef (sm_store (updateFurColor_v2 ''white'' ex_scene)) 1
       \<noteq> materialRef (sm_store (updateFurColor_v2 ''white'' ex_scene)) 2
   \<and> mats (sm_store (updateEyeColor_v2 ''blue'' ex_scene)) 1 = ex_material ''EyeBlack'' 0
   \<and> (\<exists>x. surfaceMaterial (sm_store (updateEyeColor_v2 ''blue'' ex_scene)) 3 = Some x
          \<and> isEyeCloned x \<and> color x = 0x4169E1)
   \<and> mats (store (updateBearSkin ''panda'' ex_app)) 0 = ex_material ''Fur'' 0x8B4513
   \<and> (\<exists>x. surfaceMaterial (store (updateBearSkin ''panda'' ex_app)) 1 = Some x
          \<and> isCloned x \<and> tex_map x = Some (Own ''textures/bear_panda.png''))
   \<and> surfaceMaterial (store (updateBearSkin ''panda'' ex_app)) 5
       = Some (ex_material ''Fur'' 0x8B4513)
   \<and> (\<exists>x. surfaceMaterial (store (updatePartColor ''eyes'' 0x4169E1 ex_app)) 3 = Some x
          \<and> isEyeCloned x \<and> color x = 0x4169E1)
   \<and> materialRef (store (updatePartColor ''eyes'' 0x4169E1 ex_app)) 3
       \<noteq> materialRef (store (updatePartColor ''eyes'' 0x4169E1 ex_app)) 4
   \<and> (\<exists>x. surfaceMaterial (store (updatePartColor ''nose'' 0xFFB6C1 ex_app)) 5 = Some x
          \<and> isNoseCloned x \<and> color x = 0xFFB6C1)
   \<and> surfaceMaterial (store (updatePartColor ''nose'' 0xFFB6C1 ex_app)) 1
       = Some (ex_material ''Fur'' 0x8B4513)
   \<and> materialRef ex_hat_store 21 = materialRef ex_hat_store 22
   \<and> unshared [20, 21, 22] (store ex_hat_loaded)
   \<and> materialRef (store ex_hat_loaded) 21 = Some 1
   \<and> materialRef (store ex_hat_loaded) 22 \<noteq> Some 1
   \<and> color (mats (store (stateOf (updateAccessoryColor ''hat'' 0xFF0000 ex_hat_loaded))) 1)
       = 0xFF0000
   \<and> placeholder ex_placeholder
   \<and> updateFurColor_v1 ''white'' ex_placeholder = ex_placeholder
   \<and> updateEyeColor_v1 ''blue'' ex_placeholder = ex_placeholder"
proof -
  let ?bear = "ex_object True [0, Suc 0, 2, 3, 4, 5]"
  let ?hat = "\<lparr>visible = False, position = (0, 196/100, -1/10), scale = (1, 1, 1),
           rotation = (0, 0, 0), nodes = [20, 21, 22]\<rparr> :: object3d"
  have scene: "currentBear ex_scene = Some 0"
    "allocated (nodes (objs ex_scene 0)) (sm_store ex_scene)"
    "exclusive (nodes (objs ex_scene 0)) (sm_store ex_scene)"
    by (simp_all add: ex_scene_simps allocated_ex exclusive_ex)
  have look: "mats ex_store 0 = ex_material ''Fur'' 0x8B4513"
    "mats ex_store (Suc 0) = ex_material ''EyeBlack'' 0"
    "surfaceMaterial ex_store (Suc 0) = Some (ex_material ''Fur'' 0x8B4513)"
    "surfaceMaterial ex_store 5 = Some (ex_material ''Fur'' 0x8B4513)"
    by (simp_all add: surfaceMaterial_def ex_store_simps)
  have cols: "THREE_Color (CONFIG_colors_fur ''white'') = 0xF5F5DC"
    "THREE_Color (CONFIG_colors_eyes ''blue'') = 0x4169E1"
    "setHex 0x4169E1 = 0x4169E1" "setHex 0xFFB6C1 = 0xFFB6C1" "setHex 0xFF0000 = 0xFF0000"
    by (simp_all add: THREE_Color_def CONFIG_colors_fur_def CONFIG_colors_eyes_def setHex_def)
  have panda: "textures ''panda'' = Some (Own ''textures/bear_panda.png'')"
    by (simp add: textures_def CONFIG_textures_def)
  have bear: "bear ex_app = Some ?bear" "nodes ?bear = [0, Suc 0, 2, 3, 4, 5]"
    "eyes (bearParts ex_app) = Some [3, 4]" "nose (bearParts ex_app) = Some 5"
    by (simp_all add: ex_app_simps ex_object_def)
  have ex: "\<not> exempt (bearParts ex_app) (Suc 0)" "exempt (bearParts ex_app) 5"
    "\<not> exempt_v2 (sm_store ex_scene) (Suc 0)" "exempt_v2 (sm_store ex_scene) 3"
    using ex_exempt by (simp_all add: ex_scene_simps)
  have fur: "mats (sm_store (updateFurColor_v2 ''white'' ex_scene)) 0 = ex_material ''Fur'' 0x8B4513
     \<and> (\<exists>x. surfaceMaterial (sm_store (updateFurColor_v2 ''white'' ex_scene)) (Suc 0) = Some x
          \<and> isCloned x \<and> color x = 0xF5F5DC)
     \<and> materialRef (sm_store (updateFurColor_v2 ''white'' ex_scene)) (Suc 0)
       \<noteq> materialRef (sm_store (updateFurColor_v2 ''white'' ex_scene)) 2"
    using clone_before_first_write
        [where sm = ex_scene and b = 0 and i = "Suc 0" and j = 2 and m = 0
           and colorName = "''white''", THEN conjunct1]
      scene ex(3)
    by (simp add: ex_scene_simps ex_materialRef look cols)
  have eye: "mats (sm_store (updateEyeColor_v2 ''blue'' ex_scene)) (Suc 0)
       = ex_material ''EyeBlack'' 0
     \<and> (\<exists>x. surfaceMaterial (sm_store (updateEyeColor_v2 ''blue'' ex_scene)) 3 = Some x
          \<and> isEyeCloned x \<and> color x = 0x4169E1)"
    using clone_before_first_write
        [where sm = ex_scene and b = 0 and i = 3 and j = 4 and m = "Suc 0"
           and colorName = "''blue''", THEN conjunct2, THEN conjunct1]
      scene ex(4)
    by (simp add: ex_scene_simps ex_materialRef look cols)
  have skin: "mats (store (updateBearSkin ''panda'' ex_app)) 0 = ex_material ''Fur'' 0x8B4513
     \<and> (\<exists>x. surfaceMaterial (store (updateBearSkin ''panda'' ex_app)) (Suc 0) = Some x
          \<and> isCloned x \<and> tex_map x = Some (Own ''textures/bear_panda.png''))
     \<and> surfaceMaterial (store (updateBearSkin ''panda'' ex_app)) 5
       = Some (ex_material ''Fur'' 0x8B4513)"
    using clone_before_first_write
        [where s = ex_app and b' = ?bear and skinName = "''panda''"
           and t = "Own ''textures/bear_panda.png''" and i = "Suc 0" and j = 5 and m = 0,
         THEN conjunct2, THEN conjunct2, THEN conjunct1]
      wf_ex_app bear(1,2) panda ex(1,2)
    by (simp add: ex_app_simps(2) ex_materialRef look)
  have eyes: "(\<exists>x. surfaceMaterial (store (updatePartColor ''eyes'' 0x4169E1 ex_app)) 3 = Some x
          \<and> isEyeCloned x \<and> color x = 0x4169E1)
     \<and> materialRef (store (updatePartColor ''eyes'' 0x4169E1 ex_app)) 3
       \<noteq> materialRef (store (updatePartColor ''eyes'' 0x4169E1 ex_app)) 4"
    using clone_before_first_write
        [where s = ex_app and b' = ?bear and es = "[3, 4]" and c = "0x4169E1"
           and i = 3 and j = 4 and m = "Suc 0",
         THEN conjunct2, THEN conjunct2, THEN conjunct2, THEN conjunct1]
      wf_ex_app bear
    by (simp add: ex_app_simps(2) ex_materialRef look cols)
  have nose: "(\<exists>x. surfaceMaterial (store (updatePartColor ''nose'' 0xFFB6C1 ex_app)) 5 = Some x
          \<and> isNoseCloned x \<and> color x = 0xFFB6C1)
     \<and> surfaceMaterial (store (updatePartColor ''nose'' 0xFFB6C1 ex_app)) (Suc 0)
       = Some (ex_material ''Fur'' 0x8B4513)"
    using clone_before_first_write
        [where s = ex_app and b' = ?bear and c = "0xFFB6C1" and i = 5 and j = "Suc 0" and m = 0,
         THEN conjunct2, THEN conjunct2, THEN conjunct2, THEN conjunct2, THEN conjunct1]
      wf_ex_app bear
    by (simp add: ex_app_simps(2) ex_materialRef look cols)
  have un: "unshared [20, 21, 22] (store ex_hat_loaded)"
    using clone_before_first_write
        [where name = "''hat''" and gltf_scene = ex_hat_scene
           and s = "initialApp ex_page ex_hat_store",
         THEN conjunct2, THEN conjunct2, THEN conjunct2, THEN conjunct2, THEN conjunct2,
         THEN conjunct2, THEN conjunct1]
    by (simp add: ex_hat_loaded_def ex_hat_scene_def ex_object_def)
  have refs: "materialRef (store ex_hat_loaded) 21 = Some (Suc 0)"
    by (simp add: materialRef_def ex_hat_loaded)
  have hat: "materialRef (store ex_hat_loaded) 22 \<noteq> Some (Suc 0)
     \<and> color (mats (store (stateOf (updateAccessoryColor ''hat'' 0xFF0000 ex_hat_loaded)))
          (Suc 0)) = 0xFF0000"
    using clone_before_first_write
        [where s = ex_hat_loaded and name = "''hat''" and a = ?hat and c = "0xFF0000"
           and i = 21 and j = 22 and m = "Suc 0",
         THEN conjunct2, THEN conjunct2, THEN conjunct2, THEN conjunct2, THEN conjunct2,
         THEN conjunct2, THEN conjunct2, THEN conjunct1]
      un refs ex_hat_accessory
    by (simp add: cols)
  have first: "placeholder ex_placeholder"
    using clone_before_first_write
        [where cube = 0 and k = 1 and os = "\<lambda>_. ex_object False []" and h = ex_empty_store,
         THEN conjunct2, THEN conjunct2, THEN conjunct2, THEN conjunct2, THEN conjunct2,
         THEN conjunct2, THEN conjunct2, THEN conjunct2, THEN conjunct1]
    by (simp add: ex_placeholder_def)
  have noop: "updateFurColor_v1 ''white'' ex_placeholder = ex_placeholder
     \<and> updateEyeColor_v1 ''blue'' ex_placeholder = ex_placeholder"
    using clone_before_first_write
        [where pm = ex_placeholder and colorName = "''white''",
         THEN conjunct2, THEN conjunct2, THEN conjunct2, THEN conjunct2, THEN conjunct2,
         THEN conjunct2, THEN conjunct2, THEN conjunct2, THEN conjunct2]
      clone_before_first_write
        [where pm = ex_placeholder and colorName = "''blue''",
         THEN conjunct2, THEN conjunct2, THEN conjunct2, THEN conjunct2, THEN conjunct2,
         THEN conjunct2, THEN conjunct2, THEN conjunct2, THEN conjunct2]
      first
    by simp
  from fur eye skin eyes nose un refs hat first noop show ?thesis
    by (simp add: ex_hat_shared)
qed

text \<open>
  Claim C5. For every colour or skin id and every surface of the active bear, in a
  well-formed store: \<open>updateFurColor\<close> of the second \<open>script.js\<close> leaves the material of an
  exempt surface (material named \<open>EyeBlack\<close>) as it is and \<open>updateEyeColor\<close> leaves the
  material of a non-exempt surface as it is; in the module script \<open>updateBearSkin\<close> leaves
  the material of an exempt surface (an eye mesh or the nose mesh) as it is, and
  \<open>updatePartColor\<close> leaves the material of a non-exempt surface as it is. The material
  includes the colour.
\<close>

theorem recolor_respects_exemption:
  "(materialRef (sm_store sm) child = Some m \<and> m < nextMat (sm_store sm)
      \<and> exempt_v2 (sm_store sm) child
    \<longrightarrow> surfaceMaterial (sm_store (updateFurColor_v2 colorName sm)) child
          = surfaceMaterial (sm_store sm) child)
   \<and> (materialRef (sm_store sm) child = Some m \<and> m < nextMat (sm_store sm)
      \<and> \<not> exempt_v2 (sm_store sm) child
    \<longrightarrow> surfaceMaterial (sm_store (updateEyeColor_v2 colorName sm)) child
          = surfaceMaterial (sm_store sm) child)
   \<and> (wf_app s \<and> bear s = Some b \<and> child \<in> set (nodes b) \<and> exempt (bearParts s) child
    \<longrightarrow> surfaceMaterial (store (updateBearSkin skinName s)) child
          = surfaceMaterial (store s) child)
   \<and> (wf_app s \<and> bear s = Some b \<and> child \<in> set (nodes b) \<and> \<not> exempt (bearParts s) child
    \<longrightarrow> surfaceMaterial (store (updatePartColor part c s)) child
          = surfaceMaterial (store s) child)"
proof (intro conjI impI)
  assume a: "materialRef (sm_store sm) child = Some m \<and> m < nextMat (sm_store sm)
      \<and> exempt_v2 (sm_store sm) child"
  then have "mname (mats (sm_store sm) m) = ''EyeBlack''"
    by (auto simp: exempt_v2_def materialRef_def split: node.splits)
  with a have "materialRef (sm_store (updateFurColor_v2 colorName sm)) child = Some m
       \<and> mats (sm_store (updateFurColor_v2 colorName sm)) m = mats (sm_store sm) m"
    by (intro updateFurColor_v2_frame) simp_all
  with a show "surfaceMaterial (sm_store (updateFurColor_v2 colorName sm)) child
          = surfaceMaterial (sm_store sm) child"
    by (simp add: surfaceMaterial_eq)
next
  assume a: "materialRef (sm_store sm) child = Some m \<and> m < nextMat (sm_store sm)
      \<and> \<not> exempt_v2 (sm_store sm) child"
  then have "mname (mats (sm_store sm) m) \<noteq> ''EyeBlack''"
    by (auto simp: exempt_v2_def materialRef_def split: node.splits)
  with a have "materialRef (sm_store (updateEyeColor_v2 colorName sm)) child = Some m
       \<and> mats (sm_store (updateEyeColor_v2 colorName sm)) m = mats (sm_store sm) m"
    by (intro updateEyeColor_v2_frame) simp_all
  with a show "surfaceMaterial (sm_store (updateEyeColor_v2 colorName sm)) child
          = surfaceMaterial (sm_store sm) child"
    by (simp add: surfaceMaterial_eq)
next
  assume "wf_app s \<and> bear s = Some b \<and> child \<in> set (nodes b) \<and> exempt (bearParts s) child"
  then show "surfaceMaterial (store (updateBearSkin skinName s)) child
          = surfaceMaterial (store s) child"
    by (intro updateBearSkin_frame [of s b]) simp_all
next
  assume "wf_app s \<and> bear s = Some b \<and> child \<in> set (nodes b) \<and> \<not> exempt (bearParts s) child"
  then show "surfaceMaterial (store (updatePartColor part c s)) child
          = surfaceMaterial (store s) child"
    by (intro updatePartColor_frame [of s b]) simp_all
qed

theorem recolor_respects_exemption_witness:
  "surfaceMaterial (sm_store (updateFurColor_v2 ''white'' ex_scene)) 3
     = Some (ex_material ''EyeBlack'' 0)
   \<and> surfaceMaterial (sm_store (updateEyeColor_v2 ''blue'' ex_scene)) 1
     = Some (ex_material ''Fur'' 0x8B4513)
   \<and> materialRef (store ex_app) 5 = materialRef (store ex_app) 1
   \<and> surfaceMaterial (store (updateBearSkin ''panda'' ex_app)) 5
     = Some (ex_material ''Fur'' 0x8B4513)
   \<and> surfaceMaterial (store (updatePartColor ''eyes'' 0x4169E1 ex_app)) 1
     = Some (ex_material ''Fur'' 0x8B4513)"
proof -
  have v2: "materialRef (sm_store ex_scene) 3 = Some (Suc 0) \<and> Suc 0 < nextMat (sm_store ex_scene)
      \<and> exempt_v2 (sm_store ex_scene) 3"
    "materialRef (sm_store ex_scene) (Suc 0) = Some 0 \<and> 0 < nextMat (sm_store ex_scene)
      \<and> \<not> exempt_v2 (sm_store ex_scene) (Suc 0)"
    by (simp_all add: ex_scene_simps ex_materialRef ex_store_simps ex_exempt)
  have v3: "wf_app ex_app \<and> bear ex_app = Some (ex_object True [0, Suc 0, 2, 3, 4, 5])
      \<and> 5 \<in> set (nodes (ex_object True [0, Suc 0, 2, 3, 4, 5])) \<and> exempt (bearParts ex_app) 5"
    "wf_app ex_app \<and> bear ex_app = Some (ex_object True [0, Suc 0, 2, 3, 4, 5])
      \<and> Suc 0 \<in> set (nodes (ex_object True [0, Suc 0, 2, 3, 4, 5]))
      \<and> \<not> exempt (bearParts ex_app) (Suc 0)"
    using wf_ex_app ex_exempt by (simp_all add: ex_app_simps(1) ex_object_def)
  have look: "surfaceMaterial ex_store 3 = Some (ex_material ''EyeBlack'' 0)"
    "surfaceMaterial ex_store (Suc 0) = Some (ex_material ''Fur'' 0x8B4513)"
    "surfaceMaterial ex_store 5 = Some (ex_material ''Fur'' 0x8B4513)"
    by (simp_all add: surfaceMaterial_def ex_store_simps)
  from recolor_respects_exemption [of ex_scene 3 "Suc 0" "''white''" ex_app "ex_object True [0, Suc 0, 2, 3, 4, 5]"
        "''panda''" "''eyes''" 0] v2(1)
  have 1: "surfaceMaterial (sm_store (updateFurColor_v2 ''white'' ex_scene)) 3
     = Some (ex_material ''EyeBlack'' 0)"
    by (simp add: look ex_scene_simps)
  from recolor_respects_exemption [of ex_scene "Suc 0" 0 "''blue''" ex_app "ex_object True [0, Suc 0, 2, 3, 4, 5]"
        "''panda''" "''eyes''" "0x4169E1"] v2(2) v3(2)
  have 2: "surfaceMaterial (sm_store (updateEyeColor_v2 ''blue'' ex_scene)) 1
     = Some (ex_material ''Fur'' 0x8B4513)"
    and 4: "surfaceMaterial (store (updatePartColor ''eyes'' 0x4169E1 ex_app)) 1
     = Some (ex_material ''Fur'' 0x8B4513)"
    by (simp_all add: look ex_scene_simps ex_app_simps)
  from recolor_respects_exemption [of ex_scene 5 0 "''blue''" ex_app "ex_object True [0, Suc 0, 2, 3, 4, 5]"
        "''panda''" "''eyes''" "0x4169E1"] v3(1)
  have 3: "surfaceMaterial (store (updateBearSkin ''panda'' ex_app)) 5
     = Some (ex_material ''Fur'' 0x8B4513)"
    by (simp add: look ex_app_simps)
  from 1 2 3 4 show ?thesis by (simp add: ex_app_simps ex_materialRef)
qed

text \<open>
  Claim C9. When \<open>updateHat(h)\<close> shows a loaded accessory \<open>h\<close>, or \<open>toggleScarf(true)\<close>
  shows the loaded scarf, the call returns, the accessory is visible afterwards and the
  material of every mesh of it has the colour that \<open>setHex\<close> makes of
  \<open>state.currentAccessoryColor\<close>, which the call does not change. That colour is
  \<open>state.currentAccessoryColor\<close> itself when this number is a 24-bit colour.
\<close>

theorem shown_accessory_carries_current_color:
  "(hatType \<noteq> ''none'' \<and> accessories s hatType = Some a \<and> child \<in> set (nodes a)
      \<and> materialRef (store s) child = Some m
    \<longrightarrow> (\<exists>s'. updateHat hatType s = Returns s'
          \<and> map_option visible (accessories s' hatType) = Some True
          \<and> materialRef (store s') child = Some m
          \<and> color (mats (store s') m) = setHex (currentAccessoryColor (state s))
          \<and> currentAccessoryColor (state s') = currentAccessoryColor (state s)))
   \<and> (accessories s ''scarf'' = Some a \<and> child \<in> set (nodes a)
      \<and> materialRef (store s) child = Some m
    \<longrightarrow> (\<exists>s'. toggleScarf True s = Returns s'
          \<and> map_option visible (accessories s' ''scarf'') = Some True
          \<and> materialRef (store s') child = Some m
          \<and> color (mats (store s') m) = setHex (currentAccessoryColor (state s))
          \<and> currentAccessoryColor (state s') = currentAccessoryColor (state s)))
   \<and> (0 \<le> currentAccessoryColor (state s) \<and> currentAccessoryColor (state s) \<le> 0xFFFFFF
    \<longrightarrow> setHex (currentAccessoryColor (state s)) = currentAccessoryColor (state s))"
proof (intro conjI impI)
  assume a: "hatType \<noteq> ''none'' \<and> accessories s hatType = Some a \<and> child \<in> set (nodes a)
      \<and> materialRef (store s) child = Some m"
  then obtain s' where r: "updateHat hatType s = Returns s'"
    using updateHat_own_returns [of s hatType a] by auto
  then have s': "stateOf (updateHat hatType s) = s'" by simp
  from a have st: "store (stateOf (updateHat hatType s))
      = fold (accessoryChild (currentAccessoryColor (state s))) (nodes a) (store s)"
    by (simp add: store_updateHat)
  from a have 1: "map_option visible (accessories (stateOf (updateHat hatType s)) hatType)
      = Some True"
    by (simp add: accessories_updateHat)
  from a have 2: "materialRef (store (stateOf (updateHat hatType s))) child = Some m"
    by (simp add: st materialRef_def)
  from a have 3: "color (mats (store (stateOf (updateHat hatType s))) m)
      = setHex (currentAccessoryColor (state s))"
    unfolding st by (intro color_fold_accessoryChild [of child]) simp_all
  have 4: "currentAccessoryColor (state (stateOf (updateHat hatType s)))
      = currentAccessoryColor (state s)"
    by (rule currentAccessoryColor_updateHat)
  from r 1 2 3 4 show "\<exists>s'. updateHat hatType s = Returns s'
          \<and> map_option visible (accessories s' hatType) = Some True
          \<and> materialRef (store s') child = Some m
          \<and> color (mats (store s') m) = setHex (currentAccessoryColor (state s))
          \<and> currentAccessoryColor (state s') = currentAccessoryColor (state s)"
    unfolding s' by simp
next
  assume a: "accessories s ''scarf'' = Some a \<and> child \<in> set (nodes a)
      \<and> materialRef (store s) child = Some m"
  obtain s' where r: "toggleScarf True s = Returns s'"
    and sc: "state s' = (state s)\<lparr>scarfVisible := True\<rparr>"
    using toggleScarf_returns [of True s] by auto
  then have s': "stateOf (toggleScarf True s) = s'" by simp
  from a have st: "store (stateOf (toggleScarf True s))
      = fold (accessoryChild (currentAccessoryColor (state s))) (nodes a) (store s)"
    by (simp add: store_toggleScarf_True)
  from a have 1: "map_option visible (accessories (stateOf (toggleScarf True s)) ''scarf'')
      = Some True"
    by (simp add: toggleScarf_def Let_def accessories_andThen_section
        accessories_setAccessoryVisible)
  from a have 2: "materialRef (store (stateOf (toggleScarf True s))) child = Some m"
    by (simp add: st materialRef_def)
  from a have 3: "color (mats (store (stateOf (toggleScarf True s))) m)
      = setHex (currentAccessoryColor (state s))"
    unfolding st by (intro color_fold_accessoryChild [of child]) simp_all
  from r 1 2 3 sc show "\<exists>s'. toggleScarf True s = Returns s'
          \<and> map_option visible (accessories s' ''scarf'') = Some True
          \<and> materialRef (store s') child = Some m
          \<and> color (mats (store s') m) = setHex (currentAccessoryColor (state s))
          \<and> currentAccessoryColor (state s') = currentAccessoryColor (state s)"
    unfolding s' by simp
next
  assume "0 \<le> currentAccessoryColor (state s) \<and> currentAccessoryColor (state s) \<le> 0xFFFFFF"
  then show "setHex (currentAccessoryColor (state s)) = currentAccessoryColor (state s)"
    by (simp add: setHex_in_range)
qed

theorem shown_accessory_carries_current_color_witness:
  "color (mats (store ex_app) 2) = 0xFFFFFF
   \<and> currentAccessoryColor (state ex_app) = 0xFF0000
   \<and> map_option visible (accessories ex_app ''hat'') = Some False
   \<and> (\<exists>s'. updateHat ''hat'' ex_app = Returns s'
          \<and> map_option visible (accessories s' ''hat'') = Some True
          \<and> materialRef (store s') 10 = Some 2
          \<and> color (mats (store s') 2) = 0xFF0000)
   \<and> (\<exists>s'. toggleScarf True ex_app = Returns s'
          \<and> color (mats (store s') 4) = 0xFF0000)
   \<and> setHex 0xFF0000 = 0xFF0000"
proof -
  have h: "''hat'' \<noteq> ''none'' \<and> accessories ex_app ''hat'' = Some (ex_object False [10])
      \<and> 10 \<in> set (nodes (ex_object False [10])) \<and> materialRef (store ex_app) 10 = Some 2"
    by (simp add: ex_app_simps ex_object_def ex_materialRef)
  have sc: "accessories ex_app ''scarf'' = Some (ex_object True [12])
      \<and> 12 \<in> set (nodes (ex_object True [12])) \<and> materialRef (store ex_app) 12 = Some 4"
    by (simp add: ex_app_simps ex_object_def ex_materialRef)
  have b: "color (mats (store ex_app) 2) = 0xFFFFFF"
    "map_option visible (accessories ex_app ''hat'') = Some False"
    by (simp_all add: ex_app_simps ex_store_simps ex_material_def ex_object_def)
  have r: "0 \<le> currentAccessoryColor (state ex_app)
      \<and> currentAccessoryColor (state ex_app) \<le> 0xFFFFFF"
    by (simp add: ex_app_simps)
  from shown_accessory_carries_current_color [of "''hat''" ex_app "ex_object False [10]" 10 2]
    h r
  have 1: "\<exists>s'. updateHat ''hat'' ex_app = Returns s'
          \<and> map_option visible (accessories s' ''hat'') = Some True
          \<and> materialRef (store s') 10 = Some 2
          \<and> color (mats (store s') 2) = 0xFF0000"
    and 3: "setHex 0xFF0000 = 0xFF0000"
    by (auto simp: ex_app_simps)
  from shown_accessory_carries_current_color [of "''none''" ex_app "ex_object True [12]" 12 4]
    sc r
  have 2: "\<exists>s'. toggleScarf True ex_app = Returns s'
          \<and> color (mats (store s') 4) = 0xFF0000"
    by (auto simp: ex_app_simps)
  from 1 2 3 b show ?thesis by (simp add: ex_app_simps)
qed

end
